theory Spec2Isabelle
  imports Complex_Main "HOL-Library.List_Lexorder" "HOL-Library.Code_Target_Nat"
begin

unbundle bit_operations_syntax

section \<open>Strings\<close>

text \<open>
  A Python string is a sequence of Unicode code points; it is modelled as a list of
  natural numbers, so that \<open>length\<close> counts what Python's \<open>len\<close> counts and the
  order of \<open>HOL-Library.List_Lexorder\<close> is Python's string comparison.
  Font sizes and coordinates are Python floats; they are modelled as exact rationals.
\<close>

type_synonym ustring = "nat list"

definition u :: "string \<Rightarrow> ustring" where
  "u s = map of_char s"

text \<open>
  The white space of \<open>str.strip()\<close>, \<open>str.split()\<close> and of \<open>\s\<close> in a pattern:
  the code points for which \<open>str.isspace\<close> holds.
\<close>

definition is_space :: "nat \<Rightarrow> bool" where
  "is_space c = ((9 \<le> c \<and> c \<le> 13) \<or> (28 \<le> c \<and> c \<le> 32) \<or> c = 0x85 \<or> c = 0xA0
     \<or> c = 0x1680 \<or> (0x2000 \<le> c \<and> c \<le> 0x200A) \<or> c = 0x2028 \<or> c = 0x2029
     \<or> c = 0x202F \<or> c = 0x205F \<or> c = 0x3000)"

definition strip :: "ustring \<Rightarrow> ustring" where
  "strip s = rev (dropWhile is_space (rev (dropWhile is_space s)))"

text \<open>
  Case mapping. The model has the simple case pairs of Basic Latin, of the Latin-1
  Supplement and of the Cyrillic block; every other code point is its own lower and
  upper case here.
\<close>

definition lower_cp :: "nat \<Rightarrow> nat" where
  "lower_cp c =
     (if (0x41 \<le> c \<and> c \<le> 0x5A) \<or> (0xC0 \<le> c \<and> c \<le> 0xDE \<and> c \<noteq> 0xD7)
         \<or> (0x410 \<le> c \<and> c \<le> 0x42F) then c + 32
      else if 0x400 \<le> c \<and> c \<le> 0x40F then c + 80
      else c)"

definition upper_cp :: "nat \<Rightarrow> nat" where
  "upper_cp c =
     (if (0x61 \<le> c \<and> c \<le> 0x7A) \<or> (0xE0 \<le> c \<and> c \<le> 0xFE \<and> c \<noteq> 0xF7)
         \<or> (0x430 \<le> c \<and> c \<le> 0x44F) then c - 32
      else if 0x450 \<le> c \<and> c \<le> 0x45F then c - 80
      else c)"

definition lower :: "ustring \<Rightarrow> ustring" where
  "lower s = map lower_cp s"

definition upper :: "ustring \<Rightarrow> ustring" where
  "upper s = map upper_cp s"

text \<open>\<open>starts_with s p\<close> is \<open>s.startswith(p)\<close>; \<open>contains k s\<close> is \<open>k in s\<close>.\<close>

fun starts_with :: "ustring \<Rightarrow> ustring \<Rightarrow> bool" where
  "starts_with s [] = True"
| "starts_with [] (p # ps) = False"
| "starts_with (c # cs) (p # ps) = (c = p \<and> starts_with cs ps)"

fun contains :: "ustring \<Rightarrow> ustring \<Rightarrow> bool" where
  "contains k [] = (k = [])"
| "contains k (c # cs) = (starts_with (c # cs) k \<or> contains k cs)"

text \<open>\<open>s.split()\<close>, \<open>" ".join(ws)\<close>, \<open>s.strip(chars)\<close> and \<open>s.endswith(p)\<close>.\<close>

fun split_acc :: "ustring \<Rightarrow> ustring \<Rightarrow> ustring list" where
  "split_acc cur [] = (if cur = [] then [] else [rev cur])"
| "split_acc cur (c # cs) =
     (if is_space c then (if cur = [] then split_acc [] cs else rev cur # split_acc [] cs)
      else split_acc (c # cur) cs)"

definition split :: "ustring \<Rightarrow> ustring list" where
  "split s = split_acc [] s"

fun join_sp :: "ustring list \<Rightarrow> ustring" where
  "join_sp [] = []"
| "join_sp [w] = w"
| "join_sp (w # v # ws) = w @ [32] @ join_sp (v # ws)"

definition strip_chars :: "ustring \<Rightarrow> ustring \<Rightarrow> ustring" where
  "strip_chars chars s =
     rev (dropWhile (\<lambda>c. c \<in> set chars) (rev (dropWhile (\<lambda>c. c \<in> set chars) s)))"

definition ends_with :: "ustring \<Rightarrow> ustring \<Rightarrow> bool" where
  "ends_with s p = starts_with (rev s) (rev p)"

section \<open>Document model\<close>

text \<open>
  A span of the page dictionary of the decoder: \<open>span["text"]\<close>, \<open>span["size"]\<close>,
  \<open>span["flags"]\<close>. The field \<open>span_angle\<close> is the value of \<open>get_text_rotation(span)\<close>
  in degrees (the source computes it with \<open>atan2\<close> from the transformation matrix).
\<close>

record span =
  span_text :: ustring
  span_size :: rat
  span_flags :: nat
  span_angle :: rat

text \<open>\<open>bool(flags & 16)\<close>\<close>

definition is_bold :: "span \<Rightarrow> bool" where
  "is_bold s = (span_flags s AND 16 \<noteq> 0)"

type_synonym bbox = "rat \<times> rat \<times> rat \<times> rat"

record line =
  spans_of :: "span list"
  bbox_of :: bbox

text \<open>A block either has the key \<open>"lines"\<close> (a text block) or has not (an image block).\<close>

datatype block = TextBlock "line list" | OtherBlock

fun block_lines :: "block \<Rightarrow> line list" where
  "block_lines (TextBlock ls) = ls"
| "block_lines OtherBlock = []"

text \<open>
  A page: its blocks (\<open>page.get_text("dict")["blocks"]\<close>), \<open>page.rect.width\<close> and
  \<open>page.rect.height\<close>, the rectangles of \<open>page.get_drawings()\<close> (\<open>None\<close> for a path
  without a rectangle) and the plain text \<open>page.get_text()\<close>.
\<close>

record page =
  page_blocks :: "block list"
  page_rect_width :: rat
  page_rect_height :: rat
  page_drawings :: "bbox option list"
  page_plain_text :: ustring

type_synonym document = "page list"

datatype level = H1 | H2 | H3

section \<open>Static tables of \<open>setup_multilingual_patterns\<close>\<close>

datatype lang = En | Ja | Zh | Es | Fr | De | Ar | Ko | Ru

datatype category = K_part | K_appendix | K_chapter | K_introduction | K_conclusion
  | K_references | K_table_of_contents

text \<open>The keys of the dictionaries, in their insertion order.\<close>

definition all_langs :: "lang list" where
  "all_langs = [En, Ja, Zh, Es, Fr, De, Ar, Ko, Ru]"

definition all_categories :: "category list" where
  "all_categories = [K_part, K_appendix, K_chapter, K_introduction, K_conclusion,
     K_references, K_table_of_contents]"

definition heading_keywords :: "lang \<Rightarrow> category \<Rightarrow> ustring list" where
  "heading_keywords l c =
     (case l of
        En \<Rightarrow> (case c of
              K_part \<Rightarrow>
               [u ''part'', u ''section'']
            | K_appendix \<Rightarrow>
               [u ''appendix'', u ''annex'']
            | K_chapter \<Rightarrow>
               [u ''chapter'', u ''chap'']
            | K_introduction \<Rightarrow>
               [u ''introduction'', u ''intro'']
            | K_conclusion \<Rightarrow>
               [u ''conclusion'', u ''summary'']
            | K_references \<Rightarrow>
               [u ''references'', u ''bibliography'', u ''citations'']
            | K_table_of_contents \<Rightarrow>
               [u ''table of contents'', u ''contents'', u ''toc''])
        | Ja \<Rightarrow> (case c of
              K_part \<Rightarrow>
               [[37096], [31456], [12497, 12540, 12488], [31532, 46, 42, 37096], [31532, 46, 42, 31456]]
            | K_appendix \<Rightarrow>
               [[20184, 37682], [21029, 28155], [28155, 20184], [21442, 32771, 36039, 26009]]
            | K_chapter \<Rightarrow>
               [[31456], [31532, 46, 42, 31456], [12481, 12515, 12503, 12479, 12540]]
            | K_introduction \<Rightarrow>
               [[12399, 12376, 12417, 12395], [24207, 35542], [23566, 20837], [27010, 35201],
                [12414, 12360, 12364, 12365]]
            | K_conclusion \<Rightarrow>
               [[32080, 35542], [12414, 12392, 12417], [12362, 12431, 12426, 12395], [32207, 25324]]
            | K_references \<Rightarrow>
               [[21442, 32771, 25991, 29486], [24341, 29992, 25991, 29486], [25991, 29486],
                [21442, 29031]]
            | K_table_of_contents \<Rightarrow>
               [[30446, 27425], [20869, 23481], [12418, 12367, 12376]])
        | Zh \<Rightarrow> (case c of
              K_part \<Rightarrow>
               [[37096, 20998], [37096], [31456], [31532, 46, 42, 37096], [31532, 46, 42, 31456]]
            | K_appendix \<Rightarrow>
               [[38468, 24405], [38468, 37636], [38468, 20214], [21442, 32771, 36164, 26009],
                [21443, 32771, 36039, 26009]]
            | K_chapter \<Rightarrow>
               [[31456], [31532, 46, 42, 31456], [31456, 33410], [31456, 31680]]
            | K_introduction \<Rightarrow>
               [[20171, 32461], [20171, 32057], [24207, 35328], [23548, 35328], [23566, 35328],
                [27010, 36848]]
            | K_conclusion \<Rightarrow>
               [[32467, 35770], [32080, 35542], [24635, 32467], [32317, 32080], [23567, 32467],
                [23567, 32080]]
            | K_references \<Rightarrow>
               [[21442, 32771, 25991, 29486], [21443, 32771, 25991, 29563],
                [24341, 29992, 25991, 29486], [24341, 29992, 25991, 29563], [25991, 29486],
                [25991, 29563]]
            | K_table_of_contents \<Rightarrow>
               [[30446, 24405], [30446, 37636], [20869, 23481], [20839, 23481]])
        | Es \<Rightarrow> (case c of
              K_part \<Rightarrow>
               [u ''parte'', [115, 101, 99, 99, 105, 243, 110], [99, 97, 112, 237, 116, 117, 108, 111]]
            | K_appendix \<Rightarrow>
               [[97, 112, 233, 110, 100, 105, 99, 101], u ''anexo'', u ''adjunto'']
            | K_chapter \<Rightarrow>
               [[99, 97, 112, 237, 116, 117, 108, 111], u ''cap'']
            | K_introduction \<Rightarrow>
               [[105, 110, 116, 114, 111, 100, 117, 99, 99, 105, 243, 110], u ''intro'',
                [112, 114, 101, 115, 101, 110, 116, 97, 99, 105, 243, 110]]
            | K_conclusion \<Rightarrow>
               [[99, 111, 110, 99, 108, 117, 115, 105, 243, 110], u ''resumen'',
                [115, 237, 110, 116, 101, 115, 105, 115]]
            | K_references \<Rightarrow>
               [u ''referencias'', [98, 105, 98, 108, 105, 111, 103, 114, 97, 102, 237, 97], u ''citas'']
            | K_table_of_contents \<Rightarrow>
               [[237, 110, 100, 105, 99, 101], u ''contenido'', u ''tabla de contenidos''])
        | Fr \<Rightarrow> (case c of
              K_part \<Rightarrow>
               [u ''partie'', u ''section'', u ''chapitre'']
            | K_appendix \<Rightarrow>
               [u ''annexe'', u ''appendice'', [99, 111, 109, 112, 108, 233, 109, 101, 110, 116]]
            | K_chapter \<Rightarrow>
               [u ''chapitre'', u ''chap'']
            | K_introduction \<Rightarrow>
               [u ''introduction'', [112, 114, 233, 115, 101, 110, 116, 97, 116, 105, 111, 110],
                u ''avant-propos'']
            | K_conclusion \<Rightarrow>
               [u ''conclusion'', [114, 233, 115, 117, 109, 233],
                [115, 121, 110, 116, 104, 232, 115, 101]]
            | K_references \<Rightarrow>
               [[114, 233, 102, 233, 114, 101, 110, 99, 101, 115], u ''bibliographie'', u ''citations'']
            | K_table_of_contents \<Rightarrow>
               [[116, 97, 98, 108, 101, 32, 100, 101, 115, 32, 109, 97, 116, 105, 232, 114, 101, 115],
                u ''sommaire'', u ''contenu''])
        | De \<Rightarrow> (case c of
              K_part \<Rightarrow>
               [u ''teil'', u ''abschnitt'', u ''kapitel'']
            | K_appendix \<Rightarrow>
               [u ''anhang'', u ''anlage'', u ''beilage'']
            | K_chapter \<Rightarrow>
               [u ''kapitel'', u ''kap'']
            | K_introduction \<Rightarrow>
               [[101, 105, 110, 102, 252, 104, 114, 117, 110, 103], u ''einleitung'', u ''vorwort'']
            | K_conclusion \<Rightarrow>
               [u ''schlussfolgerung'', u ''zusammenfassung'', u ''fazit'']
            | K_references \<Rightarrow>
               [u ''literatur'', u ''bibliographie'', u ''quellen'']
            | K_table_of_contents \<Rightarrow>
               [u ''inhaltsverzeichnis'', u ''inhalt''])
        | Ar \<Rightarrow> (case c of
              K_part \<Rightarrow>
               [[1580, 1586, 1569], [1602, 1587, 1605], [1601, 1589, 1604], [1576, 1575, 1576]]
            | K_appendix \<Rightarrow>
               [[1605, 1604, 1581, 1602], [1605, 1585, 1601, 1602], [1590, 1605, 1610, 1605, 1577]]
            | K_chapter \<Rightarrow>
               [[1601, 1589, 1604], [1576, 1575, 1576]]
            | K_introduction \<Rightarrow>
               [[1605, 1602, 1583, 1605, 1577], [1578, 1605, 1607, 1610, 1583],
                [1575, 1587, 1578, 1607, 1604, 1575, 1604]]
            | K_conclusion \<Rightarrow>
               [[1582, 1575, 1578, 1605, 1577], [1575, 1587, 1578, 1606, 1578, 1575, 1580],
                [1605, 1604, 1582, 1589]]
            | K_references \<Rightarrow>
               [[1605, 1585, 1575, 1580, 1593], [1605, 1589, 1575, 1583, 1585],
                [1576, 1576, 1604, 1610, 1608, 1594, 1585, 1575, 1601, 1610, 1575]]
            | K_table_of_contents \<Rightarrow>
               [[1601, 1607, 1585, 1587, 32, 1575, 1604, 1605, 1581, 1578, 1608, 1610, 1575, 1578],
                [1575, 1604, 1605, 1581, 1578, 1608, 1610, 1575, 1578], [1601, 1607, 1585, 1587]])
        | Ko \<Rightarrow> (case c of
              K_part \<Rightarrow>
               [[48512], [54200], [51109], [51228, 46, 42, 48512], [51228, 46, 42, 54200]]
            | K_appendix \<Rightarrow>
               [[48512, 47197], [52392, 48512], [52280, 44256, 51088, 47308]]
            | K_chapter \<Rightarrow>
               [[51109], [51228, 46, 42, 51109], [52309, 53552]]
            | K_introduction \<Rightarrow>
               [[49436, 47200], [46020, 51077], [44060, 50836], [47672, 47532, 47568]]
            | K_conclusion \<Rightarrow>
               [[44208, 47200], [50836, 50557], [47610, 51020, 47568], [51221, 47532]]
            | K_references \<Rightarrow>
               [[52280, 44256, 47928, 54732], [51064, 50857, 47928, 54732], [47928, 54732],
                [52280, 51312]]
            | K_table_of_contents \<Rightarrow>
               [[47785, 52264], [52264, 47168], [45236, 50857]])
        | Ru \<Rightarrow> (case c of
              K_part \<Rightarrow>
               [[1095, 1072, 1089, 1090, 1100], [1088, 1072, 1079, 1076, 1077, 1083],
                [1075, 1083, 1072, 1074, 1072]]
            | K_appendix \<Rightarrow>
               [[1087, 1088, 1080, 1083, 1086, 1078, 1077, 1085, 1080, 1077],
                [1076, 1086, 1087, 1086, 1083, 1085, 1077, 1085, 1080, 1077]]
            | K_chapter \<Rightarrow>
               [[1075, 1083, 1072, 1074, 1072], [1075, 1083]]
            | K_introduction \<Rightarrow>
               [[1074, 1074, 1077, 1076, 1077, 1085, 1080, 1077],
                [1087, 1088, 1077, 1076, 1080, 1089, 1083, 1086, 1074, 1080, 1077],
                [1074, 1089, 1090, 1091, 1087, 1083, 1077, 1085, 1080, 1077]]
            | K_conclusion \<Rightarrow>
               [[1079, 1072, 1082, 1083, 1102, 1095, 1077, 1085, 1080, 1077],
                [1074, 1099, 1074, 1086, 1076, 1099], [1088, 1077, 1079, 1102, 1084, 1077]]
            | K_references \<Rightarrow>
               [[1083, 1080, 1090, 1077, 1088, 1072, 1090, 1091, 1088, 1072],
                [1073, 1080, 1073, 1083, 1080, 1086, 1075, 1088, 1072, 1092, 1080, 1103],
                [1080, 1089, 1090, 1086, 1095, 1085, 1080, 1082, 1080]]
            | K_table_of_contents \<Rightarrow>
               [[1089, 1086, 1076, 1077, 1088, 1078, 1072, 1085, 1080, 1077],
                [1086, 1075, 1083, 1072, 1074, 1083, 1077, 1085, 1080, 1077]]))"

definition month_names :: "lang \<Rightarrow> ustring list" where
  "month_names l =
     (case l of
          En \<Rightarrow>
            [u ''january'', u ''february'', u ''march'', u ''april'', u ''may'', u ''june'',
             u ''july'', u ''august'', u ''september'', u ''october'', u ''november'',
             u ''december'', u ''jan'', u ''feb'', u ''mar'', u ''apr'', u ''may'', u ''jun'',
             u ''jul'', u ''aug'', u ''sep'', u ''oct'', u ''nov'', u ''dec'']
        | Ja \<Rightarrow>
            [[49, 26376], [50, 26376], [51, 26376], [52, 26376], [53, 26376], [54, 26376],
             [55, 26376], [56, 26376], [57, 26376], [49, 48, 26376], [49, 49, 26376], [49, 50, 26376]]
        | Zh \<Rightarrow>
            [[19968, 26376], [20108, 26376], [19977, 26376], [22235, 26376], [20116, 26376],
             [20845, 26376], [19971, 26376], [20843, 26376], [20061, 26376], [21313, 26376],
             [21313, 19968, 26376], [21313, 20108, 26376], [49, 26376], [50, 26376], [51, 26376],
             [52, 26376], [53, 26376], [54, 26376], [55, 26376], [56, 26376], [57, 26376],
             [49, 48, 26376], [49, 49, 26376], [49, 50, 26376]]
        | Es \<Rightarrow>
            [u ''enero'', u ''febrero'', u ''marzo'', u ''abril'', u ''mayo'', u ''junio'',
             u ''julio'', u ''agosto'', u ''septiembre'', u ''octubre'', u ''noviembre'',
             u ''diciembre'', u ''ene'', u ''feb'', u ''mar'', u ''abr'', u ''may'', u ''jun'',
             u ''jul'', u ''ago'', u ''sep'', u ''oct'', u ''nov'', u ''dic'']
        | Fr \<Rightarrow>
            [u ''janvier'', [102, 233, 118, 114, 105, 101, 114], u ''mars'', u ''avril'', u ''mai'',
             u ''juin'', u ''juillet'', [97, 111, 251, 116], u ''septembre'', u ''octobre'',
             u ''novembre'', [100, 233, 99, 101, 109, 98, 114, 101], u ''janv'',
             [102, 233, 118, 114], u ''mars'', u ''avr'', u ''mai'', u ''juin'', u ''juil'',
             [97, 111, 251, 116], u ''sept'', u ''oct'', u ''nov'', [100, 233, 99]]
        | De \<Rightarrow>
            [u ''januar'', u ''februar'', [109, 228, 114, 122], u ''april'', u ''mai'', u ''juni'',
             u ''juli'', u ''august'', u ''september'', u ''oktober'', u ''november'',
             u ''dezember'', u ''jan'', u ''feb'', [109, 228, 114], u ''apr'', u ''mai'', u ''jun'',
             u ''jul'', u ''aug'', u ''sep'', u ''okt'', u ''nov'', u ''dez'']
        | Ar \<Rightarrow>
            [[1610, 1606, 1575, 1610, 1585], [1601, 1576, 1585, 1575, 1610, 1585],
             [1605, 1575, 1585, 1587], [1571, 1576, 1585, 1610, 1604], [1605, 1575, 1610, 1608],
             [1610, 1608, 1606, 1610, 1608], [1610, 1608, 1604, 1610, 1608],
             [1571, 1594, 1587, 1591, 1587], [1587, 1576, 1578, 1605, 1576, 1585],
             [1571, 1603, 1578, 1608, 1576, 1585], [1606, 1608, 1601, 1605, 1576, 1585],
             [1583, 1610, 1587, 1605, 1576, 1585]]
        | Ko \<Rightarrow>
            [[49, 50900], [50, 50900], [51, 50900], [52, 50900], [53, 50900], [54, 50900],
             [55, 50900], [56, 50900], [57, 50900], [49, 48, 50900], [49, 49, 50900], [49, 50, 50900]]
        | Ru \<Rightarrow>
            [[1103, 1085, 1074, 1072, 1088, 1100], [1092, 1077, 1074, 1088, 1072, 1083, 1100],
             [1084, 1072, 1088, 1090], [1072, 1087, 1088, 1077, 1083, 1100], [1084, 1072, 1081],
             [1080, 1102, 1085, 1100], [1080, 1102, 1083, 1100],
             [1072, 1074, 1075, 1091, 1089, 1090], [1089, 1077, 1085, 1090, 1103, 1073, 1088, 1100],
             [1086, 1082, 1090, 1103, 1073, 1088, 1100], [1085, 1086, 1103, 1073, 1088, 1100],
             [1076, 1077, 1082, 1072, 1073, 1088, 1100], [1103, 1085, 1074], [1092, 1077, 1074],
             [1084, 1072, 1088], [1072, 1087, 1088], [1084, 1072, 1081], [1080, 1102, 1085],
             [1080, 1102, 1083], [1072, 1074, 1075], [1089, 1077, 1085], [1086, 1082, 1090],
             [1085, 1086, 1103], [1076, 1077, 1082]])"

definition warning_words :: "lang \<Rightarrow> ustring list" where
  "warning_words l =
     (case l of
          En \<Rightarrow>
            [u ''required'', u ''must'', u ''mandatory'', u ''warning'', u ''notice'',
             u ''important'', u ''attention'']
        | Ja \<Rightarrow>
            [[24517, 38920], [24517, 35201], [27880, 24847], [35686, 21578], [37325, 35201],
             [12362, 30693, 12425, 12379], [32681, 21209]]
        | Zh \<Rightarrow>
            [[24517, 38656], [24517, 39035], [24517, 38920], [27880, 24847], [35686, 21578],
             [37325, 35201], [36890, 30693], [24378, 21046], [24375, 21046]]
        | Es \<Rightarrow>
            [u ''requerido'', u ''obligatorio'', u ''advertencia'', u ''aviso'', u ''importante'',
             [97, 116, 101, 110, 99, 105, 243, 110]]
        | Fr \<Rightarrow>
            [u ''requis'', u ''obligatoire'', u ''avertissement'', u ''avis'', u ''important'',
             u ''attention'']
        | De \<Rightarrow>
            [u ''erforderlich'', u ''pflicht'', u ''warnung'', u ''hinweis'', u ''wichtig'',
             u ''achtung'']
        | Ar \<Rightarrow>
            [[1605, 1591, 1604, 1608, 1576], [1573, 1580, 1576, 1575, 1585, 1610],
             [1578, 1581, 1584, 1610, 1585], [1573, 1588, 1593, 1575, 1585], [1605, 1607, 1605],
             [1575, 1606, 1578, 1576, 1575, 1607]]
        | Ko \<Rightarrow>
            [[54596, 49688], [54596, 50836], [51452, 51032], [44221, 44256], [51473, 50836],
             [50508, 47548], [51032, 47924]]
        | Ru \<Rightarrow>
            [[1086, 1073, 1103, 1079, 1072, 1090, 1077, 1083, 1100, 1085, 1086],
             [1085, 1077, 1086, 1073, 1093, 1086, 1076, 1080, 1084, 1086],
             [1087, 1088, 1077, 1076, 1091, 1087, 1088, 1077, 1078, 1076, 1077, 1085, 1080, 1077],
             [1091, 1074, 1077, 1076, 1086, 1084, 1083, 1077, 1085, 1080, 1077],
             [1074, 1072, 1078, 1085, 1086], [1074, 1085, 1080, 1084, 1072, 1085, 1080, 1077]])"


section \<open>Language detection\<close>

record script_counts =
  latin :: nat
  cjk :: nat
  arabic :: nat
  cyrillic :: nat

datatype script = Latin | Cjk | Arabic | Cyrillic

definition count_char :: "nat \<Rightarrow> script_counts \<Rightarrow> script_counts" where
  "count_char code sc =
     (if (0x0041 \<le> code \<and> code \<le> 0x005A) \<or> (0x0061 \<le> code \<and> code \<le> 0x007A)
        then sc\<lparr>latin := latin sc + 1\<rparr>
      else if (0x4E00 \<le> code \<and> code \<le> 0x9FFF) \<or> (0x3040 \<le> code \<and> code \<le> 0x309F)
           \<or> (0x30A0 \<le> code \<and> code \<le> 0x30FF)
        then sc\<lparr>cjk := cjk sc + 1\<rparr>
      else if 0x0600 \<le> code \<and> code \<le> 0x06FF then sc\<lparr>arabic := arabic sc + 1\<rparr>
      else if 0x0400 \<le> code \<and> code \<le> 0x04FF then sc\<lparr>cyrillic := cyrillic sc + 1\<rparr>
      else sc)"

definition count_scripts :: "ustring \<Rightarrow> script_counts" where
  "count_scripts text =
     fold count_char text \<lparr>latin = 0, cjk = 0, arabic = 0, cyrillic = 0\<rparr>"

text \<open>
  \<open>max(d, key=d.get)\<close>: the first key, in the order of the dictionary, whose value is
  the greatest.
\<close>

fun max_key_from :: "'k \<times> nat \<Rightarrow> ('k \<times> nat) list \<Rightarrow> 'k" where
  "max_key_from best [] = fst best"
| "max_key_from best (x # xs) =
     (if snd x > snd best then max_key_from x xs else max_key_from best xs)"

definition max_script :: "script_counts \<Rightarrow> script" where
  "max_script sc =
     max_key_from (Latin, latin sc) [(Cjk, cjk sc), (Arabic, arabic sc), (Cyrillic, cyrillic sc)]"

definition is_kana :: "nat \<Rightarrow> bool" where
  "is_kana c = ((0x3040 \<le> c \<and> c \<le> 0x309F) \<or> (0x30A0 \<le> c \<and> c \<le> 0x30FF))"

definition is_hangul :: "nat \<Rightarrow> bool" where
  "is_hangul c = (0xAC00 \<le> c \<and> c \<le> 0xD7AF)"

definition keyword_matches :: "lang \<Rightarrow> ustring \<Rightarrow> nat" where
  "keyword_matches l text_lower =
     length [keyword \<leftarrow> concat (map (heading_keywords l) all_categories).
             contains keyword text_lower]"

fun keyword_language :: "ustring \<Rightarrow> lang list \<Rightarrow> lang" where
  "keyword_language text_lower [] = En"
| "keyword_language text_lower (l # ls) =
     (if l \<in> set [En, Es, Fr, De] then
        (if keyword_matches l text_lower > 0 then l else keyword_language text_lower ls)
      else keyword_language text_lower ls)"

definition detect_language :: "ustring \<Rightarrow> lang" where
  "detect_language text =
     (if text = [] then En
      else case max_script (count_scripts text) of
        Cjk \<Rightarrow> (if list_ex is_kana text then Ja
                else if list_ex is_hangul text then Ko
                else Zh)
      | Arabic \<Rightarrow> Ar
      | Cyrillic \<Rightarrow> Ru
      | Latin \<Rightarrow> keyword_language (lower text) all_langs)"

section \<open>Regular expressions\<close>

text \<open>
  The patterns of the source are values of the datatype \<open>rx\<close>; the source's pattern text
  is quoted before each list. \<open>\d\<close> is modelled as the ASCII digits, and \<open>\w\<close> as
  the ASCII letters and digits, the underscore, and the letters of the scripts that the
  source names (Latin-1, Cyrillic, Arabic, Kana, Han, Hangul).
\<close>

definition is_digit :: "nat \<Rightarrow> bool" where
  "is_digit c = (48 \<le> c \<and> c \<le> 57)"

definition is_word :: "nat \<Rightarrow> bool" where
  "is_word c = ((48 \<le> c \<and> c \<le> 57) \<or> (65 \<le> c \<and> c \<le> 90) \<or> (97 \<le> c \<and> c \<le> 122)
     \<or> c = 95 \<or> c = 0xAA \<or> c = 0xB5 \<or> c = 0xBA
     \<or> (0xC0 \<le> c \<and> c \<le> 0xFF \<and> c \<noteq> 0xD7 \<and> c \<noteq> 0xF7)
     \<or> (0x400 \<le> c \<and> c \<le> 0x481) \<or> (0x48A \<le> c \<and> c \<le> 0x4FF)
     \<or> (0x620 \<le> c \<and> c \<le> 0x64A) \<or> (0x660 \<le> c \<and> c \<le> 0x669)
     \<or> (0x3041 \<le> c \<and> c \<le> 0x3096) \<or> (0x30A1 \<le> c \<and> c \<le> 0x30FA)
     \<or> (0x4E00 \<le> c \<and> c \<le> 0x9FFF) \<or> (0xAC00 \<le> c \<and> c \<le> 0xD7A3))"

text \<open>
  An item of a character class: a range \<open>a-b\<close>, a single character, \<open>\s\<close>, \<open>\d\<close>
  or \<open>\w\<close>.
\<close>

datatype citem = CR nat nat | CC nat | CSpace | CDigit | CWord

text \<open>
  A pattern: a literal string, a character class, \<open>.\<close>, a sequence, an alternation
  \<open>a|b\<close>, a greedy repetition \<open>r{m,n}\<close> (\<open>None\<close> for no upper bound), and the
  assertions \<open>^\<close>, \<open>$\<close> and \<open>\b\<close>.
\<close>

datatype rx = Str ustring | Cls "citem list" | Dot | Seq "rx list" | Alt "rx list"
  | Rep nat "nat option" rx | Bol | Eol | WordB

abbreviation Star :: "rx \<Rightarrow> rx" where "Star r \<equiv> Rep 0 None r"
abbreviation Plus :: "rx \<Rightarrow> rx" where "Plus r \<equiv> Rep 1 None r"
abbreviation Opt :: "rx \<Rightarrow> rx" where "Opt r \<equiv> Rep 0 (Some 1) r"

text \<open>\<open>'|'.join(re.escape(w) for w in words)\<close> inside a group.\<close>

definition alt_words :: "ustring list \<Rightarrow> rx" where
  "alt_words ws = Alt (map Str ws)"

text \<open>
  A position in the subject string: the character before it (\<open>None\<close> at the start) and
  the rest of the string from it.
\<close>

type_synonym rstate = "nat option \<times> ustring"

fun citem_has :: "citem \<Rightarrow> nat \<Rightarrow> bool" where
  "citem_has (CR a b) c = (a \<le> c \<and> c \<le> b)"
| "citem_has (CC a) c = (c = a)"
| "citem_has CSpace c = is_space c"
| "citem_has CDigit c = is_digit c"
| "citem_has CWord c = is_word c"

definition cls_has :: "citem list \<Rightarrow> nat \<Rightarrow> bool" where
  "cls_has items c = list_ex (\<lambda>it. citem_has it c) items"

text \<open>
  With \<open>re.IGNORECASE\<close> (\<open>ic\<close>) a class matches a character whose lower case, or the
  upper case of that, is in the class; a literal matches a character of the same lower
  case.
\<close>

definition cls_match :: "bool \<Rightarrow> citem list \<Rightarrow> nat \<Rightarrow> bool" where
  "cls_match ic items c =
     (if ic then cls_has items (lower_cp c) \<or> cls_has items (upper_cp (lower_cp c))
      else cls_has items c)"

definition chr_match :: "bool \<Rightarrow> nat \<Rightarrow> nat \<Rightarrow> bool" where
  "chr_match ic p c = (if ic then lower_cp p = lower_cp c else p = c)"

fun str_ends :: "bool \<Rightarrow> ustring \<Rightarrow> rstate \<Rightarrow> rstate list" where
  "str_ends ic [] st = [st]"
| "str_ends ic (p # ps) (prev, []) = []"
| "str_ends ic (p # ps) (prev, c # cs) =
     (if chr_match ic p c then str_ends ic ps (Some c, cs) else [])"

text \<open>Removes repeated elements, keeping the first occurrence of each.\<close>

fun dedup_acc :: "'a list \<Rightarrow> 'a list \<Rightarrow> 'a list" where
  "dedup_acc seen [] = rev seen"
| "dedup_acc seen (x # xs) =
     (if x \<in> set seen then dedup_acc seen xs else dedup_acc (x # seen) xs)"

definition dedup :: "'a list \<Rightarrow> 'a list" where
  "dedup xs = dedup_acc [] xs"

text \<open>
  \<open>rep_ends f fuel mn mx st\<close>: the positions where at least \<open>mn\<close> and at most \<open>mx\<close>
  repetitions of the pattern with end positions \<open>f\<close> can end, the longest first. An
  optional repetition must consume a character, so \<open>mn\<close> plus the length of the rest
  is enough fuel.
\<close>

fun rep_ends :: "(rstate \<Rightarrow> rstate list) \<Rightarrow> nat \<Rightarrow> nat \<Rightarrow> nat option \<Rightarrow> rstate
    \<Rightarrow> rstate list" where
  "rep_ends f 0 mn mx st = (if mn = 0 then [st] else [])"
| "rep_ends f (Suc fuel) mn mx st =
     (if mx = Some 0 then [st]
      else let nexts = (if mn > 0 then f st
                        else [st' \<leftarrow> f st. length (snd st') < length (snd st)]);
               more = concat (map (rep_ends f fuel (mn - 1) (map_option (\<lambda>m. m - 1) mx)) nexts)
           in dedup (if mn = 0 then more @ [st] else more))"

text \<open>
  \<open>rx_ends ic r st\<close>: the positions where a match of \<open>r\<close> that starts at \<open>st\<close> can
  end, in the order in which the backtracking matcher of Python tries them.
\<close>

primrec rx_ends :: "bool \<Rightarrow> rx \<Rightarrow> rstate \<Rightarrow> rstate list" where
  "rx_ends ic (Str w) st = str_ends ic w st"
| "rx_ends ic (Cls items) st =
     (case snd st of [] \<Rightarrow> []
      | c # cs \<Rightarrow> if cls_match ic items c then [(Some c, cs)] else [])"
| "rx_ends ic Dot st =
     (case snd st of [] \<Rightarrow> []
      | c # cs \<Rightarrow> if c \<noteq> 10 then [(Some c, cs)] else [])"
| "rx_ends ic (Seq rs) st =
     foldl (\<lambda>sts f. dedup (concat (map f sts))) [st] (map (rx_ends ic) rs)"
| "rx_ends ic (Alt rs) st = dedup (concat (map (\<lambda>f. f st) (map (rx_ends ic) rs)))"
| "rx_ends ic (Rep mn mx r) st = rep_ends (rx_ends ic r) (mn + length (snd st)) mn mx st"
| "rx_ends ic Bol st = (if fst st = None then [st] else [])"
| "rx_ends ic Eol st = (if snd st = [] \<or> snd st = [10] then [st] else [])"
| "rx_ends ic WordB st =
     (let wb = (case fst st of None \<Rightarrow> False | Some p \<Rightarrow> is_word p);
          wa = (case snd st of [] \<Rightarrow> False | c # cs \<Rightarrow> is_word c)
      in if wb \<noteq> wa then [st] else [])"

fun states_from :: "nat option \<Rightarrow> ustring \<Rightarrow> rstate list" where
  "states_from prev [] = [(prev, [])]"
| "states_from prev (c # cs) = (prev, c # cs) # states_from (Some c) cs"

text \<open>\<open>re.match(r, s)\<close> and \<open>re.search(r, s)\<close> as truth values.\<close>

definition re_match :: "bool \<Rightarrow> rx \<Rightarrow> ustring \<Rightarrow> bool" where
  "re_match ic r s = (rx_ends ic r (None, s) \<noteq> [])"

definition re_search :: "bool \<Rightarrow> rx \<Rightarrow> ustring \<Rightarrow> bool" where
  "re_search ic r s = list_ex (\<lambda>st. rx_ends ic r st \<noteq> []) (states_from None s)"

section \<open>Noise filter\<close>

definition languages_to_check :: "lang \<Rightarrow> lang list" where
  "languages_to_check detected_lang = (if detected_lang \<noteq> En then [detected_lang, En] else [En])"

text \<open>
  The dress-code words of the second warning pattern: three Chinese words for \<open>zh\<close>, two
  Japanese words for \<open>ja\<close>, and \<^verbatim>\<open>shoes?|clothing|dress code|attire\<close> otherwise.
\<close>

definition dress_code_words :: "lang \<Rightarrow> rx" where
  "dress_code_words l =
     (if l = Zh then Alt [Str [0x978B], Str [0x8863, 0x670D], Str [0x7740, 0x88C5]]
      else if l = Ja then Alt [Str [0x9774], Str [0x670D, 0x88C5]]
      else Alt [Seq [Str (u ''shoe''), Opt (Str (u ''s''))], Str (u ''clothing''),
                Str (u ''dress code''), Str (u ''attire'')])"

text \<open>
  The list \<open>toc_patterns\<close>:
  \<^verbatim>\<open>.*\.{3,}.*\<close>
  \<^verbatim>\<open>.*\.{2,}\s*\d+\s*$\<close>
  \<^verbatim>\<open>.*\s+\.+\s*\d+\s*$\<close>
  \<^verbatim>\<open>.*\s+\d+\s*$\<close>
\<close>

definition toc_patterns :: "rx list" where
  "toc_patterns =
    [Seq [Star Dot, Rep 3 None (Str (u ''.'')), Star Dot],
     Seq [Star Dot, Rep 2 None (Str (u ''.'')), Star (Cls [CSpace]), Plus (Cls [CDigit]),
       Star (Cls [CSpace]), Eol],
     Seq [Star Dot, Plus (Cls [CSpace]), Plus (Str (u ''.'')), Star (Cls [CSpace]),
       Plus (Cls [CDigit]), Star (Cls [CSpace]), Eol],
     Seq [Star Dot, Plus (Cls [CSpace]), Plus (Cls [CDigit]), Star (Cls [CSpace]), Eol]]"

text \<open>
  The two patterns that the loop over \<open>languages_to_check\<close> adds to \<open>warning_patterns\<close> for a language:
  \<^verbatim>\<open>.*(?:{warning_words}).*\<close>
  \<^verbatim>\<open>.*(?:{dress_code}).*(?:{warning_words}).*\<close>
\<close>

definition language_warning_patterns :: "lang \<Rightarrow> rx list" where
  "language_warning_patterns l =
    [Seq [Star Dot, alt_words (warning_words l), Star Dot],
     Seq [Star Dot, dress_code_words l, Star Dot, alt_words (warning_words l), Star Dot]]"

text \<open>
  The list \<open>universal_patterns\<close>:
  \<^verbatim>\<open>.*\.COM\b.*\<close>
  \<^verbatim>\<open>.*WWW\..*\<close>
  \<^verbatim>\<open>.*@.*\..*\<close>
  \<^verbatim>\<open>^[A-Z\s]+(?:REQUIRED|MUST|SHOULD|PLEASE|VISIT).*\<close>
\<close>

definition universal_patterns :: "rx list" where
  "universal_patterns =
    [Seq [Star Dot, Str (u ''.COM''), WordB, Star Dot],
     Seq [Star Dot, Str (u ''WWW.''), Star Dot],
     Seq [Star Dot, Str (u ''@''), Star Dot, Str (u ''.''), Star Dot],
     Seq [Bol, Plus (Cls [CR 65 90, CSpace]), Alt [Str (u ''REQUIRED''), Str (u ''MUST''),
       Str (u ''SHOULD''), Str (u ''PLEASE''), Str (u ''VISIT'')], Star Dot]]"

text \<open>
  The list \<open>address_patterns\<close>:
  \<^verbatim>\<open>^\d+\s+[A-Za-z\s\u4e00-\u9fff\u3040-\u309f\u30a0-\u30ff\uac00-\ud7af]+(?:street|st\b|avenue|ave\b|road|rd\b|drive|dr\b|lane|ln\b|parkway|pkwy|boulevard|blvd\b|\u8857|\u8def|\u753a|\u4e01\u76ee)\<close>
  \<^verbatim>\<open>^[A-Z]{2}\s+\d{5}(?:-\d{4})?$\<close>
  \<^verbatim>\<open>^[A-Z][a-z]+(?:\s+[A-Z][a-z]+)*,\s*[A-Z]{2}\s+\d{5}$\<close>
  \<^verbatim>\<open>^(?:Suite|Ste|Apt|Unit|Building|Bldg|Floor|Fl|\u53f7\u5ba4|\u968e)\b.*\d+\<close>
\<close>

definition address_patterns :: "rx list" where
  "address_patterns =
    [Seq [Bol, Plus (Cls [CDigit]), Plus (Cls [CSpace]), Plus (Cls [CR 65 90,
       CR 97 122, CSpace, CR 0x4E00 0x9FFF, CR 0x3040 0x309F, CR 0x30A0 0x30FF,
       CR 0xAC00 0xD7AF]), Alt [Str (u ''street''), Seq [Str (u ''st''), WordB],
       Str (u ''avenue''), Seq [Str (u ''ave''), WordB], Str (u ''road''), Seq [Str (u ''rd''),
       WordB], Str (u ''drive''), Seq [Str (u ''dr''), WordB], Str (u ''lane''),
       Seq [Str (u ''ln''), WordB], Str (u ''parkway''), Str (u ''pkwy''), Str (u ''boulevard''),
       Seq [Str (u ''blvd''), WordB], Str ([0x8857]), Str ([0x8DEF]), Str ([0x753A]),
       Str ([0x4E01, 0x76EE])]],
     Seq [Bol, Rep 2 (Some 2) (Cls [CR 65 90]), Plus (Cls [CSpace]), Rep 5 (Some 5) (Cls [CDigit]),
       Opt (Seq [Str (u ''-''), Rep 4 (Some 4) (Cls [CDigit])]), Eol],
     Seq [Bol, Cls [CR 65 90], Plus (Cls [CR 97 122]), Star (Seq [Plus (Cls [CSpace]),
       Cls [CR 65 90], Plus (Cls [CR 97 122])]), Str ([44]), Star (Cls [CSpace]),
       Rep 2 (Some 2) (Cls [CR 65 90]), Plus (Cls [CSpace]), Rep 5 (Some 5) (Cls [CDigit]),
       Eol],
     Seq [Bol, Alt [Str (u ''Suite''), Str (u ''Ste''), Str (u ''Apt''), Str (u ''Unit''),
       Str (u ''Building''), Str (u ''Bldg''), Str (u ''Floor''), Str (u ''Fl''),
       Str ([0x53F7, 0x5BA4]), Str ([0x968E])], WordB, Star Dot, Plus (Cls [CDigit])]]"

text \<open>
  The list \<open>form_patterns\<close>:
  \<^verbatim>\<open>^[_\-]{3,}$\<close>
  \<^verbatim>\<open>^\s*(?:RSVP|Name|Date|Time|Phone|Email|Address|Sign|Signature|Title|Age|\u540d\u524d|\u65e5\u4ed8|\u6642\u9593|\u96fb\u8a71|\u30e1\u30fc\u30eb|\u4f4f\u6240|\u7f72\u540d|\u30bf\u30a4\u30c8\u30eb|\u5e74\u9f62|\u59d3\u540d|\u65e5\u671f|\u65f6\u95f4|\u7535\u8bdd|\u90ae\u7bb1|\u5730\u5740|\u7b7e\u540d|\u6807\u9898|\u5e74\u9f84)[\s:]*[_\-]*$\<close>
  \<^verbatim>\<open>^\s*(?:Signature\s+of\s+\w+|\u7f72\u540d\u8005|\u7b7e\u540d\u8005).*$\<close>
  \<^verbatim>\<open>^\s*(?:Yes|No|Maybe|\u306f\u3044|\u3044\u3044\u3048|\u305f\u3076\u3093|\u662f|\u5426|\u4e5f\u8bb8)[\s:]*$\<close>
  \<^verbatim>\<open>.*[_]{3,}.*\<close>
  \<^verbatim>\<open>.*[\-]{3,}.*\<close>
  \<^verbatim>\<open>^(?:S\.?No\.?|Sl\.?No\.?|Sr\.?No\.?|Serial\s*No\.?|Serial\s*Number|\u756a\u53f7|\u5e8f\u53f7)[\s:]*$\<close>
  \<^verbatim>\<open>^\d+\.\s*(?:Amount|Name|Address|Details?|Signature|\u91d1\u984d|\u540d\u524d|\u4f4f\u6240|\u8a73\u7d30|\u7f72\u540d|\u91d1\u989d|\u59d3\u540d|\u5730\u5740|\u8be6\u60c5|\u7b7e\u540d).*$\<close>
  \<^verbatim>\<open>^(?:Relationship|Amount|Signature|Details?|\u95a2\u4fc2|\u91d1\u984d|\u7f72\u540d|\u8a73\u7d30|\u5173\u7cfb|\u91d1\u989d|\u7b7e\u540d|\u8be6\u60c5)[\s:]*$\<close>
  \<^verbatim>\<open>^[.\s]{5,}$\<close>
  \<^verbatim>\<open>^\.{5,}$\<close>
  \<^verbatim>\<open>^\s*\.+\s*$\<close>
  \<^verbatim>\<open>.*\.{3,}.*\<close>
  \<^verbatim>\<open>^\s*[\u2022\u00b7\u25aa\u25ab\u25a0\u25a1\u25cb\u25cf\u25e6\u2023\u2043\u30fb\u203b]\s+\<close>
  \<^verbatim>\<open>^\s*[-*+]\s+\<close>
  \<^verbatim>\<open>^\s*\d+[\.\)]\s+[a-z][a-z]\<close>
  \<^verbatim>\<open>^\s*[a-zA-Z][\.\)]\s+\<close>
  \<^verbatim>\<open>^\s*[ivxlcdm]+[\.\)]\s+\<close>
  \<^verbatim>\<open>^\s*\([a-zA-Z0-9]+\)\s+\<close>
  \<^verbatim>\<open>.*\s+\.\s*\*\s*$\<close>
  \<^verbatim>\<open>^[a-z].*\s+\.$\<close>
  \<^verbatim>\<open>^\s*(?:the|this|these|that|those|\u3053\u308c|\u305d\u306e|\u3042\u306e|\u3053\u306e|\u8be5|\u8fd9|\u90a3)\s+\<close>
  \<^verbatim>\<open>.*\s+(?:years?|\u5e74|\u5e74\u9593|\u5c81|\u6b72)\s*[\.\*]*$\<close>
  \<^verbatim>\<open>^.*\s+(?:and|or|\u3068|\u307e\u305f\u306f|\u548c|\u6216\u8005)\s*$\<close>
  \<^verbatim>\<open>^.*\s+(?:of|in|to|for|with|by|at|on|\u306e|\u306b|\u3067|\u304b\u3089|\u3078|\u7684|\u5728|\u5230|\u4e3a|\u548c|\u7531|\u5728)\s*$\<close>
\<close>

definition form_patterns :: "rx list" where
  "form_patterns =
    [Seq [Bol, Rep 3 None (Cls [CC 95, CC 45]), Eol],
     Seq [Bol, Star (Cls [CSpace]), Alt [Str (u ''RSVP''), Str (u ''Name''),
       Str (u ''Date''), Str (u ''Time''), Str (u ''Phone''), Str (u ''Email''),
       Str (u ''Address''), Str (u ''Sign''), Str (u ''Signature''), Str (u ''Title''),
       Str (u ''Age''), Str ([0x540D, 0x524D]), Str ([0x65E5, 0x4ED8]), Str ([0x6642,
       0x9593]), Str ([0x96FB, 0x8A71]), Str ([0x30E1, 0x30FC, 0x30EB]), Str ([0x4F4F,
       0x6240]), Str ([0x7F72, 0x540D]), Str ([0x30BF, 0x30A4, 0x30C8, 0x30EB]),
       Str ([0x5E74, 0x9F62]), Str ([0x59D3, 0x540D]), Str ([0x65E5, 0x671F]),
       Str ([0x65F6, 0x95F4]), Str ([0x7535, 0x8BDD]), Str ([0x90AE, 0x7BB1]),
       Str ([0x5730, 0x5740]), Str ([0x7B7E, 0x540D]), Str ([0x6807, 0x9898]),
       Str ([0x5E74, 0x9F84])], Star (Cls [CSpace, CC 58]), Star (Cls [CC 95, CC 45]), Eol],
     Seq [Bol, Star (Cls [CSpace]), Alt [Seq [Str (u ''Signature''), Plus (Cls [CSpace]),
       Str (u ''of''), Plus (Cls [CSpace]), Plus (Cls [CWord])], Str ([0x7F72,
       0x540D, 0x8005]), Str ([0x7B7E, 0x540D, 0x8005])], Star Dot, Eol],
     Seq [Bol, Star (Cls [CSpace]), Alt [Str (u ''Yes''), Str (u ''No''), Str (u ''Maybe''),
       Str ([0x306F, 0x3044]), Str ([0x3044, 0x3044, 0x3048]), Str ([0x305F, 0x3076,
       0x3093]), Str ([0x662F]), Str ([0x5426]), Str ([0x4E5F, 0x8BB8])], Star (Cls [CSpace,
       CC 58]), Eol],
     Seq [Star Dot, Rep 3 None (Cls [CC 95]), Star Dot],
     Seq [Star Dot, Rep 3 None (Cls [CC 45]), Star Dot],
     Seq [Bol, Alt [Seq [Str (u ''S''), Opt (Str (u ''.'')), Str (u ''No''),
       Opt (Str (u ''.''))], Seq [Str (u ''Sl''), Opt (Str (u ''.'')), Str (u ''No''),
       Opt (Str (u ''.''))], Seq [Str (u ''Sr''), Opt (Str (u ''.'')), Str (u ''No''),
       Opt (Str (u ''.''))], Seq [Str (u ''Serial''), Star (Cls [CSpace]), Str (u ''No''),
       Opt (Str (u ''.''))], Seq [Str (u ''Serial''), Star (Cls [CSpace]), Str (u ''Number'')],
       Str ([0x756A, 0x53F7]), Str ([0x5E8F, 0x53F7])], Star (Cls [CSpace, CC 58]), Eol],
     Seq [Bol, Plus (Cls [CDigit]), Str (u ''.''), Star (Cls [CSpace]), Alt [Str (u ''Amount''),
       Str (u ''Name''), Str (u ''Address''), Seq [Str (u ''Detail''), Opt (Str (u ''s''))],
       Str (u ''Signature''), Str ([0x91D1, 0x984D]), Str ([0x540D, 0x524D]),
       Str ([0x4F4F, 0x6240]), Str ([0x8A73, 0x7D30]), Str ([0x7F72, 0x540D]),
       Str ([0x91D1, 0x989D]), Str ([0x59D3, 0x540D]), Str ([0x5730, 0x5740]),
       Str ([0x8BE6, 0x60C5]), Str ([0x7B7E, 0x540D])], Star Dot, Eol],
     Seq [Bol, Alt [Str (u ''Relationship''), Str (u ''Amount''), Str (u ''Signature''),
       Seq [Str (u ''Detail''), Opt (Str (u ''s''))], Str ([0x95A2, 0x4FC2]),
       Str ([0x91D1, 0x984D]), Str ([0x7F72, 0x540D]), Str ([0x8A73, 0x7D30]),
       Str ([0x5173, 0x7CFB]), Str ([0x91D1, 0x989D]), Str ([0x7B7E, 0x540D]),
       Str ([0x8BE6, 0x60C5])], Star (Cls [CSpace, CC 58]), Eol],
     Seq [Bol, Rep 5 None (Cls [CC 46, CSpace]), Eol],
     Seq [Bol, Rep 5 None (Str (u ''.'')), Eol],
     Seq [Bol, Star (Cls [CSpace]), Plus (Str (u ''.'')), Star (Cls [CSpace]), Eol],
     Seq [Star Dot, Rep 3 None (Str (u ''.'')), Star Dot],
     Seq [Bol, Star (Cls [CSpace]), Cls [CC 0x2022, CC 0x00B7, CC 0x25AA, CC 0x25AB,
       CC 0x25A0, CC 0x25A1, CC 0x25CB, CC 0x25CF, CC 0x25E6, CC 0x2023, CC 0x2043,
       CC 0x30FB, CC 0x203B], Plus (Cls [CSpace])],
     Seq [Bol, Star (Cls [CSpace]), Cls [CC 45, CC 42, CC 43], Plus (Cls [CSpace])],
     Seq [Bol, Star (Cls [CSpace]), Plus (Cls [CDigit]), Cls [CC 46, CC 41],
       Plus (Cls [CSpace]), Cls [CR 97 122], Cls [CR 97 122]],
     Seq [Bol, Star (Cls [CSpace]), Cls [CR 97 122, CR 65 90], Cls [CC 46, CC 41],
       Plus (Cls [CSpace])],
     Seq [Bol, Star (Cls [CSpace]), Plus (Cls [CC 105, CC 118, CC 120, CC 108,
       CC 99, CC 100, CC 109]), Cls [CC 46, CC 41], Plus (Cls [CSpace])],
     Seq [Bol, Star (Cls [CSpace]), Str (u ''(''), Plus (Cls [CR 97 122, CR 65 90,
       CR 48 57]), Str (u '')''), Plus (Cls [CSpace])],
     Seq [Star Dot, Plus (Cls [CSpace]), Str (u ''.''), Star (Cls [CSpace]),
       Str (u ''*''), Star (Cls [CSpace]), Eol],
     Seq [Bol, Cls [CR 97 122], Star Dot, Plus (Cls [CSpace]), Str (u ''.''), Eol],
     Seq [Bol, Star (Cls [CSpace]), Alt [Str (u ''the''), Str (u ''this''), Str (u ''these''),
       Str (u ''that''), Str (u ''those''), Str ([0x3053, 0x308C]), Str ([0x305D,
       0x306E]), Str ([0x3042, 0x306E]), Str ([0x3053, 0x306E]), Str ([0x8BE5]),
       Str ([0x8FD9]), Str ([0x90A3])], Plus (Cls [CSpace])],
     Seq [Star Dot, Plus (Cls [CSpace]), Alt [Seq [Str (u ''year''), Opt (Str (u ''s''))],
       Str ([0x5E74]), Str ([0x5E74, 0x9593]), Str ([0x5C81]), Str ([0x6B72])],
       Star (Cls [CSpace]), Star (Cls [CC 46, CC 42]), Eol],
     Seq [Bol, Star Dot, Plus (Cls [CSpace]), Alt [Str (u ''and''), Str (u ''or''),
       Str ([0x3068]), Str ([0x307E, 0x305F, 0x306F]), Str ([0x548C]), Str ([0x6216,
       0x8005])], Star (Cls [CSpace]), Eol],
     Seq [Bol, Star Dot, Plus (Cls [CSpace]), Alt [Str (u ''of''), Str (u ''in''),
       Str (u ''to''), Str (u ''for''), Str (u ''with''), Str (u ''by''), Str (u ''at''),
       Str (u ''on''), Str ([0x306E]), Str ([0x306B]), Str ([0x3067]), Str ([0x304B,
       0x3089]), Str ([0x3078]), Str ([0x7684]), Str ([0x5728]), Str ([0x5230]),
       Str ([0x4E3A]), Str ([0x548C]), Str ([0x7531]), Str ([0x5728])], Star (Cls [CSpace]),
       Eol]]"

text \<open>
  The list \<open>web_patterns\<close>:
  \<^verbatim>\<open>^(?:https?:\/\/)?(?:www\.)?[a-zA-Z0-9\-\.]+\.(?:com|org|net|edu|gov|mil|biz|info|io|co|uk|us|jp|cn|kr)/?.*$\<close>
  \<^verbatim>\<open>^.*\.(?:com|org|net|edu|gov|mil|biz|info|io|co|uk|us|jp|cn|kr)\s*$\<close>
  \<^verbatim>\<open>^(?:Email|Website|URL|Web|WWW|\u30e1\u30fc\u30eb|\u30a6\u30a7\u30d6\u30b5\u30a4\u30c8|\u7f51\u7ad9|\uc6f9\uc0ac\uc774\ud2b8)[:\s].*$\<close>
\<close>

definition web_patterns :: "rx list" where
  "web_patterns =
    [Seq [Bol, Opt (Seq [Str (u ''http''), Opt (Str (u ''s'')), Str (u ''://'')]),
       Opt (Str (u ''www.'')), Plus (Cls [CR 97 122, CR 65 90, CR 48 57, CC 45,
       CC 46]), Str (u ''.''), Alt [Str (u ''com''), Str (u ''org''), Str (u ''net''),
       Str (u ''edu''), Str (u ''gov''), Str (u ''mil''), Str (u ''biz''), Str (u ''info''),
       Str (u ''io''), Str (u ''co''), Str (u ''uk''), Str (u ''us''), Str (u ''jp''),
       Str (u ''cn''), Str (u ''kr'')], Opt (Str (u ''/'')), Star Dot, Eol],
     Seq [Bol, Star Dot, Str (u ''.''), Alt [Str (u ''com''), Str (u ''org''),
       Str (u ''net''), Str (u ''edu''), Str (u ''gov''), Str (u ''mil''), Str (u ''biz''),
       Str (u ''info''), Str (u ''io''), Str (u ''co''), Str (u ''uk''), Str (u ''us''),
       Str (u ''jp''), Str (u ''cn''), Str (u ''kr'')], Star (Cls [CSpace]), Eol],
     Seq [Bol, Alt [Str (u ''Email''), Str (u ''Website''), Str (u ''URL''),
       Str (u ''Web''), Str (u ''WWW''), Str ([0x30E1, 0x30FC, 0x30EB]), Str ([0x30A6,
       0x30A7, 0x30D6, 0x30B5, 0x30A4, 0x30C8]), Str ([0x7F51, 0x7AD9]), Str ([0xC6F9,
       0xC0AC, 0xC774, 0xD2B8])], Cls [CC 58, CSpace], Star Dot, Eol]]"


definition warning_patterns :: "lang \<Rightarrow> rx list" where
  "warning_patterns detected_lang =
     concat (map language_warning_patterns (languages_to_check detected_lang))
     @ universal_patterns"

text \<open>
  The universal numeric date patterns:
  \<^verbatim>\<open>^\d{1,2}[-/]\d{1,2}[-/]\d{2,4}\.?$\<close>
  \<^verbatim>\<open>^\d{4}[-/]\d{1,2}[-/]\d{1,2}\.?$\<close>
  \<^verbatim>\<open>^\d{1,2}\s+\d{1,2}\s+\d{4}\.?$\<close>
\<close>

definition numeric_date_patterns :: "rx list" where
  "numeric_date_patterns =
    [Seq [Bol, Rep 1 (Some 2) (Cls [CDigit]), Cls [CC 45, CC 47], Rep 1 (Some 2) (Cls [CDigit]),
       Cls [CC 45, CC 47], Rep 2 (Some 4) (Cls [CDigit]), Opt (Str (u ''.'')), Eol],
     Seq [Bol, Rep 4 (Some 4) (Cls [CDigit]), Cls [CC 45, CC 47], Rep 1 (Some 2) (Cls [CDigit]),
       Cls [CC 45, CC 47], Rep 1 (Some 2) (Cls [CDigit]), Opt (Str (u ''.'')), Eol],
     Seq [Bol, Rep 1 (Some 2) (Cls [CDigit]), Plus (Cls [CSpace]), Rep 1 (Some 2) (Cls [CDigit]),
       Plus (Cls [CSpace]), Rep 4 (Some 4) (Cls [CDigit]), Opt (Str (u ''.'')), Eol]]"

text \<open>
  The patterns built from the month names of a language:
  \<^verbatim>\<open>^\d{1,2}\s+(?:{months})\s+\d{4}\.?$\<close>
  \<^verbatim>\<open>^(?:{months})\s+\d{1,2},?\s+\d{4}\.?$\<close>
  \<^verbatim>\<open>^(?:{months})\s+\d{4}\.?$\<close>
\<close>

definition month_date_patterns :: "lang \<Rightarrow> rx list" where
  "month_date_patterns language =
    [Seq [Bol, Rep 1 (Some 2) (Cls [CDigit]), Plus (Cls [CSpace]), alt_words (month_names language),
       Plus (Cls [CSpace]), Rep 4 (Some 4) (Cls [CDigit]), Opt (Str (u ''.'')), Eol],
     Seq [Bol, alt_words (month_names language), Plus (Cls [CSpace]), Rep 1 (Some 2) (Cls [CDigit]),
       Opt (Str ([44])), Plus (Cls [CSpace]), Rep 4 (Some 4) (Cls [CDigit]), Opt (Str (u ''.'')),
       Eol],
     Seq [Bol, alt_words (month_names language), Plus (Cls [CSpace]), Rep 4 (Some 4) (Cls [CDigit]),
       Opt (Str (u ''.'')), Eol]]"


definition build_multilingual_date_patterns :: "lang \<Rightarrow> rx list" where
  "build_multilingual_date_patterns language =
     numeric_date_patterns @ month_date_patterns language
     @ (if language \<noteq> En then month_date_patterns En else [])"

text \<open>
  The pattern
  \<^verbatim>\<open>^(?:{toc_pattern}|{appendix_pattern}\s+[A-Z0-9]+:).*$\<close>
  where both interpolated strings are keywords joined by \<open>|\<close>: the alternatives of the
  group are the contents keywords, the appendix keywords but the last, and the last
  appendix keyword followed by \<^verbatim>\<open>\s+[A-Z0-9]+:\<close>.
\<close>

definition toc_or_appendix_pattern :: "lang \<Rightarrow> rx" where
  "toc_or_appendix_pattern detected_lang =
     (let toc_keywords = concat (map (\<lambda>l. heading_keywords l K_table_of_contents)
                                  (languages_to_check detected_lang));
          appendix_keywords = concat (map (\<lambda>l. heading_keywords l K_appendix)
                                       (languages_to_check detected_lang))
      in Seq [Bol,
              Alt (map Str toc_keywords @ map Str (butlast appendix_keywords)
                   @ [Seq [Str (last appendix_keywords), Plus (Cls [CSpace]),
                           Plus (Cls [CR 65 90, CR 48 57]), Str (u '':'')]]),
              Star Dot, Eol])"

text \<open>Rule 1: a table-of-contents row that is not the contents or an appendix heading.\<close>

definition toc_row_skip :: "ustring \<Rightarrow> bool" where
  "toc_row_skip text =
     list_ex (\<lambda>pattern. re_match False pattern (strip text)
                \<and> \<not> re_match True (toc_or_appendix_pattern (detect_language text)) (strip text))
       toc_patterns"

text \<open>Rule 2: warning and instruction text.\<close>

definition warning_skip :: "ustring \<Rightarrow> bool" where
  "warning_skip text =
     list_ex (\<lambda>pattern. re_match True pattern (strip text))
       (warning_patterns (detect_language text))"

definition long_instruction_skip :: "ustring \<Rightarrow> bool" where
  "long_instruction_skip text =
     (length text > 60 \<and>
      list_ex (\<lambda>word. contains word (upper text))
        (concat (map warning_words (languages_to_check (detect_language text)))))"

text \<open>
  Rule 3 starts with a match of
  \<^verbatim>\<open>^\d+\.\s+[A-Z\u4e00-\u9fff\u3040-\u309f\u30a0-\u30ff\uac00-\ud7af]\<close>;
  \<open>dot_run\<close> is \<^verbatim>\<open>\.{3,}\<close> and \<open>letter_class\<close> is
  \<^verbatim>\<open>[A-Za-z\u4e00-\u9fff\u3040-\u309f\u30a0-\u30ff\uac00-\ud7af\u0600-\u06ff\u0400-\u04ff]\<close>.
\<close>

definition numbered_heading_pattern :: rx where
  "numbered_heading_pattern =
     Seq [Bol, Plus (Cls [CDigit]), Str (u ''.''), Plus (Cls [CSpace]),
          Cls [CR 65 90, CR 0x4E00 0x9FFF, CR 0x3040 0x309F, CR 0x30A0 0x30FF,
               CR 0xAC00 0xD7AF]]"

definition dot_run :: rx where
  "dot_run = Rep 3 None (Str (u ''.''))"

definition letter_class :: rx where
  "letter_class = Cls [CR 65 90, CR 97 122, CR 0x4E00 0x9FFF, CR 0x3040 0x309F,
     CR 0x30A0 0x30FF, CR 0xAC00 0xD7AF, CR 0x0600 0x06FF, CR 0x0400 0x04FF]"

text \<open>The loop over the spans that sets \<open>main_text_bold\<close>.\<close>

fun main_text_bold :: "span list \<Rightarrow> bool" where
  "main_text_bold [] = False"
| "main_text_bold (s # ss) =
     (let span_text = strip (span_text s)
      in if span_text \<noteq> [] \<and> re_search False letter_class span_text \<and> is_bold s then True
         else main_text_bold ss)"

text \<open>Rules 4 to 7: address, form-field, web and date patterns.\<close>

definition remaining_rules :: "ustring \<Rightarrow> bool" where
  "remaining_rules text =
     (let date_patterns = build_multilingual_date_patterns (detect_language text);
          all_patterns = address_patterns @ form_patterns @ web_patterns @ date_patterns
      in list_ex (\<lambda>pattern. re_search True pattern text) all_patterns)"

text \<open>
  \<open>should_skip_text(text, spans)\<close>; \<open>spans\<close> is \<open>None\<close> when the caller passes no
  span data.
\<close>

definition should_skip_text :: "ustring \<Rightarrow> span list option \<Rightarrow> bool" where
  "should_skip_text text spans =
     (if text = [] \<or> strip text = [] then True
      else if toc_row_skip text then True
      else if warning_skip text then True
      else if long_instruction_skip text then True
      else if re_match False numbered_heading_pattern (strip text) then
        (if re_search False dot_run text then True
         else (case spans of
                 None \<Rightarrow> False
               | Some ss \<Rightarrow>
                   if ss \<noteq> [] then
                     (if main_text_bold ss then False else remaining_rules text)
                   else False))
      else remaining_rules text)"

section \<open>Pattern heading classifier\<close>

text \<open>
  The patterns that the loop over \<open>languages_to_check\<close> adds to \<open>h1_patterns\<close> for a language:
  \<^verbatim>\<open>^({part_words})\s+[IVX\d]+\<close>
  \<^verbatim>\<open>^({chapter_words})\s+\d+\<close>
  \<^verbatim>\<open>^chapter\s+\d+\<close>
  \<^verbatim>\<open>^\u7b2c\d+\u7ae0\<close>
  \<^verbatim>\<open>^\u7b2c\d+\u90e8\<close>
  \<^verbatim>\<open>^\uae00\d+\uc7a5\<close>
  \<^verbatim>\<open>^\u0433\u043b\u0430\u0432\u0430\s+\d+\<close>
  \<^verbatim>\<open>^\u0447\u0430\u0441\u0442\u044c\s+[IVX\d]+\<close>
  \<^verbatim>\<open>^kapitel\s+\d+\<close>
  \<^verbatim>\<open>^teil\s+[IVX\d]+\<close>
  \<^verbatim>\<open>^cap\u00edtulo\s+\d+\<close>
  \<^verbatim>\<open>^parte\s+[IVX\d]+\<close>
  \<^verbatim>\<open>^chapitre\s+\d+\<close>
  \<^verbatim>\<open>^partie\s+[IVX\d]+\<close>
  \<^verbatim>\<open>^\u0641\u0635\u0644\s+\d+\<close>
  \<^verbatim>\<open>^\u062c\u0632\u0621\s+\d+\<close>
  \<^verbatim>\<open>^\uc81c\d+\uc7a5\<close>
  \<^verbatim>\<open>^\uc81c\d+\ubd80\<close>
  \<^verbatim>\<open>^[A-Z\u4e00-\u9fff\u3040-\u309f\u30a0-\u30ff\uac00-\ud7af\s]{10,}$\<close>
  \<^verbatim>\<open>^\d+\.\s+[A-Z\u4e00-\u9fff\u3040-\u309f\u30a0-\u30ff\uac00-\ud7af]\<close>
  \<^verbatim>\<open>^[A-Z\u4e00-\u9fff][A-Z\u4e00-\u9fff\u3040-\u309f\u30a0-\u30ff\uac00-\ud7af\s]+[A-Z\u4e00-\u9fff]$\<close>
\<close>

definition language_h1_patterns :: "lang \<Rightarrow> rx list" where
  "language_h1_patterns l =
    [Seq [Bol, alt_words (heading_keywords l K_part), Plus (Cls [CSpace]), Plus (Cls [CC 73,
       CC 86, CC 88, CDigit])],
     Seq [Bol, alt_words (heading_keywords l K_chapter), Plus (Cls [CSpace]),
       Plus (Cls [CDigit])],
     Seq [Bol, Str (u ''chapter''), Plus (Cls [CSpace]), Plus (Cls [CDigit])],
     Seq [Bol, Str ([0x7B2C]), Plus (Cls [CDigit]), Str ([0x7AE0])],
     Seq [Bol, Str ([0x7B2C]), Plus (Cls [CDigit]), Str ([0x90E8])],
     Seq [Bol, Str ([0xAE00]), Plus (Cls [CDigit]), Str ([0xC7A5])],
     Seq [Bol, Str ([0x0433, 0x043B, 0x0430, 0x0432, 0x0430]), Plus (Cls [CSpace]),
       Plus (Cls [CDigit])],
     Seq [Bol, Str ([0x0447, 0x0430, 0x0441, 0x0442, 0x044C]), Plus (Cls [CSpace]),
       Plus (Cls [CC 73, CC 86, CC 88, CDigit])],
     Seq [Bol, Str (u ''kapitel''), Plus (Cls [CSpace]), Plus (Cls [CDigit])],
     Seq [Bol, Str (u ''teil''), Plus (Cls [CSpace]), Plus (Cls [CC 73, CC 86,
       CC 88, CDigit])],
     Seq [Bol, Str ([99, 97, 112, 0x00ED, 116, 117, 108, 111]), Plus (Cls [CSpace]),
       Plus (Cls [CDigit])],
     Seq [Bol, Str (u ''parte''), Plus (Cls [CSpace]), Plus (Cls [CC 73, CC 86,
       CC 88, CDigit])],
     Seq [Bol, Str (u ''chapitre''), Plus (Cls [CSpace]), Plus (Cls [CDigit])],
     Seq [Bol, Str (u ''partie''), Plus (Cls [CSpace]), Plus (Cls [CC 73, CC 86,
       CC 88, CDigit])],
     Seq [Bol, Str ([0x0641, 0x0635, 0x0644]), Plus (Cls [CSpace]), Plus (Cls [CDigit])],
     Seq [Bol, Str ([0x062C, 0x0632, 0x0621]), Plus (Cls [CSpace]), Plus (Cls [CDigit])],
     Seq [Bol, Str ([0xC81C]), Plus (Cls [CDigit]), Str ([0xC7A5])],
     Seq [Bol, Str ([0xC81C]), Plus (Cls [CDigit]), Str ([0xBD80])],
     Seq [Bol, Rep 10 None (Cls [CR 65 90, CR 0x4E00 0x9FFF, CR 0x3040 0x309F,
       CR 0x30A0 0x30FF, CR 0xAC00 0xD7AF, CSpace]), Eol],
     Seq [Bol, Plus (Cls [CDigit]), Str (u ''.''), Plus (Cls [CSpace]), Cls [CR 65 90,
       CR 0x4E00 0x9FFF, CR 0x3040 0x309F, CR 0x30A0 0x30FF, CR 0xAC00 0xD7AF]],
     Seq [Bol, Cls [CR 65 90, CR 0x4E00 0x9FFF], Plus (Cls [CR 65 90, CR 0x4E00 0x9FFF,
       CR 0x3040 0x309F, CR 0x30A0 0x30FF, CR 0xAC00 0xD7AF, CSpace]), Cls [CR 65 90,
       CR 0x4E00 0x9FFF], Eol]]"

text \<open>
  The patterns that the loop adds to \<open>h2_patterns\<close> for a language:
  \<^verbatim>\<open>^({appendix_words})\s+[A-Z0-9]+:\<close>
  \<^verbatim>\<open>^({appendix_words})\s*[A-Z0-9]+\<close>
  \<^verbatim>\<open>^\u4ed8\u9332[A-Z0-9]\<close>
  \<^verbatim>\<open>^\u9644\u5f55[A-Z0-9]\<close>
  \<^verbatim>\<open>^\u043f\u0440\u0438\u043b\u043e\u0436\u0435\u043d\u0438\u0435\s+[A-Z\u0410-\u042f0-9]\<close>
  \<^verbatim>\<open>^anhang\s+[A-Z0-9]\<close>
  \<^verbatim>\<open>^ap\u00e9ndice\s+[A-Z0-9]\<close>
  \<^verbatim>\<open>^annexe\s+[A-Z0-9]\<close>
  \<^verbatim>\<open>^\u0645\u0644\u062d\u0642\s+[A-Z0-9]\<close>
  \<^verbatim>\<open>^\ubd80\ub85d\s*[A-Z0-9]\<close>
  \<^verbatim>\<open>^\d+\.\d+\s+\<close>
  \<^verbatim>\<open>^[A-Z\u4e00-\u9fff][a-z\u3040-\u309f\u30a0-\u30ff\uac00-\ud7af]+(\s+[A-Z\u4e00-\u9fff][a-z\u3040-\u309f\u30a0-\u30ff\uac00-\ud7af]+)*:$\<close>
  \<^verbatim>\<open>^\d+\s+[A-Z\u4e00-\u9fff]\<close>
  \<^verbatim>\<open>^[A-Z\u4e00-\u9fff][a-z\u3040-\u309f\u30a0-\u30ff\uac00-\ud7af]+(\s+[A-Z\u4e00-\u9fff][a-z\u3040-\u309f\u30a0-\u30ff\uac00-\ud7af]+)*$\<close>
\<close>

definition language_h2_patterns :: "lang \<Rightarrow> rx list" where
  "language_h2_patterns l =
    [Seq [Bol, alt_words (heading_keywords l K_appendix), Plus (Cls [CSpace]),
       Plus (Cls [CR 65 90, CR 48 57]), Str (u '':'')],
     Seq [Bol, alt_words (heading_keywords l K_appendix), Star (Cls [CSpace]),
       Plus (Cls [CR 65 90, CR 48 57])],
     Seq [Bol, Str ([0x4ED8, 0x9332]), Cls [CR 65 90, CR 48 57]],
     Seq [Bol, Str ([0x9644, 0x5F55]), Cls [CR 65 90, CR 48 57]],
     Seq [Bol, Str ([0x043F, 0x0440, 0x0438, 0x043B, 0x043E, 0x0436, 0x0435,
       0x043D, 0x0438, 0x0435]), Plus (Cls [CSpace]), Cls [CR 65 90, CR 0x0410 0x042F,
       CR 48 57]],
     Seq [Bol, Str (u ''anhang''), Plus (Cls [CSpace]), Cls [CR 65 90, CR 48 57]],
     Seq [Bol, Str ([97, 112, 0x00E9, 110, 100, 105, 99, 101]), Plus (Cls [CSpace]),
       Cls [CR 65 90, CR 48 57]],
     Seq [Bol, Str (u ''annexe''), Plus (Cls [CSpace]), Cls [CR 65 90, CR 48 57]],
     Seq [Bol, Str ([0x0645, 0x0644, 0x062D, 0x0642]), Plus (Cls [CSpace]), Cls [CR 65 90,
       CR 48 57]],
     Seq [Bol, Str ([0xBD80, 0xB85D]), Star (Cls [CSpace]), Cls [CR 65 90, CR 48 57]],
     Seq [Bol, Plus (Cls [CDigit]), Str (u ''.''), Plus (Cls [CDigit]), Plus (Cls [CSpace])],
     Seq [Bol, Cls [CR 65 90, CR 0x4E00 0x9FFF], Plus (Cls [CR 97 122, CR 0x3040 0x309F,
       CR 0x30A0 0x30FF, CR 0xAC00 0xD7AF]), Star (Seq [Plus (Cls [CSpace]), Cls [CR 65 90,
       CR 0x4E00 0x9FFF], Plus (Cls [CR 97 122, CR 0x3040 0x309F, CR 0x30A0 0x30FF,
       CR 0xAC00 0xD7AF])]), Str (u '':''), Eol],
     Seq [Bol, Plus (Cls [CDigit]), Plus (Cls [CSpace]), Cls [CR 65 90, CR 0x4E00 0x9FFF]],
     Seq [Bol, Cls [CR 65 90, CR 0x4E00 0x9FFF], Plus (Cls [CR 97 122, CR 0x3040 0x309F,
       CR 0x30A0 0x30FF, CR 0xAC00 0xD7AF]), Star (Seq [Plus (Cls [CSpace]), Cls [CR 65 90,
       CR 0x4E00 0x9FFF], Plus (Cls [CR 97 122, CR 0x3040 0x309F, CR 0x30A0 0x30FF,
       CR 0xAC00 0xD7AF])]), Eol]]"

text \<open>
  The list \<open>h3_patterns\<close>:
  \<^verbatim>\<open>^\d+\.\d+\.\d+\s+\<close>
  \<^verbatim>\<open>^[a-z]\)\s+\<close>
  \<^verbatim>\<open>^[\u2022\u00b7\u25aa\u25ab\u25a0\u25a1\u25cb\u25cf\u25e6\u2023\u2043\u30fb\u203b]\s+[A-Z\u4e00-\u9fff]\<close>
  \<^verbatim>\<open>^[(\uff08][a-zA-Z0-9]+[)\uff09]\s+\<close>
\<close>

definition h3_patterns :: "rx list" where
  "h3_patterns =
    [Seq [Bol, Plus (Cls [CDigit]), Str (u ''.''), Plus (Cls [CDigit]), Str (u ''.''),
       Plus (Cls [CDigit]), Plus (Cls [CSpace])],
     Seq [Bol, Cls [CR 97 122], Str (u '')''), Plus (Cls [CSpace])],
     Seq [Bol, Cls [CC 0x2022, CC 0x00B7, CC 0x25AA, CC 0x25AB, CC 0x25A0, CC 0x25A1,
       CC 0x25CB, CC 0x25CF, CC 0x25E6, CC 0x2023, CC 0x2043, CC 0x30FB, CC 0x203B],
       Plus (Cls [CSpace]), Cls [CR 65 90, CR 0x4E00 0x9FFF]],
     Seq [Bol, Cls [CC 40, CC 0xFF08], Plus (Cls [CR 97 122, CR 65 90, CR 48 57]),
       Cls [CC 41, CC 0xFF09], Plus (Cls [CSpace])]]"

text \<open>
  The list \<open>restrictive_single_word_patterns\<close>:
  \<^verbatim>\<open>^[A-Z]{4,}$\<close>
  \<^verbatim>\<open>^[\u4e00-\u9fff]{2,}$\<close>
  \<^verbatim>\<open>^[\u3040-\u309f\u30a0-\u30ff]{3,}$\<close>
  \<^verbatim>\<open>^[\uac00-\ud7af]{2,}$\<close>
\<close>

definition restrictive_single_word_patterns :: "rx list" where
  "restrictive_single_word_patterns =
    [Seq [Bol, Rep 4 None (Cls [CR 65 90]), Eol],
     Seq [Bol, Rep 2 None (Cls [CR 0x4E00 0x9FFF]), Eol],
     Seq [Bol, Rep 3 None (Cls [CR 0x3040 0x309F, CR 0x30A0 0x30FF]), Eol],
     Seq [Bol, Rep 2 None (Cls [CR 0xAC00 0xD7AF]), Eol]]"


definition is_heading_by_pattern :: "ustring \<Rightarrow> level option" where
  "is_heading_by_pattern text0 =
     (let text = strip text0 in
      if should_skip_text text None then None
      else
        let detected_lang = detect_language text;
            h1_patterns = concat (map language_h1_patterns (languages_to_check detected_lang));
            h2_patterns = concat (map language_h2_patterns (languages_to_check detected_lang))
        in if list_ex (\<lambda>pattern. re_match True pattern text) h1_patterns then Some H1
           else if list_ex (\<lambda>pattern. re_match True pattern text) h2_patterns then Some H2
           else if list_ex (\<lambda>pattern. re_match True pattern text) h3_patterns then Some H3
           else if list_ex (\<lambda>pattern. re_match False pattern text \<and> length text \<ge> 3)
                     restrictive_single_word_patterns then Some H2
           else None)"

section \<open>List-sequence detector\<close>

text \<open>
  \<open>re.match(r'^(\d+)\.(\d+)\s+', s)\<close>: the two groups of digits when \<open>s\<close> starts with
  digits, a dot, digits and a white space. The greedy \<open>\d+\<close> takes the whole run of
  digits, since what follows it in the pattern is not a digit.
\<close>

definition match_numbered :: "ustring \<Rightarrow> (ustring \<times> ustring) option" where
  "match_numbered s =
     (let g1 = takeWhile is_digit s; r1 = dropWhile is_digit s
      in if g1 = [] then None
         else case r1 of
           [] \<Rightarrow> None
         | c # r2 \<Rightarrow>
             if c \<noteq> 46 then None
             else let g2 = takeWhile is_digit r2; r3 = dropWhile is_digit r2
                  in if g2 = [] then None
                     else (case r3 of
                             [] \<Rightarrow> None
                           | d # r4 \<Rightarrow> if is_space d then Some (g1, g2) else None))"

text \<open>\<open>int(s)\<close> for a string of decimal digits.\<close>

definition int_of_digits :: "ustring \<Rightarrow> nat" where
  "int_of_digits s = foldl (\<lambda>n c. 10 * n + (c - 48)) 0 s"

text \<open>
  The instance state of the extractor that the pipeline writes: \<open>self.detected_lists\<close>.
\<close>

record detected_list =
  dl_text :: ustring
  dl_pattern_count :: nat
  dl_patterns :: "ustring list"

record extractor =
  detected_lists :: "detected_list list"

text \<open>The text of a neighbouring line: the stripped span texts, each followed by a space.\<close>

definition check_text_of :: "line \<Rightarrow> ustring" where
  "check_text_of check_line =
     strip (concat (map (\<lambda>check_span. strip (span_text check_span) @ [32]) (spans_of check_line)))"

text \<open>
  One pass of either loop over neighbouring lines: \<open>similar_patterns\<close> and
  \<open>found_patterns\<close> are updated for every line of the list.
\<close>

fun scan_lines :: "nat \<Rightarrow> line list \<Rightarrow> nat \<times> ustring list \<Rightarrow> nat \<times> ustring list" where
  "scan_lines major_num [] acc = acc"
| "scan_lines major_num (check_line # ls) (similar_patterns, found_patterns) =
     (let check_text = check_text_of check_line
      in if check_text = [] then scan_lines major_num ls (similar_patterns, found_patterns)
         else case match_numbered check_text of
                Some (g1, g2) \<Rightarrow>
                  if int_of_digits g1 = major_num then
                    scan_lines major_num ls
                      (similar_patterns + 1,
                       found_patterns @ [g1 @ u ''.'' @ g2 @ u '' - '' @ take 50 check_text @ u ''...''])
                  else scan_lines major_num ls (similar_patterns, found_patterns)
              | None \<Rightarrow> scan_lines major_num ls (similar_patterns, found_patterns))"

definition is_likely_list_item ::
    "extractor \<Rightarrow> ustring \<Rightarrow> line list \<Rightarrow> nat \<Rightarrow> bool \<times> extractor" where
  "is_likely_list_item self line_text lines current_index =
     (case match_numbered (strip line_text) of
        None \<Rightarrow> (False, self)
      | Some (g1, g2) \<Rightarrow>
          let major_num = int_of_digits g1;
              search_range = 10;
              previous = [lines ! check_i.
                          check_i \<leftarrow> [current_index - search_range ..< current_index],
                          check_i < length lines];
              following = [lines ! check_i.
                           check_i \<leftarrow> [current_index + 1 ..<
                                        min (length lines) (current_index + search_range + 1)]];
              (similar_patterns, found_patterns) =
                 scan_lines major_num following (scan_lines major_num previous (0, []));
              is_list = (similar_patterns \<ge> 2)
          in if is_list then
               (True, self\<lparr>detected_lists := detected_lists self @
                  [\<lparr>dl_text = line_text, dl_pattern_count = similar_patterns,
                    dl_patterns = found_patterns\<rparr>]\<rparr>)
             else (False, self))"

section \<open>Text normalizer\<close>

text \<open>
  \<open>re.sub(r, repl, s)\<close> for a pattern that matches no empty string: at each position
  from the left, the first match that the matcher finds is replaced by \<open>g\<close> of the
  matched text, and the scan goes on after the match.
\<close>

function re_sub_from :: "rx \<Rightarrow> (ustring \<Rightarrow> ustring) \<Rightarrow> rstate \<Rightarrow> ustring" where
  "re_sub_from r g (prev, rest) =
     (case rx_ends False r (prev, rest) of
        (prev', rest') # others \<Rightarrow>
          if length rest' < length rest then
            g (take (length rest - length rest') rest) @ re_sub_from r g (prev', rest')
          else (case rest of [] \<Rightarrow> [] | c # cs \<Rightarrow> c # re_sub_from r g (Some c, cs))
      | [] \<Rightarrow> (case rest of [] \<Rightarrow> [] | c # cs \<Rightarrow> c # re_sub_from r g (Some c, cs)))"
  by pat_completeness auto
termination
  by (relation "measure (\<lambda>(r, g, st). length (snd st))") auto

definition re_sub :: "rx \<Rightarrow> (ustring \<Rightarrow> ustring) \<Rightarrow> ustring \<Rightarrow> ustring" where
  "re_sub r g s = re_sub_from r g (None, s)"

text \<open>
  The replacements. In the patterns below the first group is the first character of the
  match and the last group is what follows the white space, so \<open>\1\2\<close> is the match
  without its white space.
\<close>

definition join_groups :: "ustring \<Rightarrow> ustring" where
  "join_groups m = (case m of [] \<Rightarrow> [] | c # cs \<Rightarrow> c # dropWhile is_space cs)"

definition join_common_suffix :: "ustring \<Rightarrow> ustring" where
  "join_common_suffix m =
     (case m of [] \<Rightarrow> []
      | c # cs \<Rightarrow>
          let group2 = dropWhile is_space cs
          in if group2 \<in> set [u ''ou'', u ''he'', u ''er'', u ''ed'', u ''ly'', u ''ng'']
             then c # group2 else m)"

definition punctuation :: "citem list" where
  "punctuation = [CC 33, CC 63, CC 46, CC 44, CC 59, CC 58]"

text \<open>
  \<open>clean_extracted_text(text, is_heading)\<close>, with the substitutions
  \<^verbatim>\<open>\b([A-Z])\s+([a-z]{2,})\b\<close>, \<^verbatim>\<open>\b([A-Z])\s+([A-Z]{2,})\b\<close>,
  \<^verbatim>\<open>\b([a-z])\s+([a-z]{2})\b\<close>, \<^verbatim>\<open>\s+\<close>, \<^verbatim>\<open>\s+([!?.,;:])\<close> and
  \<^verbatim>\<open>([!?.,;:])\s*([!?.,;:])\<close>.
\<close>

definition clean_extracted_text :: "ustring \<Rightarrow> bool \<Rightarrow> ustring" where
  "clean_extracted_text text0 is_heading =
     (if text0 = [] then text0
      else
        let text1 = re_sub (Seq [WordB, Cls [CR 65 90], Plus (Cls [CSpace]),
                                 Rep 2 None (Cls [CR 97 122]), WordB]) join_groups text0;
            text2 = re_sub (Seq [WordB, Cls [CR 65 90], Plus (Cls [CSpace]),
                                 Rep 2 None (Cls [CR 65 90]), WordB]) join_groups text1;
            text3 = re_sub (Seq [WordB, Cls [CR 97 122], Plus (Cls [CSpace]),
                                 Rep 2 (Some 2) (Cls [CR 97 122]), WordB]) join_common_suffix text2;
            text4 = re_sub (Plus (Cls [CSpace])) (\<lambda>m. [32]) text3;
            text5 = re_sub (Seq [Plus (Cls [CSpace]), Cls punctuation]) (dropWhile is_space) text4;
            text6 = re_sub (Seq [Cls punctuation, Star (Cls [CSpace]), Cls punctuation])
                      join_groups text5;
            cleaned_text = strip text6
        in if is_heading \<and> cleaned_text \<noteq> [] \<and> \<not> ends_with cleaned_text (u '' '')
           then cleaned_text @ u '' '' else cleaned_text)"

section \<open>Geometry checks\<close>

definition is_text_direction_compatible :: "ustring \<Rightarrow> rat \<Rightarrow> rat \<Rightarrow> bool" where
  "is_text_direction_compatible text x_position page_width =
     (let detected_lang = detect_language text
      in if detected_lang = Ar then x_position > page_width * (3 / 10)
         else x_position < page_width * (7 / 10))"

text \<open>The centre of a line's box lies inside a rectangle.\<close>

definition centre_inside :: "bbox \<Rightarrow> bbox \<Rightarrow> bool" where
  "centre_inside line_box rect =
     (case line_box of (line_x0, line_y0, line_x1, line_y1) \<Rightarrow>
      case rect of (x0, y0, x1, y1) \<Rightarrow>
        let line_cx = (line_x0 + line_x1) / 2; line_cy = (line_y0 + line_y1) / 2
        in x0 \<le> line_cx \<and> line_cx \<le> x1 \<and> y0 \<le> line_cy \<and> line_cy \<le> y1)"

fun is_text_in_box_paths :: "bbox option list \<Rightarrow> bbox \<Rightarrow> bool" where
  "is_text_in_box_paths [] line_box = False"
| "is_text_in_box_paths (None # paths) line_box = is_text_in_box_paths paths line_box"
| "is_text_in_box_paths (Some rect # paths) line_box =
     (case rect of (x0, y0, x1, y1) \<Rightarrow>
        let rect_width = x1 - x0; rect_height = y1 - y0
        in if centre_inside line_box rect
              \<and> 200 < rect_width \<and> rect_width < 600 \<and> 50 < rect_height \<and> rect_height < 700
           then True
           else is_text_in_box_paths paths line_box)"

definition is_text_in_box :: "page \<Rightarrow> bbox \<Rightarrow> bool" where
  "is_text_in_box pg line_box = is_text_in_box_paths (page_drawings pg) line_box"

definition in_any_table :: "bbox list \<Rightarrow> bbox \<Rightarrow> bool" where
  "in_any_table page_tables line_box = list_ex (centre_inside line_box) page_tables"

section \<open>Title reconstructor\<close>

definition title_punctuation :: ustring where
  "title_punctuation = u ''.,!?:;''"

definition preserved_words :: "ustring list" where
  "preserved_words = [u ''a'', u ''an'', u ''of'', u ''in'', u ''on'', u ''to'', u ''by'', u ''for'',
     u ''at'', u ''as'']"

text \<open>
  The condition under which the inner loop of \<open>smart_deduplicate_title\<close> drops a word
  because of another word of the title.
\<close>

definition fragment_of :: "ustring \<Rightarrow> ustring \<Rightarrow> bool" where
  "fragment_of clean_word clean_other =
     (clean_word \<noteq> clean_other \<and> contains clean_word clean_other \<and>
      (let length_diff = int (length clean_other) - int (length clean_word)
       in if length clean_word \<le> 3 \<and> length_diff \<ge> 2
          then starts_with clean_other clean_word \<or> ends_with clean_other clean_word
          else if length clean_word \<ge> 4 \<and> length_diff \<ge> 2
          then \<not> re_search False (Seq [WordB, Str clean_word, WordB]) clean_other
          else False))"

fun dedup_words :: "(nat \<times> ustring) list \<Rightarrow> (nat \<times> ustring) list \<Rightarrow> ustring list
    \<Rightarrow> ustring list" where
  "dedup_words all_words [] filtered_words = filtered_words"
| "dedup_words all_words ((i, word) # ws) filtered_words =
     (let clean_word = lower (strip_chars title_punctuation word)
      in if clean_word \<in> set preserved_words
         then dedup_words all_words ws (filtered_words @ [word])
         else
           let should_keep =
                 (\<not> list_ex (\<lambda>(j, other_word). i \<noteq> j \<and>
                        fragment_of clean_word (lower (strip_chars title_punctuation other_word)))
                      all_words);
               already_added =
                 list_ex (\<lambda>existing. lower (strip_chars title_punctuation existing) = clean_word)
                   filtered_words
           in if should_keep \<and> \<not> already_added
              then dedup_words all_words ws (filtered_words @ [word])
              else dedup_words all_words ws filtered_words)"

definition smart_deduplicate_title :: "ustring \<Rightarrow> ustring" where
  "smart_deduplicate_title title =
     (let words0 = split title;
          words = [word \<leftarrow> words0.
                     length (strip_chars title_punctuation word) > 1
                     \<or> strip_chars title_punctuation (lower word) = u ''a''];
          indexed = zip [0 ..< length words] words
      in join_sp (dedup_words indexed indexed []))"

record candidate =
  cand_text :: ustring
  cand_size :: rat
  cand_y :: rat
  cand_flags :: nat

text \<open>
  The test on a span of the first page, with the patterns \<^verbatim>\<open>^[0-9\-]+$\<close>,
  \<^verbatim>\<open>^[0-9\s]*$\<close> and \<^verbatim>\<open>^[a-z]\s*$\<close>.
\<close>

definition title_span_ok :: "ustring \<Rightarrow> bool" where
  "title_span_ok text =
     (text \<noteq> [] \<and> length text > 1
      \<and> \<not> (starts_with text (u ''Page '') \<or> starts_with text (u ''Chapter '')
             \<or> starts_with text (u ''Section ''))
      \<and> \<not> starts_with text (u ''http'')
      \<and> \<not> (ends_with text (u ''.com'') \<or> ends_with text (u ''.org'') \<or> ends_with text (u ''.net''))
      \<and> \<not> re_match False (Seq [Bol, Plus (Cls [CR 48 57, CC 45]), Eol]) text
      \<and> \<not> re_match False (Seq [Bol, Star (Cls [CR 48 57, CSpace]), Eol]) text
      \<and> \<not> re_match False (Seq [Bol, Cls [CR 97 122], Star (Cls [CSpace]), Eol]) text)"

text \<open>The loop over the spans of a line: \<open>line_parts\<close>, \<open>line_size\<close>, \<open>line_flags\<close>.\<close>

fun title_line_parts :: "span list \<Rightarrow> ustring list \<times> rat \<times> nat \<Rightarrow> ustring list \<times> rat \<times> nat" where
  "title_line_parts [] acc = acc"
| "title_line_parts (s # ss) (line_parts, line_size, line_flags) =
     (let text = strip (span_text s)
      in if title_span_ok text then
           (let words = split text
            in if length words \<le> 3
                  \<or> of_nat (length (remdups words)) \<ge> of_nat (length words) * (6 / 10 :: rat)
               then title_line_parts ss
                      (line_parts @ [text], max line_size (span_size s), line_flags OR span_flags s)
               else title_line_parts ss (line_parts, line_size, line_flags))
         else title_line_parts ss (line_parts, line_size, line_flags))"

definition title_candidates_of_line :: "page \<Rightarrow> bbox list \<Rightarrow> line \<Rightarrow> candidate list" where
  "title_candidates_of_line pg page_tables li =
     (case bbox_of li of (line_x0, line_y0, line_x1, line_y1) \<Rightarrow>
        let line_y = line_y0;
            (line_parts, line_size, line_flags) = title_line_parts (spans_of li) ([], 0, 0)
        in if line_parts \<noteq> [] then
             (let line_x = line_x0;
                  is_right_aligned = (line_x > page_rect_width pg * (6 / 10));
                  is_in_table = in_any_table page_tables (bbox_of li);
                  is_in_box = is_text_in_box pg (bbox_of li)
              in if \<not> is_right_aligned \<and> \<not> is_in_table \<and> \<not> is_in_box
                    \<and> line_y < page_rect_height pg * (60 / 100)
                 then [\<lparr>cand_text = join_sp line_parts, cand_size = line_size, cand_y = line_y,
                         cand_flags = line_flags\<rparr>]
                 else [])
           else [])"

text \<open>Python's \<open>round\<close> of a float: to the nearest integer, a half to the even one.\<close>

definition py_round :: "rat \<Rightarrow> int" where
  "py_round q =
     (let f = \<lfloor>q\<rfloor>; d = q - of_int f
      in if d < 1 / 2 then f else if d > 1 / 2 then f + 1 else if even f then f else f + 1)"

text \<open>The dictionary \<open>size_groups\<close>, in insertion order.\<close>

fun add_to_group :: "int \<Rightarrow> candidate \<Rightarrow> (int \<times> candidate list) list
    \<Rightarrow> (int \<times> candidate list) list" where
  "add_to_group size_key c [] = [(size_key, [c])]"
| "add_to_group size_key c ((k, cs) # groups) =
     (if k = size_key then (k, cs @ [c]) # groups else (k, cs) # add_to_group size_key c groups)"

definition group_by_size :: "candidate list \<Rightarrow> (int \<times> candidate list) list" where
  "group_by_size top_candidates =
     foldl (\<lambda>size_groups c. add_to_group (py_round (cand_size c / 2) * 2) c size_groups)
       [] top_candidates"

definition group_of :: "(int \<times> candidate list) list \<Rightarrow> int \<Rightarrow> candidate list" where
  "group_of size_groups k = (case map_of size_groups k of Some cs \<Rightarrow> cs | None \<Rightarrow> [])"

text \<open>
  The loop that builds \<open>title_lines\<close> in the multi-part branch: a candidate joins the
  first group whose last line is near enough, and the loop breaks at the first candidate
  below the middle of the page.
\<close>

fun add_to_title_line :: "rat \<Rightarrow> candidate \<Rightarrow> candidate list list \<Rightarrow> candidate list list" where
  "add_to_title_line limit c [] = [[c]]"
| "add_to_title_line limit c (line_group # title_lines) =
     (if \<bar>cand_y c - cand_y (last line_group)\<bar> \<le> limit
      then (line_group @ [c]) # title_lines
      else line_group # add_to_title_line limit c title_lines)"

fun build_title_lines :: "rat \<Rightarrow> rat \<Rightarrow> candidate list \<Rightarrow> candidate list list
    \<Rightarrow> candidate list list" where
  "build_title_lines half_height limit [] title_lines = title_lines"
| "build_title_lines half_height limit (c # cs) title_lines =
     (if cand_y c > half_height then title_lines
      else build_title_lines half_height limit cs (add_to_title_line limit c title_lines))"

text \<open>The loop that builds \<open>combined_lines\<close> in the single-group branch.\<close>

fun build_combined_lines :: "rat \<Rightarrow> candidate list \<Rightarrow> candidate list list \<Rightarrow> candidate list list" where
  "build_combined_lines limit [] combined_lines = combined_lines"
| "build_combined_lines limit (c # cs) combined_lines =
     (if combined_lines = [] then build_combined_lines limit cs [[c]]
      else
        let last_group = last combined_lines; last_y = cand_y (last last_group)
        in if cand_y c - last_y \<le> limit
           then build_combined_lines limit cs (butlast combined_lines @ [last_group @ [c]])
           else build_combined_lines limit cs (combined_lines @ [[c]]))"

fun unique_parts_of :: "candidate list \<Rightarrow> ustring list \<Rightarrow> ustring list" where
  "unique_parts_of [] unique_parts = unique_parts"
| "unique_parts_of (c # cs) unique_parts =
     (let text = strip (cand_text c)
      in if text \<noteq> [] \<and> text \<notin> set unique_parts \<and> length text > 2
         then unique_parts_of cs (unique_parts @ [text])
         else unique_parts_of cs unique_parts)"

definition single_group_title :: "(int \<times> candidate list) list \<Rightarrow> ustring" where
  "single_group_title size_groups =
     (let largest_size = Max (set (map fst size_groups));
          largest_group = sort_key cand_y (group_of size_groups largest_size);
          combined_lines = build_combined_lines (of_int largest_size * 3) largest_group []
      in if combined_lines \<noteq> [] then
           (let best_group = hd combined_lines;
                unique_parts = unique_parts_of best_group []
            in if unique_parts \<noteq> [] then smart_deduplicate_title (join_sp unique_parts) else [])
         else [])"

definition multi_part_title :: "page \<Rightarrow> (int \<times> candidate list) list \<Rightarrow> ustring option" where
  "multi_part_title pg size_groups =
     (if length size_groups \<ge> 2 then
        (let sorted_sizes = rev (sort (map fst size_groups));
             largest_size = sorted_sizes ! 0;
             second_largest_size = sorted_sizes ! 1
         in if of_int second_largest_size \<ge> of_int largest_size * (6 / 10 :: rat) then
              (let all_title_candidates =
                     sort_key cand_y (group_of size_groups largest_size
                                      @ group_of size_groups second_largest_size);
                   title_lines = build_title_lines (page_rect_height pg * (5 / 10))
                                   (of_int largest_size * 3) all_title_candidates [];
                   title_parts =
                     [line_text. line_group \<leftarrow> title_lines,
                        line_text \<leftarrow> [join_sp [strip (cand_text c). c \<leftarrow> line_group,
                                                   strip (cand_text c) \<noteq> []]],
                        line_text \<noteq> []]
               in if title_parts \<noteq> []
                  then Some (smart_deduplicate_title (join_sp title_parts)) else None)
            else None)
      else None)"

text \<open>
  \<open>extract_title_from_text(doc)\<close>. \<open>first_page_tables\<close> is the list \<open>page_tables\<close>
  that the function gets from the table-detection collaborator for the first page.
\<close>

definition extract_title_from_text :: "document \<Rightarrow> bbox list \<Rightarrow> ustring" where
  "extract_title_from_text doc first_page_tables =
     (case doc of
        [] \<Rightarrow> u ''Untitled Document''
      | pg # pages \<Rightarrow>
          let candidates0 = [c. b \<leftarrow> page_blocks pg, li \<leftarrow> block_lines b,
                                c \<leftarrow> title_candidates_of_line pg first_page_tables li]
          in if candidates0 \<noteq> [] then
               (let candidates = [c \<leftarrow> candidates0. length (cand_text c) < 200];
                    top_y = page_rect_height pg * (60 / 100);
                    top_candidates = [c \<leftarrow> candidates. cand_y c \<le> top_y]
                in if top_candidates = [] then []
                   else
                     let size_groups = group_by_size top_candidates
                     in case multi_part_title pg size_groups of
                          Some final_title \<Rightarrow> final_title
                        | None \<Rightarrow> single_group_title size_groups)
             else [])"

section \<open>Formatting heading classifier\<close>

text \<open>
  Python's \<open>/\<close> on floats is the division of IEEE doubles: the exact quotient rounded to
  the nearest double, ties to even, and a literal such as \<open>1.4\<close> is the double nearest
  to the decimal. \<open>round_double x\<close> is that double: 53 significant bits, or a multiple of
  \<open>2^-1074\<close> below \<open>2^-1022\<close>. The model has no infinity: a quotient beyond the range of
  the doubles stays a finite number, which is above every threshold as infinity is.
\<close>

fun bit_length :: "nat \<Rightarrow> nat" where
  "bit_length n = (if n = 0 then 0 else Suc (bit_length (n div 2)))"

declare bit_length.simps [simp del]

definition pow2 :: "int \<Rightarrow> rat" where
  "pow2 k = (if k \<ge> 0 then 2 ^ nat k else 1 / 2 ^ nat (- k))"

text \<open>For \<open>x > 0\<close>, the exponent \<open>e\<close> with \<open>2^e \<le> x < 2^(e+1)\<close>.\<close>

definition binary_exponent :: "rat \<Rightarrow> int" where
  "binary_exponent x =
     (case quotient_of x of (p, q) \<Rightarrow>
        let k = int (bit_length (nat p)) - int (bit_length (nat q))
        in if pow2 k \<le> x then k else k - 1)"

definition round_half_even :: "rat \<Rightarrow> int" where
  "round_half_even x =
     (let f = \<lfloor>x\<rfloor>; d = x - of_int f
      in if d < 1 / 2 then f
         else if d > 1 / 2 then f + 1
         else if even f then f else f + 1)"

definition round_double :: "rat \<Rightarrow> rat" where
  "round_double x =
     (if x = 0 then 0
      else let a = \<bar>x\<bar>;
               e = max (binary_exponent a) (- 1022);
               m = round_half_even (a * pow2 (52 - e))
           in sgn x * of_int m * pow2 (e - 52))"

text \<open>The quotient of \<open>font_size / avg_font_size if avg_font_size > 0 else 1\<close> before rounding.\<close>

definition size_ratio :: "rat \<Rightarrow> rat \<Rightarrow> rat" where
  "size_ratio font_size avg_font_size =
     (if avg_font_size > 0 then font_size / avg_font_size else 1)"

definition is_heading_by_formatting :: "span \<Rightarrow> rat \<Rightarrow> level option" where
  "is_heading_by_formatting s avg_font_size =
     (let font_size = span_size s;
          bold = is_bold s;
          ratio = round_double (size_ratio font_size avg_font_size)
      in if ratio \<ge> round_double (14 / 10) \<or> (bold \<and> ratio \<ge> round_double (12 / 10))
           then Some H1
         else if ratio \<ge> round_double (120 / 100) \<or> (bold \<and> ratio \<ge> 1)
           then Some H2
         else if bold \<and> ratio \<ge> round_double (8 / 10) then Some H3
         else None)"

section \<open>Average font size\<close>

text \<open>The sizes collected by the loops over the first five pages.\<close>

definition sampled_font_sizes :: "document \<Rightarrow> rat list" where
  "sampled_font_sizes doc =
     [span_size s. pg \<leftarrow> take 5 doc, b \<leftarrow> page_blocks pg, li \<leftarrow> block_lines b,
                   s \<leftarrow> spans_of li, strip (span_text s) \<noteq> []]"

definition calculate_average_font_size :: "document \<Rightarrow> rat" where
  "calculate_average_font_size doc =
     (let font_sizes = sampled_font_sizes doc
      in if font_sizes \<noteq> [] then sum_list font_sizes / of_nat (length font_sizes) else 12)"

section \<open>Outline assembler\<close>

record heading =
  h_level :: level
  h_text :: ustring
  h_page :: nat

record outline_result =
  res_title :: ustring
  res_outline :: "heading list"

text \<open>
  What \<open>extract_outline\<close> reads of a file: the document of the decoder (\<open>None\<close> when
  opening or parsing the file raises), the tables of \<open>detect_tables_with_pdfplumber\<close>
  (1-based page number and box) and the tables of the first page that the title
  reconstruction uses.
\<close>

record pdf_file =
  decoded :: "document option"
  tables :: "(nat \<times> bbox) list"
  first_page_tables :: "bbox list"

text \<open>The local state of the loops, and the instance state that the list detector writes.\<close>

record loop_state =
  outline_acc :: "heading list"
  processed_texts :: "ustring list"
  self_state :: extractor

text \<open>Python's \<open>x % 360\<close> on floats.\<close>

definition mod360 :: "rat \<Rightarrow> rat" where
  "mod360 x = x - 360 * of_int \<lfloor>x / 360\<rfloor>"

definition orientation_ok :: "span \<Rightarrow> bool" where
  "orientation_ok s =
     list_ex (\<lambda>base. \<bar>mod360 (span_angle s - base)\<bar> \<le> 5) [0, 90, 180, 270]"

text \<open>The loop over the spans of the current line: \<open>line_text\<close> and \<open>line_spans\<close>.\<close>

fun collect_spans :: "span list \<Rightarrow> ustring \<times> span list \<Rightarrow> ustring \<times> span list" where
  "collect_spans [] acc = acc"
| "collect_spans (s # ss) (line_text, line_spans) =
     (let text = strip (span_text s)
      in if text \<noteq> [] \<and> orientation_ok s
         then collect_spans ss (line_text @ text @ u '' '', line_spans @ [s])
         else collect_spans ss (line_text, line_spans))"

definition average :: "rat list \<Rightarrow> rat" where
  "average xs = sum_list xs / of_nat (length xs)"

text \<open>
  The inner loop that merges the following lines into the current one. Its second
  argument is the list of the lines after index \<open>i\<close>; the first component of the result
  is the number of lines merged, by which \<open>i\<close> is advanced.
\<close>

fun merge_next :: "line \<Rightarrow> line list \<Rightarrow> ustring \<Rightarrow> span list \<Rightarrow> nat \<times> ustring \<times> span list" where
  "merge_next li [] line_text line_spans = (0, line_text, line_spans)"
| "merge_next li (next_line # following) line_text line_spans =
     (let next_spans = spans_of next_line;
          next_text = join_sp [strip (span_text s). s \<leftarrow> next_spans, strip (span_text s) \<noteq> []]
      in if next_text = [] then (0, line_text, line_spans)
         else
           let font_sizes = (if line_spans \<noteq> [] then map span_size line_spans else [0]);
               next_font_sizes = (if next_spans \<noteq> [] then map span_size next_spans else [0]);
               avg_size = average font_sizes;
               next_avg_size = average next_font_sizes;
               size_diff = \<bar>avg_size - next_avg_size\<bar>;
               vertical_diff =
                 (case bbox_of next_line of (nx0, ny0, nx1, ny1) \<Rightarrow>
                  case bbox_of li of (x0, y0, x1, y1) \<Rightarrow> \<bar>ny0 - y1\<bar>)
           in if size_diff \<le> 1 \<and> vertical_diff \<le> avg_size * (15 / 10) then
                (case merge_next li following (line_text @ next_text @ u '' '')
                        (line_spans @ next_spans) of
                   (k, t, ss) \<Rightarrow> (Suc k, t, ss))
              else (0, line_text, line_spans))"

definition is_title_related :: "nat \<Rightarrow> ustring \<Rightarrow> ustring \<Rightarrow> bool" where
  "is_title_related page_num title line_text =
     (if page_num = 0 \<and> title \<noteq> [] then
        (let is_exact_match = (lower (strip line_text) = lower (strip title));
             title_words = remdups (split (lower title));
             line_words = remdups (split (lower line_text))
         in if title_words \<noteq> [] \<and> line_words \<noteq> [] then
              (let word_overlap = length [w \<leftarrow> line_words. w \<in> set title_words];
                   is_title_part = (word_overlap \<ge> length line_words \<and> length line_words \<le> 3)
               in is_exact_match \<or> is_title_part)
            else False)
      else False)"

text \<open>The page contains a contents keyword of the language of its text, or of English.\<close>

definition is_on_toc_page :: "page \<Rightarrow> bool" where
  "is_on_toc_page pg =
     (let page_text = lower (page_plain_text pg);
          detected_lang = detect_language page_text
      in list_ex (\<lambda>l. list_ex (\<lambda>keyword. contains (lower keyword) page_text)
                         (heading_keywords l K_table_of_contents))
           (languages_to_check detected_lang))"

text \<open>
  On a contents page a line goes on only if it matches \<^verbatim>\<open>^(?:{toc_pattern})$\<close> or
  matches \<^verbatim>\<open>^\d+\.\<close> and has a bold span.
\<close>

definition allowed_on_toc_page :: "page \<Rightarrow> ustring \<Rightarrow> span list \<Rightarrow> bool" where
  "allowed_on_toc_page pg line_text line_spans =
     (let page_text = lower (page_plain_text pg);
          detected_lang = detect_language page_text;
          toc_keywords = concat (map (\<lambda>l. heading_keywords l K_table_of_contents)
                                   (languages_to_check detected_lang))
      in re_match True (Seq [Bol, alt_words toc_keywords, Eol]) (strip line_text)
         \<or> (re_match False (Seq [Bol, Plus (Cls [CDigit]), Str (u ''.'')]) (strip line_text)
            \<and> list_ex is_bold line_spans))"

fun first_formatting_level :: "span list \<Rightarrow> rat \<Rightarrow> level option" where
  "first_formatting_level [] avg_font_size = None"
| "first_formatting_level (s # ss) avg_font_size =
     (case is_heading_by_formatting s avg_font_size of
        Some lv \<Rightarrow> Some lv
      | None \<Rightarrow> first_formatting_level ss avg_font_size)"

definition find_heading_level :: "ustring \<Rightarrow> span list \<Rightarrow> rat \<Rightarrow> level option" where
  "find_heading_level line_text line_spans avg_font_size =
     (let any_bold = list_ex is_bold line_spans;
          all_bold = list_all is_bold line_spans;
          heading_level = (if any_bold \<and> \<not> all_bold then None
                           else first_formatting_level line_spans avg_font_size)
      in case heading_level of
           Some lv \<Rightarrow> Some lv
         | None \<Rightarrow> is_heading_by_pattern line_text)"

text \<open>The condition of the large \<open>if\<close> that admits a line as a heading candidate.\<close>

definition candidate_line :: "ustring \<Rightarrow> nat \<Rightarrow> page \<Rightarrow> bbox list \<Rightarrow> line \<Rightarrow> ustring
    \<Rightarrow> span list \<Rightarrow> ustring list \<Rightarrow> bool" where
  "candidate_line title page_num pg page_tables li line_text line_spans processed =
     (let line_x = (case bbox_of li of (x0, y0, x1, y1) \<Rightarrow> x0);
          is_direction_compatible =
            (if line_spans \<noteq> []
             then is_text_direction_compatible line_text line_x (page_rect_width pg) else True);
          is_in_box = (if line_spans \<noteq> [] then is_text_in_box pg (bbox_of li) else False);
          is_in_table = (if line_spans \<noteq> [] then in_any_table page_tables (bbox_of li) else False)
      in length line_text > 3 \<and> length line_text < 200
         \<and> line_text \<notin> set processed \<and> line_spans \<noteq> []
         \<and> \<not> should_skip_text line_text (Some line_spans)
         \<and> line_text \<noteq> title
         \<and> \<not> is_title_related page_num title line_text
         \<and> is_direction_compatible
         \<and> \<not> is_in_box
         \<and> \<not> is_in_table)"

text \<open>
  The body of the loop over the lines, after the line has been assembled: \<open>i\<close> is the
  loop index, which the source has incremented before it calls the list detector.
\<close>

definition process_line :: "ustring \<Rightarrow> rat \<Rightarrow> nat \<Rightarrow> page \<Rightarrow> bbox list \<Rightarrow> line list \<Rightarrow> nat
    \<Rightarrow> line \<Rightarrow> ustring \<Rightarrow> span list \<Rightarrow> loop_state \<Rightarrow> loop_state" where
  "process_line title avg_font_size page_num pg page_tables lines i li line_text line_spans st =
     (if candidate_line title page_num pg page_tables li line_text line_spans (processed_texts st)
      then
        (if is_on_toc_page pg \<and> \<not> allowed_on_toc_page pg line_text line_spans then st
         else
           case find_heading_level line_text line_spans avg_font_size of
             None \<Rightarrow> st
           | Some heading_level \<Rightarrow>
               (case is_likely_list_item (self_state st) line_text lines i of
                  (True, self') \<Rightarrow> st\<lparr>self_state := self'\<rparr>
                | (False, self') \<Rightarrow>
                    let bold_found = list_ex is_bold line_spans;
                        max_font_size = Max (set (map span_size line_spans))
                    in if page_num = 0 \<and> \<not> bold_found \<and> max_font_size \<ge> 16
                       then st\<lparr>self_state := self'\<rparr>
                       else
                         let heading_text = clean_extracted_text line_text True
                         in st\<lparr>outline_acc := outline_acc st @
                                  [\<lparr>h_level = heading_level, h_text = heading_text,
                                    h_page = page_num + 1\<rparr>],
                               processed_texts := processed_texts st @ [line_text],
                               self_state := self'\<rparr>))
      else st)"

text \<open>The \<open>while i < len(lines)\<close> loop of a block.\<close>

function lines_loop :: "ustring \<Rightarrow> rat \<Rightarrow> nat \<Rightarrow> page \<Rightarrow> bbox list \<Rightarrow> line list \<Rightarrow> nat
    \<Rightarrow> loop_state \<Rightarrow> loop_state" where
  "lines_loop title avg_font_size page_num pg page_tables lines i st =
     (if i < length lines then
        (let li = lines ! i;
             (line_text0, line_spans0) = collect_spans (spans_of li) ([], []);
             (k, line_text1, line_spans) = merge_next li (drop (i + 1) lines) line_text0 line_spans0;
             line_text2 = strip line_text1;
             i' = i + k + 1;
             line_text = (if line_text2 \<noteq> [] then clean_extracted_text line_text2 False
                          else line_text2)
         in lines_loop title avg_font_size page_num pg page_tables lines i'
              (process_line title avg_font_size page_num pg page_tables lines i' li
                 line_text line_spans st))
      else st)"
  by pat_completeness auto
termination
  by (relation "measure (\<lambda>(title, avg, page_num, pg, page_tables, lines, i, st). length lines - i)")
     auto

declare lines_loop.simps [simp del]

text \<open>The loop over the blocks of a page, and the loop over the pages.\<close>

definition page_loop :: "ustring \<Rightarrow> rat \<Rightarrow> (nat \<times> bbox) list \<Rightarrow> nat \<times> page \<Rightarrow> loop_state
    \<Rightarrow> loop_state" where
  "page_loop title avg_font_size all_tables numbered_page st =
     (case numbered_page of (page_num, pg) \<Rightarrow>
        let page_tables = [box. (p, box) \<leftarrow> all_tables, p = page_num + 1]
        in fold (\<lambda>b st'. case b of
                   TextBlock lines \<Rightarrow>
                     lines_loop title avg_font_size page_num pg page_tables lines 0 st'
                 | OtherBlock \<Rightarrow> st')
             (page_blocks pg) st)"

definition collect_outline :: "ustring \<Rightarrow> rat \<Rightarrow> (nat \<times> bbox) list \<Rightarrow> document \<Rightarrow> extractor
    \<Rightarrow> loop_state" where
  "collect_outline title avg_font_size all_tables doc self =
     fold (page_loop title avg_font_size all_tables) (zip [0 ..< length doc] doc)
       \<lparr>outline_acc = [], processed_texts = [], self_state = self\<rparr>"

text \<open>
  The end of \<open>extract_outline\<close>: the records sorted by \<open>(page, text)\<close> (Python's
  \<open>sorted\<close> is stable), then the first record of every \<open>(level, text)\<close> kept.
\<close>

definition page_text_le :: "heading \<Rightarrow> heading \<Rightarrow> bool" where
  "page_text_le a b = (h_page a < h_page b \<or> (h_page a = h_page b \<and> h_text a \<le> h_text b))"

fun insert_sorted :: "heading \<Rightarrow> heading list \<Rightarrow> heading list" where
  "insert_sorted x [] = [x]"
| "insert_sorted x (y # ys) =
     (if page_text_le x y then x # y # ys else y # insert_sorted x ys)"

definition sorted_outline :: "heading list \<Rightarrow> heading list" where
  "sorted_outline outline = foldr insert_sorted outline []"

fun unique_outline :: "heading list \<Rightarrow> (level \<times> ustring) list \<Rightarrow> heading list" where
  "unique_outline [] seen = []"
| "unique_outline (item # items) seen =
     (let key = (h_level item, h_text item)
      in if key \<notin> set seen then item # unique_outline items (seen @ [key])
         else unique_outline items seen)"

text \<open>
  \<open>extract_outline(pdf_path)\<close>: the result and the instance state after the call. The
  branch for \<open>None\<close> is the \<open>except\<close> clause.
\<close>

definition extract_outline :: "extractor \<Rightarrow> pdf_file \<Rightarrow> outline_result \<times> extractor" where
  "extract_outline self pdf =
     (case decoded pdf of
        None \<Rightarrow> (\<lparr>res_title = [], res_outline = []\<rparr>, self)
      | Some doc \<Rightarrow>
          let title = extract_title_from_text doc (first_page_tables pdf);
              avg_font_size = calculate_average_font_size doc;
              st = collect_outline title avg_font_size (tables pdf) doc self;
              outline = unique_outline (sorted_outline (outline_acc st)) [];
              title_text = (if title \<noteq> [] \<and> title \<noteq> u ''Untitled Document''
                            then clean_extracted_text title True else [])
          in (\<lparr>res_title = title_text, res_outline = outline\<rparr>, self_state st))"

section \<open>Batch processing\<close>

text \<open>
  One file of the batch: its name, what the collaborators return for it, and whether
  writing its JSON file succeeds. What \<open>process_directory\<close> does for a file is recorded
  as an event.
\<close>

record job =
  job_name :: ustring
  job_pdf :: pdf_file
  job_writable :: bool

datatype event = Saved ustring outline_result | Failed ustring

fun process_files :: "extractor \<Rightarrow> job list \<Rightarrow> event list \<times> extractor" where
  "process_files self [] = ([], self)"
| "process_files self (j # js) =
     (case extract_outline self (job_pdf j) of
        (result, self') \<Rightarrow>
          let ev = (if job_writable j then Saved (job_name j) result else Failed (job_name j))
          in case process_files self' js of (evs, self'') \<Rightarrow> (ev # evs, self''))"

definition process_directory :: "extractor \<Rightarrow> job list \<Rightarrow> event list \<times> extractor" where
  "process_directory self pdf_files =
     (if pdf_files = [] then ([], self) else process_files self pdf_files)"

section \<open>Predicates of the statements\<close>

text \<open>The four script families that \<open>detect_language\<close> counts.\<close>

definition latin_letter :: "nat \<Rightarrow> bool" where
  "latin_letter c = ((0x41 \<le> c \<and> c \<le> 0x5A) \<or> (0x61 \<le> c \<and> c \<le> 0x7A))"

definition han_or_kana :: "nat \<Rightarrow> bool" where
  "han_or_kana c = ((0x4E00 \<le> c \<and> c \<le> 0x9FFF) \<or> (0x3040 \<le> c \<and> c \<le> 0x309F)
     \<or> (0x30A0 \<le> c \<and> c \<le> 0x30FF))"

definition arabic_char :: "nat \<Rightarrow> bool" where
  "arabic_char c = (0x0600 \<le> c \<and> c \<le> 0x06FF)"

definition cyrillic_char :: "nat \<Rightarrow> bool" where
  "cyrillic_char c = (0x0400 \<le> c \<and> c \<le> 0x04FF)"

text \<open>
  The neighbours of the line at index \<open>i\<close> of a block: up to ten lines before it and up
  to ten lines after it. A neighbour counts when its text is not empty and starts with
  \<open>major.minor\<close> and a white space, with the given major number.
\<close>

definition neighbours :: "line list \<Rightarrow> nat \<Rightarrow> line list" where
  "neighbours lines i = drop (i - 10) (take i lines) @ take 10 (drop (Suc i) lines)"

definition same_major :: "nat \<Rightarrow> line \<Rightarrow> bool" where
  "same_major major_num check_line =
     (check_text_of check_line \<noteq> [] \<and>
      (case match_numbered (check_text_of check_line) of
         Some (g1, g2) \<Rightarrow> int_of_digits g1 = major_num
       | None \<Rightarrow> False))"


text \<open>
  The state of the loops at the end of \<open>extract_outline\<close> for a document \<open>doc\<close> that
  the decoder returns. The loops append a record to \<open>outline\<close> and its line text to
  \<open>processed_texts\<close> together, so the two lists pair every record with the line text
  that was accepted for it.
\<close>

definition loop_result :: "extractor \<Rightarrow> pdf_file \<Rightarrow> document \<Rightarrow> loop_state" where
  "loop_result self pdf doc =
     collect_outline (extract_title_from_text doc (first_page_tables pdf))
       (calculate_average_font_size doc) (tables pdf) doc self"

text \<open>Two loop states with the same local variables (the instance state may differ).\<close>

definition same_local :: "loop_state \<Rightarrow> loop_state \<Rightarrow> bool" where
  "same_local st1 st2 =
     (outline_acc st1 = outline_acc st2 \<and> processed_texts st1 = processed_texts st2)"

section \<open>Example documents\<close>

definition plain_span :: "ustring \<Rightarrow> rat \<Rightarrow> span" where
  "plain_span t sz = \<lparr>span_text = t, span_size = sz, span_flags = 0, span_angle = 0\<rparr>"

definition bold_span :: "ustring \<Rightarrow> rat \<Rightarrow> span" where
  "bold_span t sz = \<lparr>span_text = t, span_size = sz, span_flags = 16, span_angle = 0\<rparr>"

text \<open>A line of one span whose box starts at \<open>x = 50\<close> and at the height \<open>y\<close>.\<close>

definition line_at :: "rat \<Rightarrow> span \<Rightarrow> line" where
  "line_at y s = \<lparr>spans_of = [s], bbox_of = (50, y, 300, y + span_size s)\<rparr>"

text \<open>A page of 600 by 800 units with one text block and no drawings.\<close>

definition page_of :: "line list \<Rightarrow> ustring \<Rightarrow> page" where
  "page_of ls t = \<lparr>page_blocks = [TextBlock ls], page_rect_width = 600,
     page_rect_height = 800, page_drawings = [], page_plain_text = t\<rparr>"

definition empty_page :: page where
  "empty_page = \<lparr>page_blocks = [], page_rect_width = 600, page_rect_height = 800,
     page_drawings = [], page_plain_text = []\<rparr>"

definition fresh :: extractor where
  "fresh = \<lparr>detected_lists = []\<rparr>"

definition pdf_of :: "document \<Rightarrow> pdf_file" where
  "pdf_of doc = \<lparr>decoded = Some doc, tables = [], first_page_tables = []\<rparr>"

definition unreadable_pdf :: pdf_file where
  "unreadable_pdf = \<lparr>decoded = None, tables = [], first_page_tables = []\<rparr>"

text \<open>A document whose only span has the font size 0.\<close>

definition zero_size_doc :: document where
  "zero_size_doc = [page_of [line_at 100 (bold_span (u ''Text'') 0)] (u ''Text'')]"

text \<open>
  A report: the title line and a bold heading on the first page, and the title in
  capitals as a bold line on the second page.
\<close>

definition report_lines1 :: "line list" where
  "report_lines1 = [line_at 40 (plain_span (u ''Annual Report'') 24),
                    line_at 200 (bold_span (u ''OVERVIEW'') 12)]"

definition report_lines2 :: "line list" where
  "report_lines2 = [line_at 40 (bold_span (u ''ANNUAL REPORT'') 12)]"

definition report_page1 :: page where
  "report_page1 = page_of report_lines1 (u ''Annual Report OVERVIEW'')"

definition report_page2 :: page where
  "report_page2 = page_of report_lines2 (u ''ANNUAL REPORT'')"

definition report_doc :: document where
  "report_doc = [report_page1, report_page2]"

text \<open>
  An empty first page, and on the second page a block of three numbered lines that are
  too far apart to be merged; and the same with the first of the lines alone.
\<close>

definition list_lines :: "line list" where
  "list_lines = [line_at 100 (plain_span (u ''9.1 Alpha'') 12),
                 line_at 200 (plain_span (u ''9.2 Beta'') 12),
                 line_at 300 (plain_span (u ''9.3 Gamma'') 12)]"

definition list_page :: page where
  "list_page = page_of list_lines (u ''9.1 Alpha 9.2 Beta 9.3 Gamma'')"

definition list_doc :: document where
  "list_doc = [empty_page, list_page]"

definition single_lines :: "line list" where
  "single_lines = [line_at 100 (plain_span (u ''9.1 Alpha'') 12)]"

definition single_page :: page where
  "single_page = page_of single_lines (u ''9.1 Alpha'')"

definition single_doc :: document where
  "single_doc = [empty_page, single_page]"

text \<open>A second page with a block of two numbered lines only.\<close>

definition pair_lines :: "line list" where
  "pair_lines = [line_at 100 (plain_span (u ''9.1 Alpha'') 12),
                 line_at 200 (plain_span (u ''9.2 Beta'') 12)]"

definition pair_page :: page where
  "pair_page = page_of pair_lines (u ''9.1 Alpha 9.2 Beta'')"

definition pair_doc :: document where
  "pair_doc = [empty_page, pair_page]"

text \<open>
  A document of one page with one bold line, which is also its title; the text has a
  space before the comma, which the cleaning of texts removes.
\<close>

definition slip_lines :: "line list" where
  "slip_lines = [line_at 40 (bold_span (u ''Report ,Annual'') 12)]"

definition slip_page :: page where
  "slip_page = page_of slip_lines (u ''Report ,Annual'')"

definition slip_doc :: document where
  "slip_doc = [slip_page]"




section \<open>Lemmas on strings\<close>

lemma starts_with_iff: "starts_with s p \<longleftrightarrow> (\<exists>post. s = p @ post)"
  by (induction s p rule: starts_with.induct) auto

lemma contains_prefix: "contains k (k @ post)"
proof (cases "k @ post")
  case Nil
  then show ?thesis by simp
next
  case (Cons a list)
  then have "\<exists>p. a # list = k @ p" by metis
  then have "starts_with (a # list) k" by (simp add: starts_with_iff)
  then show ?thesis using Cons by simp
qed

lemma contains_iff: "contains k s \<longleftrightarrow> (\<exists>pre post. s = pre @ k @ post)"
proof (induction s)
  case Nil
  then show ?case by auto
next
  case (Cons c cs)
  show ?case
  proof
    assume "contains k (c # cs)"
    then consider "starts_with (c # cs) k" | "contains k cs" by auto
    then show "\<exists>pre post. c # cs = pre @ k @ post"
    proof cases
      case 1
      then obtain post where "c # cs = k @ post" by (auto simp: starts_with_iff)
      then have "c # cs = [] @ k @ post" by simp
      then show ?thesis by blast
    next
      case 2
      then obtain pre post where "cs = pre @ k @ post" using Cons.IH by auto
      then have "c # cs = (c # pre) @ k @ post" by simp
      then show ?thesis by blast
    qed
  next
    assume "\<exists>pre post. c # cs = pre @ k @ post"
    then obtain pre post where e: "c # cs = pre @ k @ post" by auto
    show "contains k (c # cs)"
    proof (cases pre)
      case Nil
      then show ?thesis using e contains_prefix[of k post] by simp
    next
      case (Cons a pre')
      then have "cs = pre' @ k @ post" using e by simp
      then show ?thesis using Cons.IH by auto
    qed
  qed
qed





section \<open>Formatting heading classifier\<close>

lemma round_double_one: "round_double 1 = 1"
  by code_simp

text \<open>
  C6. For every span and every document average font size, with the ratio that the
  code computes (the float quotient of the span font size and the average, and 1 when
  the average is not positive) and with the float literals \<open>1.4\<close>, \<open>1.2\<close>, \<open>1.20\<close>,
  \<open>1.0\<close> and \<open>0.8\<close> of the code: the result is H1 iff ratio \<ge> 1.4 or (bold and
  ratio \<ge> 1.2); otherwise H2 iff ratio \<ge> 1.20 or (bold and ratio \<ge> 1.0); otherwise H3
  iff bold and ratio \<ge> 0.8; otherwise none.
\<close>

theorem is_heading_by_formatting_rules:
  fixes s :: span and avg :: rat
  defines "ratio \<equiv> (if avg > 0 then round_double (span_size s / avg) else 1)"
  defines "bold \<equiv> (span_flags s AND 16 \<noteq> 0)"
  defines "c1 \<equiv> (ratio \<ge> round_double (14 / 10) \<or> (bold \<and> ratio \<ge> round_double (12 / 10)))"
  defines "c2 \<equiv> (ratio \<ge> round_double (120 / 100) \<or> (bold \<and> ratio \<ge> 1))"
  defines "c3 \<equiv> (bold \<and> ratio \<ge> round_double (8 / 10))"
  shows "(is_heading_by_formatting s avg = Some H1) = c1
       \<and> (is_heading_by_formatting s avg = Some H2) = (\<not> c1 \<and> c2)
       \<and> (is_heading_by_formatting s avg = Some H3) = (\<not> c1 \<and> \<not> c2 \<and> c3)
       \<and> (is_heading_by_formatting s avg = None) = (\<not> c1 \<and> \<not> c2 \<and> \<not> c3)"
proof -
  have r: "round_double (size_ratio (span_size s) avg) = ratio"
    by (simp add: size_ratio_def ratio_def round_double_one)
  show ?thesis
    unfolding is_heading_by_formatting_def Let_def r is_bold_def c1_def c2_def c3_def bold_def
    by simp
qed

text \<open>
  The scenario of the specification: a bold span of 1.5 times the average size is H1.
  At the thresholds the comparison is that of the doubles: the size \<open>1.4\<close> with the
  average 1, and the size \<open>11.2\<close> with the average 8, are H1, and a span that is not bold
  of the size \<open>1.2\<close> with the average 1 is H2.
\<close>

lemma is_heading_by_formatting_example:
  "is_heading_by_formatting (bold_span (u ''OVERVIEW'') 18) 12 = Some H1"
  by code_simp

lemma is_heading_by_formatting_thresholds:
  "is_heading_by_formatting (plain_span (u ''Text'') (round_double (14 / 10))) 1 = Some H1"
  "is_heading_by_formatting (plain_span (u ''Text'') (round_double (112 / 10))) 8 = Some H1"
  "is_heading_by_formatting (plain_span (u ''Text'') (round_double (12 / 10))) 1 = Some H2"
  "is_heading_by_formatting (bold_span (u ''Text'') (round_double (8 / 10))) 1 = Some H3"
  "is_heading_by_formatting (plain_span (u ''Text'') 1) 1 = None"
  "round_double (14 / 10) = 6305039478318694 / 4503599627370496"
  "round_double (12 / 10) = 5404319552844595 / 4503599627370496"
  "round_double (8 / 10) = 3602879701896397 / 4503599627370496"
  by code_simp+

section \<open>Average font size\<close>

lemma sampled_font_sizes_spans:
  "x \<in> set (sampled_font_sizes doc) \<Longrightarrow>
   \<exists>pg\<in>set doc. \<exists>b\<in>set (page_blocks pg). \<exists>li\<in>set (block_lines b).
     \<exists>s\<in>set (spans_of li). x = span_size s"
  unfolding sampled_font_sizes_def by (auto dest: in_set_takeD)

lemma sum_list_pos: "xs \<noteq> [] \<Longrightarrow> \<forall>x\<in>set xs. (0::rat) < x \<Longrightarrow> 0 < sum_list xs"
  by (induction xs) (auto intro: add_pos_nonneg sum_list_nonneg less_imp_le)

text \<open>
  C10, as stated, fails: the function returns the mean of whatever sizes the decoder
  reports. For a document whose only span has the size 0 the average is 0, and the
  classifier then takes 1 for the ratio (a bold span of size 0 becomes H2).
\<close>

theorem average_font_size_zero:
  "calculate_average_font_size zero_size_doc = 0
   \<and> size_ratio 0 (calculate_average_font_size zero_size_doc) = 1
   \<and> is_heading_by_formatting (bold_span (u ''Text'') 0)
        (calculate_average_font_size zero_size_doc) = Some H2"
  by code_simp

text \<open>
  C10, amended. When every span of the document has a positive font size (the data
  model of the specification), \<open>calculate_average_font_size\<close> returns a positive value:
  the mean of the sampled sizes when the first five pages have a span with text, and 12
  otherwise. Then the ratio that \<open>is_heading_by_formatting\<close> uses is the quotient of
  the span size and the average, for every span.
\<close>

theorem average_font_size_positive:
  assumes "\<forall>pg\<in>set doc. \<forall>b\<in>set (page_blocks pg). \<forall>li\<in>set (block_lines b).
             \<forall>s\<in>set (spans_of li). 0 < span_size s"
  shows "0 < calculate_average_font_size doc
       \<and> calculate_average_font_size doc =
           (if sampled_font_sizes doc \<noteq> []
            then sum_list (sampled_font_sizes doc) / of_nat (length (sampled_font_sizes doc))
            else 12)
       \<and> size_ratio (span_size sp) (calculate_average_font_size doc)
           = span_size sp / calculate_average_font_size doc"
proof -
  have pos: "\<forall>x\<in>set (sampled_font_sizes doc). 0 < x"
    using assms sampled_font_sizes_spans by blast
  have eq: "calculate_average_font_size doc =
           (if sampled_font_sizes doc \<noteq> []
            then sum_list (sampled_font_sizes doc) / of_nat (length (sampled_font_sizes doc))
            else 12)"
    by (simp add: calculate_average_font_size_def Let_def)
  have "0 < calculate_average_font_size doc"
  proof (cases "sampled_font_sizes doc = []")
    case True
    then show ?thesis by (simp add: eq)
  next
    case False
    then have "0 < sum_list (sampled_font_sizes doc)" using pos by (rule sum_list_pos)
    moreover have "0 < (of_nat (length (sampled_font_sizes doc)) :: rat)" using False by simp
    ultimately show ?thesis using False by (simp add: eq)
  qed
  then show ?thesis using eq by (simp add: size_ratio_def)
qed

lemma report_doc_sizes:
  "\<forall>pg\<in>set report_doc. \<forall>b\<in>set (page_blocks pg). \<forall>li\<in>set (block_lines b).
     \<forall>s\<in>set (spans_of li). 0 < span_size s"
  by (simp add: report_doc_def report_page1_def report_page2_def page_of_def report_lines1_def
        report_lines2_def line_at_def plain_span_def bold_span_def)

lemma report_doc_average: "calculate_average_font_size report_doc = 16"
  by code_simp

theorem average_font_size_positive_witness:
  "0 < calculate_average_font_size report_doc
   \<and> calculate_average_font_size report_doc = 16
   \<and> size_ratio 12 (calculate_average_font_size report_doc) = 3 / 4"
  using average_font_size_positive[OF report_doc_sizes, of "bold_span (u ''OVERVIEW'') 12"]
  by (simp add: report_doc_average bold_span_def)

section \<open>Language detection\<close>

lemma fold_count_char:
  "fold count_char tx sc =
     \<lparr>latin = latin sc + length (filter latin_letter tx),
      cjk = cjk sc + length (filter han_or_kana tx),
      arabic = arabic sc + length (filter arabic_char tx),
      cyrillic = cyrillic sc + length (filter cyrillic_char tx)\<rparr>"
proof (induction tx arbitrary: sc)
  case Nil
  then show ?case by simp
next
  case (Cons c cs)
  show ?case
    unfolding fold_simps Cons.IH
    by (simp add: count_char_def latin_letter_def[of c] han_or_kana_def[of c]
          arabic_char_def[of c] cyrillic_char_def[of c])
qed

lemma count_scripts_eq:
  "count_scripts tx =
     \<lparr>latin = length (filter latin_letter tx), cjk = length (filter han_or_kana tx),
      arabic = length (filter arabic_char tx), cyrillic = length (filter cyrillic_char tx)\<rparr>"
  by (simp add: count_scripts_def fold_count_char)

lemma lower_introduction: "lower (u ''introduction'') = u ''introduction''"
  by (simp add: lower_def u_def lower_cp_def)

lemma introduction_keyword:
  "u ''introduction'' \<in> set (concat (map (heading_keywords En) all_categories))"
  by (simp add: heading_keywords_def all_categories_def)

lemma keyword_matches_introduction:
  assumes "tx = pre @ u ''introduction'' @ post"
  shows "keyword_matches En (lower tx) > 0"
proof -
  have "lower tx = lower pre @ u ''introduction'' @ lower post"
    using assms lower_introduction by (simp add: lower_def)
  then have "contains (u ''introduction'') (lower tx)" using contains_iff by blast
  then have "u ''introduction'' \<in> set [keyword \<leftarrow> concat (map (heading_keywords En) all_categories).
                                        contains keyword (lower tx)]"
    using introduction_keyword by simp
  then show ?thesis unfolding keyword_matches_def by (rule length_pos_if_in_set)
qed

text \<open>
  C4, as stated, fails: a string with a Hiragana letter and more Latin letters than
  Han and Kana letters is in the Latin bucket, and is \<open>en\<close> when it has no keyword.
\<close>

theorem detect_language_kana_minority:
  "list_ex is_kana (u ''ab'' @ [0x3053]) \<and> detect_language (u ''ab'' @ [0x3053]) = En"
  by code_simp

text \<open>
  Hangul syllables are in none of the four counted families, so a string of Hangul only
  is in the Latin bucket as well.
\<close>

lemma detect_language_hangul_only:
  "list_all is_hangul [0xD55C, 0xAD6D, 0xC5B4] \<and> detect_language [0xD55C, 0xAD6D, 0xC5B4] = En"
  by code_simp

text \<open>
  C4, amended. \<open>detect_language\<close> returns \<open>ja\<close> for every string with a Hiragana or
  Katakana code point in which the Han and Kana code points are more than the Latin
  letters and at least as many as the Arabic and as the Cyrillic code points, so for
  every non-empty string of Kana only; it returns \<open>ar\<close> for every non-empty string of
  Arabic-range code points only; and it returns \<open>en\<close> for every string that contains
  \<open>introduction\<close> and whose Latin letters are at least as many as the code points of
  each other family.
\<close>

theorem detect_language_rules:
  fixes tx :: ustring
  defines "n_latin \<equiv> length (filter latin_letter tx)"
  defines "n_cjk \<equiv> length (filter han_or_kana tx)"
  defines "n_arabic \<equiv> length (filter arabic_char tx)"
  defines "n_cyrillic \<equiv> length (filter cyrillic_char tx)"
  shows "((\<exists>c\<in>set tx. is_kana c) \<and> n_cjk > n_latin \<and> n_cjk \<ge> n_arabic \<and> n_cjk \<ge> n_cyrillic
            \<longrightarrow> detect_language tx = Ja)
       \<and> (tx \<noteq> [] \<and> (\<forall>c\<in>set tx. is_kana c) \<longrightarrow> detect_language tx = Ja)
       \<and> (tx \<noteq> [] \<and> (\<forall>c\<in>set tx. arabic_char c) \<longrightarrow> detect_language tx = Ar)
       \<and> (n_latin \<ge> n_cjk \<and> n_latin \<ge> n_arabic \<and> n_latin \<ge> n_cyrillic
            \<and> (\<exists>pre post. tx = pre @ u ''introduction'' @ post)
            \<longrightarrow> detect_language tx = En)"
proof (intro conjI impI)
  assume a: "(\<exists>c\<in>set tx. is_kana c) \<and> n_cjk > n_latin \<and> n_cjk \<ge> n_arabic \<and> n_cjk \<ge> n_cyrillic"
  then have ne: "tx \<noteq> []" by auto
  have "max_script (count_scripts tx) = Cjk"
    using a unfolding count_scripts_eq max_script_def n_latin_def n_cjk_def n_arabic_def
      n_cyrillic_def
    by auto
  moreover have "list_ex is_kana tx" using a by (simp add: list_ex_iff)
  ultimately show "detect_language tx = Ja" using ne by (simp add: detect_language_def)
next
  assume a: "tx \<noteq> [] \<and> (\<forall>c\<in>set tx. is_kana c)"
  have k: "\<And>c. is_kana c \<Longrightarrow>
             han_or_kana c \<and> \<not> latin_letter c \<and> \<not> arabic_char c \<and> \<not> cyrillic_char c"
    by (auto simp: is_kana_def han_or_kana_def latin_letter_def arabic_char_def
          cyrillic_char_def)
  have f1: "filter han_or_kana tx = tx" using a k by (simp add: filter_id_conv)
  have f2: "filter latin_letter tx = []" "filter arabic_char tx = []"
    "filter cyrillic_char tx = []"
    using a k by (auto simp: filter_empty_conv)
  have "max_script (count_scripts tx) = Cjk"
    using a unfolding count_scripts_eq max_script_def f1 f2 by auto
  moreover have "list_ex is_kana tx" using a by (cases tx) (auto simp: list_ex_iff)
  ultimately show "detect_language tx = Ja" using a by (simp add: detect_language_def)
next
  assume a: "tx \<noteq> [] \<and> (\<forall>c\<in>set tx. arabic_char c)"
  have k: "\<And>c. arabic_char c \<Longrightarrow> \<not> han_or_kana c \<and> \<not> latin_letter c \<and> \<not> cyrillic_char c"
    by (auto simp: han_or_kana_def latin_letter_def arabic_char_def cyrillic_char_def)
  have f1: "filter arabic_char tx = tx" using a by (simp add: filter_id_conv)
  have f2: "filter latin_letter tx = []" "filter han_or_kana tx = []"
    "filter cyrillic_char tx = []"
    using a k by (auto simp: filter_empty_conv)
  have "max_script (count_scripts tx) = Arabic"
    using a unfolding count_scripts_eq max_script_def f1 f2 by auto
  then show "detect_language tx = Ar" using a by (simp add: detect_language_def)
next
  assume a: "n_latin \<ge> n_cjk \<and> n_latin \<ge> n_arabic \<and> n_latin \<ge> n_cyrillic
            \<and> (\<exists>pre post. tx = pre @ u ''introduction'' @ post)"
  then obtain pre post where t: "tx = pre @ u ''introduction'' @ post" by auto
  then have ne: "tx \<noteq> []" by (auto simp: u_def)
  have "max_script (count_scripts tx) = Latin"
    using a unfolding count_scripts_eq max_script_def n_latin_def n_cjk_def n_arabic_def
      n_cyrillic_def
    by auto
  moreover have "keyword_language (lower tx) all_langs = En"
    using keyword_matches_introduction[OF t] by (simp add: all_langs_def)
  ultimately show "detect_language tx = En" using ne by (simp add: detect_language_def)
qed

lemma kana_majority_example:
  "(\<exists>c\<in>set [0x3053, 0x3093, 97]. is_kana c)
   \<and> length (filter han_or_kana [0x3053, 0x3093, 97]) > length (filter latin_letter [0x3053, 0x3093, 97])
   \<and> length (filter han_or_kana [0x3053, 0x3093, 97]) \<ge> length (filter arabic_char [0x3053, 0x3093, 97])
   \<and> length (filter han_or_kana [0x3053, 0x3093, 97]) \<ge> length (filter cyrillic_char [0x3053, 0x3093, 97])"
  by (simp add: is_kana_def han_or_kana_def latin_letter_def arabic_char_def cyrillic_char_def)

lemma kana_only_example: "[0x30AB, 0x30CA] \<noteq> [] \<and> (\<forall>c\<in>set [0x30AB, 0x30CA]. is_kana c)"
  by (simp add: is_kana_def)

lemma arabic_only_example:
  "[0x0645, 0x0642, 0x062F] \<noteq> [] \<and> (\<forall>c\<in>set [0x0645, 0x0642, 0x062F]. arabic_char c)"
  by (simp add: arabic_char_def)

lemma introduction_example:
  "length (filter latin_letter (u ''1. An introduction'')) \<ge> length (filter han_or_kana (u ''1. An introduction''))
   \<and> length (filter latin_letter (u ''1. An introduction'')) \<ge> length (filter arabic_char (u ''1. An introduction''))
   \<and> length (filter latin_letter (u ''1. An introduction'')) \<ge> length (filter cyrillic_char (u ''1. An introduction''))
   \<and> (\<exists>pre post. u ''1. An introduction'' = pre @ u ''introduction'' @ post)"
proof -
  have "u ''1. An introduction'' = u ''1. An '' @ u ''introduction'' @ []"
    by (simp add: u_def)
  then have "\<exists>pre post. u ''1. An introduction'' = pre @ u ''introduction'' @ post"
    by blast
  moreover have "filter han_or_kana (u ''1. An introduction'') = []"
    "filter arabic_char (u ''1. An introduction'') = []"
    "filter cyrillic_char (u ''1. An introduction'') = []"
    by (simp_all add: u_def han_or_kana_def arabic_char_def cyrillic_char_def)
  ultimately show ?thesis by simp
qed

theorem detect_language_rules_witness:
  "detect_language [0x3053, 0x3093, 97] = Ja
   \<and> detect_language [0x30AB, 0x30CA] = Ja
   \<and> detect_language [0x0645, 0x0642, 0x062F] = Ar
   \<and> detect_language (u ''1. An introduction'') = En"
proof (intro conjI)
  show "detect_language [0x3053, 0x3093, 97] = Ja"
    by (rule detect_language_rules[of "[0x3053, 0x3093, 97]", THEN conjunct1, THEN mp,
          OF kana_majority_example])
  show "detect_language [0x30AB, 0x30CA] = Ja"
    by (rule detect_language_rules[of "[0x30AB, 0x30CA]", THEN conjunct2, THEN conjunct1,
          THEN mp, OF kana_only_example])
  show "detect_language [0x0645, 0x0642, 0x062F] = Ar"
    by (rule detect_language_rules[of "[0x0645, 0x0642, 0x062F]", THEN conjunct2,
          THEN conjunct2, THEN conjunct1, THEN mp, OF arabic_only_example])
  show "detect_language (u ''1. An introduction'') = En"
    by (rule detect_language_rules[of "u ''1. An introduction''", THEN conjunct2,
          THEN conjunct2, THEN conjunct2, THEN mp, OF introduction_example])
qed

section \<open>List-sequence detector\<close>

lemma scan_lines_count:
  "fst (scan_lines m ls (n, fp)) = n + length (filter (same_major m) ls)"
proof (induction ls arbitrary: n fp)
  case Nil
  then show ?case by simp
next
  case (Cons l ls)
  show ?case
    by (simp add: Let_def same_major_def Cons.IH split: option.splits prod.splits)
qed

lemma concat_map_if: "concat (map (\<lambda>x. if P x then [f x] else []) xs) = map f (filter P xs)"
  by (induction xs) auto

lemma filter_upt_less: "filter (\<lambda>k. k < n) [a ..< b] = [a ..< min b n]"
proof (induction b)
  case 0
  then show ?case by simp
next
  case (Suc b)
  show ?case
  proof (cases "b < n")
    case True
    then show ?thesis using Suc by (simp add: min_def)
  next
    case False
    then have "min (Suc b) n = n" "min b n = n" by auto
    then show ?thesis using Suc False by simp
  qed
qed

lemma map_nth_upt: "b \<le> length xs \<Longrightarrow> map ((!) xs) [a ..< b] = drop a (take b xs)"
  by (rule nth_equalityI) auto

lemma previous_lines:
  "[lines ! check_i. check_i \<leftarrow> [i - 10 ..< i], check_i < length lines] = drop (i - 10) (take i lines)"
proof -
  have "[lines ! check_i. check_i \<leftarrow> [i - 10 ..< i], check_i < length lines]
        = map ((!) lines) [i - 10 ..< min i (length lines)]"
    by (simp add: concat_map_if filter_upt_less)
  also have "\<dots> = drop (i - 10) (take (min i (length lines)) lines)"
    by (rule map_nth_upt) simp
  also have "\<dots> = drop (i - 10) (take i lines)"
    by (simp add: min_def)
  finally show ?thesis .
qed

lemma following_lines:
  "[lines ! check_i. check_i \<leftarrow> [i + 1 ..< min (length lines) (i + 10 + 1)]] = take 10 (drop (Suc i) lines)"
proof -
  have "map ((!) lines) [i + 1 ..< min (length lines) (i + 10 + 1)]
        = drop (i + 1) (take (min (length lines) (i + 10 + 1)) lines)"
    by (rule map_nth_upt) simp
  also have "\<dots> = take 10 (drop (Suc i) lines)"
    by (simp add: drop_take min_def)
  finally show ?thesis by simp
qed

text \<open>
  What the detector computes from the index it is given: for a line text that starts
  with \<open>major.minor\<close> and a white space (after trimming), the result is true exactly
  when at least two of the up to ten lines before the index and the up to ten lines
  after it have a non-empty text that starts with \<open>major'.minor'\<close> and a white space,
  with the same major number.
\<close>

lemma list_item_iff:
  assumes "match_numbered (strip line_text) = Some (g1, g2)"
  shows "fst (is_likely_list_item self line_text lines i)
         = (2 \<le> length (filter (same_major (int_of_digits g1)) (neighbours lines i)))"
proof -
  obtain n fp where
    s1: "scan_lines (int_of_digits g1) (drop (i - 10) (take i lines)) (0, []) = (n, fp)"
    by (cases "scan_lines (int_of_digits g1) (drop (i - 10) (take i lines)) (0, [])")
  obtain n' fp' where
    s2: "scan_lines (int_of_digits g1) (take 10 (drop (Suc i) lines)) (n, fp) = (n', fp')"
    by (cases "scan_lines (int_of_digits g1) (take 10 (drop (Suc i) lines)) (n, fp)")
  have n: "n = length (filter (same_major (int_of_digits g1)) (drop (i - 10) (take i lines)))"
    using scan_lines_count[of "int_of_digits g1" "drop (i - 10) (take i lines)" 0 "[]"] s1
    by simp
  have n': "n' = n + length (filter (same_major (int_of_digits g1)) (take 10 (drop (Suc i) lines)))"
    using scan_lines_count[of "int_of_digits g1" "take 10 (drop (Suc i) lines)" n fp] s2
    by simp
  have "fst (is_likely_list_item self line_text lines i) = (2 \<le> n')"
    unfolding is_likely_list_item_def assms
    by (simp add: Let_def previous_lines following_lines[simplified] s1 s2)
  then show ?thesis by (simp add: n n' neighbours_def)
qed

text \<open>
  With the index of the line itself, each of the lines \<open>9.1 Alpha\<close>, \<open>9.2 Beta\<close>,
  \<open>9.3 Gamma\<close> of one block is a list item, and \<open>9.1 Alpha\<close> alone in its block is not.
\<close>

lemma match_numbered_alpha: "match_numbered (strip (u ''9.1 Alpha'')) = Some (u ''9'', u ''1'')"
  by code_simp

lemma match_numbered_beta: "match_numbered (strip (u ''9.2 Beta'')) = Some (u ''9'', u ''2'')"
  by code_simp

lemma match_numbered_gamma: "match_numbered (strip (u ''9.3 Gamma'')) = Some (u ''9'', u ''3'')"
  by code_simp

lemma list_lines_neighbours:
  "length (filter (same_major (int_of_digits (u ''9''))) (neighbours list_lines 0)) = 2"
  "length (filter (same_major (int_of_digits (u ''9''))) (neighbours list_lines (Suc 0))) = 2"
  "length (filter (same_major (int_of_digits (u ''9''))) (neighbours list_lines 2)) = 2"
  "length (filter (same_major (int_of_digits (u ''9''))) (neighbours single_lines 0)) = 0"
  by code_simp+

lemma list_item_iff_examples:
  "fst (is_likely_list_item fresh (u ''9.1 Alpha'') list_lines 0)
   \<and> fst (is_likely_list_item fresh (u ''9.2 Beta'') list_lines 1)
   \<and> fst (is_likely_list_item fresh (u ''9.3 Gamma'') list_lines 2)
   \<and> \<not> fst (is_likely_list_item fresh (u ''9.1 Alpha'') single_lines 0)"
  using list_item_iff[OF match_numbered_alpha, of fresh list_lines 0]
    list_item_iff[OF match_numbered_beta, of fresh list_lines 1]
    list_item_iff[OF match_numbered_gamma, of fresh list_lines 2]
    list_item_iff[OF match_numbered_alpha, of fresh single_lines 0]
  by (simp add: list_lines_neighbours)

text \<open>
  A line whose text does not start with \<open>major.minor\<close> and a white space is never a list
  item, and the extractor is left as it was.
\<close>

lemma not_numbered_not_list_item:
  "match_numbered (strip line_text) = None \<Longrightarrow>
   is_likely_list_item self line_text lines i = (False, self)"
  by (simp add: is_likely_list_item_def)

section \<open>Noise filter\<close>





lemma dot_ends: "rx_ends False (Str (u ''.'')) (prev, rest) =
   (case rest of [] \<Rightarrow> [] | c # cs \<Rightarrow> if c = 46 then [(Some c, cs)] else [])"
  by (cases rest) (auto simp: u_def chr_match_def)











section \<open>The loops of the outline assembler\<close>






section \<open>Sorting and removal of duplicates\<close>

lemma page_text_le_total: "\<not> page_text_le a b \<Longrightarrow> page_text_le b a"
  by (auto simp: page_text_le_def)

lemma page_text_le_trans: "page_text_le a b \<Longrightarrow> page_text_le b c \<Longrightarrow> page_text_le a c"
  by (auto simp: page_text_le_def)

lemma set_insert_sorted: "set (insert_sorted x ys) = insert x (set ys)"
  by (induction ys) auto

lemma sorted_insert_sorted:
  "sorted_wrt page_text_le ys \<Longrightarrow> sorted_wrt page_text_le (insert_sorted x ys)"
proof (induction ys)
  case Nil
  then show ?case by simp
next
  case (Cons y ys)
  show ?case
  proof (cases "page_text_le x y")
    case True
    have "\<forall>z\<in>set ys. page_text_le x z"
      using Cons.prems True page_text_le_trans[of x y] by (metis sorted_wrt.simps(2))
    then show ?thesis using Cons.prems True by simp
  next
    case False
    then have yx: "page_text_le y x" by (rule page_text_le_total)
    have "sorted_wrt page_text_le (insert_sorted x ys)" using Cons by simp
    moreover have "\<forall>z\<in>set (insert_sorted x ys). page_text_le y z"
      using Cons.prems yx by (simp add: set_insert_sorted)
    ultimately show ?thesis using False by (simp)
  qed
qed


lemma sorted_sorted_outline: "sorted_wrt page_text_le (sorted_outline xs)"
  unfolding sorted_outline_def by (induction xs) (simp_all add: sorted_insert_sorted)

lemma set_unique_outline: "set (unique_outline ys seen) \<subseteq> set ys"
  by (induction ys arbitrary: seen) (auto simp: Let_def)

lemma sorted_unique_outline:
  "sorted_wrt P ys \<Longrightarrow> sorted_wrt P (unique_outline ys seen)"
proof (induction ys arbitrary: seen)
  case Nil
  then show ?case by simp
next
  case (Cons y ys)
  then have "\<forall>z\<in>set (unique_outline ys (seen @ [(h_level y, h_text y)])). P y z"
    using set_unique_outline by fastforce
  then show ?case using Cons by (simp add: Let_def)
qed

lemma keys_unique_outline:
  "distinct (map (\<lambda>h. (h_level h, h_text h)) (unique_outline ys seen))
   \<and> (\<forall>h\<in>set (unique_outline ys seen). (h_level h, h_text h) \<notin> set seen)"
proof (induction ys arbitrary: seen)
  case Nil
  then show ?case by simp
next
  case (Cons y ys)
  show ?case
  proof (cases "(h_level y, h_text y) \<in> set seen")
    case True
    then show ?thesis using Cons[of seen] by (simp add: Let_def)
  next
    case False
    have ih: "distinct (map (\<lambda>h. (h_level h, h_text h)) (unique_outline ys (seen @ [(h_level y, h_text y)])))"
      "\<forall>h\<in>set (unique_outline ys (seen @ [(h_level y, h_text y)])). (h_level h, h_text h) \<notin> set (seen @ [(h_level y, h_text y)])"
      using Cons[of "seen @ [(h_level y, h_text y)]"] by auto
    from ih(2) have "(h_level y, h_text y) \<notin> (\<lambda>h. (h_level h, h_text h)) ` set (unique_outline ys (seen @ [(h_level y, h_text y)]))"
      by auto
    then show ?thesis using False ih by (auto simp: Let_def)
  qed
qed





section \<open>Unfolding the loop over the lines\<close>

lemma lines_loop_done:
  "length lines \<le> i \<Longrightarrow> lines_loop title avg pn pg pt lines i st = st"
  by (subst lines_loop.simps) simp

lemma lines_loop_unfold:
  assumes "collect_spans (spans_of (lines ! i)) ([], []) = (lt0, ss0)"
    and "merge_next (lines ! i) (drop (Suc i) lines) lt0 ss0 = (k, lt1, ss)"
    and "(if strip lt1 \<noteq> [] then clean_extracted_text (strip lt1) False else strip lt1) = lt"
    and "process_line title avg pn pg pt lines i' (lines ! i) lt ss st = st'"
    and "i < length lines" and "i' = i + k + 1"
  shows "lines_loop title avg pn pg pt lines i st = lines_loop title avg pn pg pt lines i' st'"
  using assms by (subst lines_loop.simps) (simp add: Let_def)

lemma report_lines1_0:
  "collect_spans (spans_of (report_lines1 ! 0)) ([], []) = (u ''Annual Report '', [plain_span (u ''Annual Report'') 24])"
  "merge_next (report_lines1 ! 0) (drop (Suc 0) report_lines1) (u ''Annual Report '') [plain_span (u ''Annual Report'') 24]
     = (0, u ''Annual Report '', [plain_span (u ''Annual Report'') 24])"
  "(if strip (u ''Annual Report '') \<noteq> [] then clean_extracted_text (strip (u ''Annual Report '')) False
    else strip (u ''Annual Report '')) = u ''Annual Report''"
  by code_simp+

lemma report_lines1_0_step:
  "process_line (u ''Annual Report'') 16 (0) report_page1 [] report_lines1 1 (report_lines1 ! 0) (u ''Annual Report'') [plain_span (u ''Annual Report'') 24]
     \<lparr>outline_acc = [],
      processed_texts = [],
      self_state = fresh\<rparr>
   = \<lparr>outline_acc = [],
      processed_texts = [],
      self_state = fresh\<rparr>"
  by code_simp

lemma report_lines1_1:
  "collect_spans (spans_of (report_lines1 ! 1)) ([], []) = (u ''OVERVIEW '', [bold_span (u ''OVERVIEW'') 12])"
  "merge_next (report_lines1 ! 1) (drop (Suc 1) report_lines1) (u ''OVERVIEW '') [bold_span (u ''OVERVIEW'') 12]
     = (0, u ''OVERVIEW '', [bold_span (u ''OVERVIEW'') 12])"
  "(if strip (u ''OVERVIEW '') \<noteq> [] then clean_extracted_text (strip (u ''OVERVIEW '')) False
    else strip (u ''OVERVIEW '')) = u ''OVERVIEW''"
  by code_simp+

lemma report_lines1_1_step:
  "process_line (u ''Annual Report'') 16 (0) report_page1 [] report_lines1 2 (report_lines1 ! 1) (u ''OVERVIEW'') [bold_span (u ''OVERVIEW'') 12]
     \<lparr>outline_acc = [],
      processed_texts = [],
      self_state = fresh\<rparr>
   = \<lparr>outline_acc = [\<lparr>h_level = H1, h_text = u ''OVERVIEW '', h_page = Suc 0\<rparr>],
      processed_texts = [u ''OVERVIEW''],
      self_state = fresh\<rparr>"
  by code_simp

lemma report_lines1_length: "length report_lines1 = 2"
  by (simp add: report_lines1_def)

lemma report_lines1_loop:
  "lines_loop (u ''Annual Report'') 16 (0) report_page1 [] report_lines1 0
     \<lparr>outline_acc = [],
      processed_texts = [],
      self_state = fresh\<rparr>
   = \<lparr>outline_acc = [\<lparr>h_level = H1, h_text = u ''OVERVIEW '', h_page = Suc 0\<rparr>],
      processed_texts = [u ''OVERVIEW''],
      self_state = fresh\<rparr>"
proof -
  have "lines_loop (u ''Annual Report'') 16 (0) report_page1 [] report_lines1 0
     \<lparr>outline_acc = [],
      processed_texts = [],
      self_state = fresh\<rparr>
   = lines_loop (u ''Annual Report'') 16 (0) report_page1 [] report_lines1 1
     \<lparr>outline_acc = [],
      processed_texts = [],
      self_state = fresh\<rparr>"
    by (rule lines_loop_unfold[OF report_lines1_0 report_lines1_0_step]) (simp_all add: report_lines1_length)
  also have "\<dots>
   = lines_loop (u ''Annual Report'') 16 (0) report_page1 [] report_lines1 2
     \<lparr>outline_acc = [\<lparr>h_level = H1, h_text = u ''OVERVIEW '', h_page = Suc 0\<rparr>],
      processed_texts = [u ''OVERVIEW''],
      self_state = fresh\<rparr>"
    by (rule lines_loop_unfold[OF report_lines1_1 report_lines1_1_step]) (simp_all add: report_lines1_length)
  also have "\<dots> = \<lparr>outline_acc = [\<lparr>h_level = H1, h_text = u ''OVERVIEW '', h_page = Suc 0\<rparr>],
      processed_texts = [u ''OVERVIEW''],
      self_state = fresh\<rparr>"
    by (rule lines_loop_done) (simp add: report_lines1_length)
  finally show ?thesis .
qed

lemma report_page1_blocks: "page_blocks report_page1 = [TextBlock report_lines1]"
  by (simp add: report_page1_def page_of_def)

lemma report_page1_page_loop:
  "page_loop (u ''Annual Report'') 16 [] (0, report_page1) \<lparr>outline_acc = [],
      processed_texts = [],
      self_state = fresh\<rparr>
   = \<lparr>outline_acc = [\<lparr>h_level = H1, h_text = u ''OVERVIEW '', h_page = Suc 0\<rparr>],
      processed_texts = [u ''OVERVIEW''],
      self_state = fresh\<rparr>"
  by (simp add: page_loop_def report_page1_blocks report_lines1_loop)

lemma report_lines2_0:
  "collect_spans (spans_of (report_lines2 ! 0)) ([], []) = (u ''ANNUAL REPORT '', [bold_span (u ''ANNUAL REPORT'') 12])"
  "merge_next (report_lines2 ! 0) (drop (Suc 0) report_lines2) (u ''ANNUAL REPORT '') [bold_span (u ''ANNUAL REPORT'') 12]
     = (0, u ''ANNUAL REPORT '', [bold_span (u ''ANNUAL REPORT'') 12])"
  "(if strip (u ''ANNUAL REPORT '') \<noteq> [] then clean_extracted_text (strip (u ''ANNUAL REPORT '')) False
    else strip (u ''ANNUAL REPORT '')) = u ''ANNUAL REPORT''"
  by code_simp+

lemma report_lines2_0_step:
  "process_line (u ''Annual Report'') 16 (Suc 0) report_page2 [] report_lines2 1 (report_lines2 ! 0) (u ''ANNUAL REPORT'') [bold_span (u ''ANNUAL REPORT'') 12]
     \<lparr>outline_acc = [\<lparr>h_level = H1, h_text = u ''OVERVIEW '', h_page = Suc 0\<rparr>],
      processed_texts = [u ''OVERVIEW''],
      self_state = fresh\<rparr>
   = \<lparr>outline_acc = [\<lparr>h_level = H1, h_text = u ''OVERVIEW '', h_page = Suc 0\<rparr>,
         \<lparr>h_level = H1, h_text = u ''ANNUAL REPORT '', h_page = 2\<rparr>],
      processed_texts = [u ''OVERVIEW'', u ''ANNUAL REPORT''],
      self_state = fresh\<rparr>"
  by code_simp

lemma report_lines2_length: "length report_lines2 = 1"
  by (simp add: report_lines2_def)

lemma report_lines2_loop:
  "lines_loop (u ''Annual Report'') 16 (Suc 0) report_page2 [] report_lines2 0
     \<lparr>outline_acc = [\<lparr>h_level = H1, h_text = u ''OVERVIEW '', h_page = Suc 0\<rparr>],
      processed_texts = [u ''OVERVIEW''],
      self_state = fresh\<rparr>
   = \<lparr>outline_acc = [\<lparr>h_level = H1, h_text = u ''OVERVIEW '', h_page = Suc 0\<rparr>,
         \<lparr>h_level = H1, h_text = u ''ANNUAL REPORT '', h_page = 2\<rparr>],
      processed_texts = [u ''OVERVIEW'', u ''ANNUAL REPORT''],
      self_state = fresh\<rparr>"
proof -
  have "lines_loop (u ''Annual Report'') 16 (Suc 0) report_page2 [] report_lines2 0
     \<lparr>outline_acc = [\<lparr>h_level = H1, h_text = u ''OVERVIEW '', h_page = Suc 0\<rparr>],
      processed_texts = [u ''OVERVIEW''],
      self_state = fresh\<rparr>
   = lines_loop (u ''Annual Report'') 16 (Suc 0) report_page2 [] report_lines2 1
     \<lparr>outline_acc = [\<lparr>h_level = H1, h_text = u ''OVERVIEW '', h_page = Suc 0\<rparr>,
         \<lparr>h_level = H1, h_text = u ''ANNUAL REPORT '', h_page = 2\<rparr>],
      processed_texts = [u ''OVERVIEW'', u ''ANNUAL REPORT''],
      self_state = fresh\<rparr>"
    by (rule lines_loop_unfold[OF report_lines2_0 report_lines2_0_step]) (simp_all add: report_lines2_length)
  also have "\<dots> = \<lparr>outline_acc = [\<lparr>h_level = H1, h_text = u ''OVERVIEW '', h_page = Suc 0\<rparr>,
         \<lparr>h_level = H1, h_text = u ''ANNUAL REPORT '', h_page = 2\<rparr>],
      processed_texts = [u ''OVERVIEW'', u ''ANNUAL REPORT''],
      self_state = fresh\<rparr>"
    by (rule lines_loop_done) (simp add: report_lines2_length)
  finally show ?thesis .
qed

lemma report_page2_blocks: "page_blocks report_page2 = [TextBlock report_lines2]"
  by (simp add: report_page2_def page_of_def)

lemma report_page2_page_loop:
  "page_loop (u ''Annual Report'') 16 [] (Suc 0, report_page2) \<lparr>outline_acc = [\<lparr>h_level = H1, h_text = u ''OVERVIEW '', h_page = Suc 0\<rparr>],
      processed_texts = [u ''OVERVIEW''],
      self_state = fresh\<rparr>
   = \<lparr>outline_acc = [\<lparr>h_level = H1, h_text = u ''OVERVIEW '', h_page = Suc 0\<rparr>,
         \<lparr>h_level = H1, h_text = u ''ANNUAL REPORT '', h_page = 2\<rparr>],
      processed_texts = [u ''OVERVIEW'', u ''ANNUAL REPORT''],
      self_state = fresh\<rparr>"
  by (simp add: page_loop_def report_page2_blocks report_lines2_loop)

lemma report_doc_title: "extract_title_from_text report_doc [] = u ''Annual Report''"
  by code_simp

lemma report_doc_collect:
  "collect_outline (u ''Annual Report'') 16 [] report_doc fresh
   = \<lparr>outline_acc = [\<lparr>h_level = H1, h_text = u ''OVERVIEW '', h_page = Suc 0\<rparr>,
         \<lparr>h_level = H1, h_text = u ''ANNUAL REPORT '', h_page = 2\<rparr>],
      processed_texts = [u ''OVERVIEW'', u ''ANNUAL REPORT''],
      self_state = fresh\<rparr>"
proof -
  have z: "zip [0 ..< length report_doc] report_doc = [(0, report_page1), (Suc 0, report_page2)]"
    by (simp add: report_doc_def upt_rec)
  show ?thesis
    unfolding collect_outline_def z
    by (simp add: report_page1_page_loop report_page2_page_loop)
qed

lemma report_doc_sorted:
  "unique_outline (sorted_outline [\<lparr>h_level = H1, h_text = u ''OVERVIEW '', h_page = Suc 0\<rparr>,
      \<lparr>h_level = H1, h_text = u ''ANNUAL REPORT '', h_page = 2\<rparr>]) []
   = [\<lparr>h_level = H1, h_text = u ''OVERVIEW '', h_page = Suc 0\<rparr>,
      \<lparr>h_level = H1, h_text = u ''ANNUAL REPORT '', h_page = 2\<rparr>]"
  by code_simp
lemma list_doc_empty_page_page_loop:
  "page_loop ([]) 12 [] (0, empty_page) st = st"
  by (simp add: page_loop_def empty_page_def)

lemma list_lines_0:
  "collect_spans (spans_of (list_lines ! 0)) ([], []) = (u ''9.1 Alpha '', [plain_span (u ''9.1 Alpha'') 12])"
  "merge_next (list_lines ! 0) (drop (Suc 0) list_lines) (u ''9.1 Alpha '') [plain_span (u ''9.1 Alpha'') 12]
     = (0, u ''9.1 Alpha '', [plain_span (u ''9.1 Alpha'') 12])"
  "(if strip (u ''9.1 Alpha '') \<noteq> [] then clean_extracted_text (strip (u ''9.1 Alpha '')) False
    else strip (u ''9.1 Alpha '')) = u ''9.1 Alpha''"
  by code_simp+

lemma list_lines_0_step:
  "process_line ([]) 12 (Suc 0) list_page [] list_lines 1 (list_lines ! 0) (u ''9.1 Alpha'') [plain_span (u ''9.1 Alpha'') 12]
     \<lparr>outline_acc = [],
      processed_texts = [],
      self_state = fresh\<rparr>
   = \<lparr>outline_acc = [],
      processed_texts = [],
      self_state = \<lparr>detected_lists = [\<lparr>dl_text = u ''9.1 Alpha'', dl_pattern_count = 2,
           dl_patterns = [u ''9.1 - 9.1 Alpha...'', u ''9.3 - 9.3 Gamma...'']\<rparr>]\<rparr>\<rparr>"
  by code_simp

lemma list_lines_1:
  "collect_spans (spans_of (list_lines ! 1)) ([], []) = (u ''9.2 Beta '', [plain_span (u ''9.2 Beta'') 12])"
  "merge_next (list_lines ! 1) (drop (Suc 1) list_lines) (u ''9.2 Beta '') [plain_span (u ''9.2 Beta'') 12]
     = (0, u ''9.2 Beta '', [plain_span (u ''9.2 Beta'') 12])"
  "(if strip (u ''9.2 Beta '') \<noteq> [] then clean_extracted_text (strip (u ''9.2 Beta '')) False
    else strip (u ''9.2 Beta '')) = u ''9.2 Beta''"
  by code_simp+

lemma list_lines_1_step:
  "process_line ([]) 12 (Suc 0) list_page [] list_lines 2 (list_lines ! 1) (u ''9.2 Beta'') [plain_span (u ''9.2 Beta'') 12]
     \<lparr>outline_acc = [],
      processed_texts = [],
      self_state = \<lparr>detected_lists = [\<lparr>dl_text = u ''9.1 Alpha'', dl_pattern_count = 2,
           dl_patterns = [u ''9.1 - 9.1 Alpha...'', u ''9.3 - 9.3 Gamma...'']\<rparr>]\<rparr>\<rparr>
   = \<lparr>outline_acc = [],
      processed_texts = [],
      self_state = \<lparr>detected_lists = [\<lparr>dl_text = u ''9.1 Alpha'', dl_pattern_count = 2,
           dl_patterns = [u ''9.1 - 9.1 Alpha...'', u ''9.3 - 9.3 Gamma...'']\<rparr>,
         \<lparr>dl_text = u ''9.2 Beta'', dl_pattern_count = 2,
           dl_patterns = [u ''9.1 - 9.1 Alpha...'', u ''9.2 - 9.2 Beta...'']\<rparr>]\<rparr>\<rparr>"
  by code_simp

lemma list_lines_2:
  "collect_spans (spans_of (list_lines ! 2)) ([], []) = (u ''9.3 Gamma '', [plain_span (u ''9.3 Gamma'') 12])"
  "merge_next (list_lines ! 2) (drop (Suc 2) list_lines) (u ''9.3 Gamma '') [plain_span (u ''9.3 Gamma'') 12]
     = (0, u ''9.3 Gamma '', [plain_span (u ''9.3 Gamma'') 12])"
  "(if strip (u ''9.3 Gamma '') \<noteq> [] then clean_extracted_text (strip (u ''9.3 Gamma '')) False
    else strip (u ''9.3 Gamma '')) = u ''9.3 Gamma''"
  by code_simp+

lemma list_lines_2_step:
  "process_line ([]) 12 (Suc 0) list_page [] list_lines 3 (list_lines ! 2) (u ''9.3 Gamma'') [plain_span (u ''9.3 Gamma'') 12]
     \<lparr>outline_acc = [],
      processed_texts = [],
      self_state = \<lparr>detected_lists = [\<lparr>dl_text = u ''9.1 Alpha'', dl_pattern_count = 2,
           dl_patterns = [u ''9.1 - 9.1 Alpha...'', u ''9.3 - 9.3 Gamma...'']\<rparr>,
         \<lparr>dl_text = u ''9.2 Beta'', dl_pattern_count = 2,
           dl_patterns = [u ''9.1 - 9.1 Alpha...'', u ''9.2 - 9.2 Beta...'']\<rparr>]\<rparr>\<rparr>
   = \<lparr>outline_acc = [],
      processed_texts = [],
      self_state = \<lparr>detected_lists = [\<lparr>dl_text = u ''9.1 Alpha'', dl_pattern_count = 2,
           dl_patterns = [u ''9.1 - 9.1 Alpha...'', u ''9.3 - 9.3 Gamma...'']\<rparr>,
         \<lparr>dl_text = u ''9.2 Beta'', dl_pattern_count = 2,
           dl_patterns = [u ''9.1 - 9.1 Alpha...'', u ''9.2 - 9.2 Beta...'']\<rparr>,
         \<lparr>dl_text = u ''9.3 Gamma'', dl_pattern_count = 3,
           dl_patterns = [u ''9.1 - 9.1 Alpha...'', u ''9.2 - 9.2 Beta...'', u ''9.3 - 9.3 Gamma...'']\<rparr>]\<rparr>\<rparr>"
  by code_simp

lemma list_lines_length: "length list_lines = 3"
  by (simp add: list_lines_def)

lemma list_lines_loop:
  "lines_loop ([]) 12 (Suc 0) list_page [] list_lines 0
     \<lparr>outline_acc = [],
      processed_texts = [],
      self_state = fresh\<rparr>
   = \<lparr>outline_acc = [],
      processed_texts = [],
      self_state = \<lparr>detected_lists = [\<lparr>dl_text = u ''9.1 Alpha'', dl_pattern_count = 2,
           dl_patterns = [u ''9.1 - 9.1 Alpha...'', u ''9.3 - 9.3 Gamma...'']\<rparr>,
         \<lparr>dl_text = u ''9.2 Beta'', dl_pattern_count = 2,
           dl_patterns = [u ''9.1 - 9.1 Alpha...'', u ''9.2 - 9.2 Beta...'']\<rparr>,
         \<lparr>dl_text = u ''9.3 Gamma'', dl_pattern_count = 3,
           dl_patterns = [u ''9.1 - 9.1 Alpha...'', u ''9.2 - 9.2 Beta...'', u ''9.3 - 9.3 Gamma...'']\<rparr>]\<rparr>\<rparr>"
proof -
  have "lines_loop ([]) 12 (Suc 0) list_page [] list_lines 0
     \<lparr>outline_acc = [],
      processed_texts = [],
      self_state = fresh\<rparr>
   = lines_loop ([]) 12 (Suc 0) list_page [] list_lines 1
     \<lparr>outline_acc = [],
      processed_texts = [],
      self_state = \<lparr>detected_lists = [\<lparr>dl_text = u ''9.1 Alpha'', dl_pattern_count = 2,
           dl_patterns = [u ''9.1 - 9.1 Alpha...'', u ''9.3 - 9.3 Gamma...'']\<rparr>]\<rparr>\<rparr>"
    by (rule lines_loop_unfold[OF list_lines_0 list_lines_0_step]) (simp_all add: list_lines_length)
  also have "\<dots>
   = lines_loop ([]) 12 (Suc 0) list_page [] list_lines 2
     \<lparr>outline_acc = [],
      processed_texts = [],
      self_state = \<lparr>detected_lists = [\<lparr>dl_text = u ''9.1 Alpha'', dl_pattern_count = 2,
           dl_patterns = [u ''9.1 - 9.1 Alpha...'', u ''9.3 - 9.3 Gamma...'']\<rparr>,
         \<lparr>dl_text = u ''9.2 Beta'', dl_pattern_count = 2,
           dl_patterns = [u ''9.1 - 9.1 Alpha...'', u ''9.2 - 9.2 Beta...'']\<rparr>]\<rparr>\<rparr>"
    by (rule lines_loop_unfold[OF list_lines_1 list_lines_1_step]) (simp_all add: list_lines_length)
  also have "\<dots>
   = lines_loop ([]) 12 (Suc 0) list_page [] list_lines 3
     \<lparr>outline_acc = [],
      processed_texts = [],
      self_state = \<lparr>detected_lists = [\<lparr>dl_text = u ''9.1 Alpha'', dl_pattern_count = 2,
           dl_patterns = [u ''9.1 - 9.1 Alpha...'', u ''9.3 - 9.3 Gamma...'']\<rparr>,
         \<lparr>dl_text = u ''9.2 Beta'', dl_pattern_count = 2,
           dl_patterns = [u ''9.1 - 9.1 Alpha...'', u ''9.2 - 9.2 Beta...'']\<rparr>,
         \<lparr>dl_text = u ''9.3 Gamma'', dl_pattern_count = 3,
           dl_patterns = [u ''9.1 - 9.1 Alpha...'', u ''9.2 - 9.2 Beta...'', u ''9.3 - 9.3 Gamma...'']\<rparr>]\<rparr>\<rparr>"
    by (rule lines_loop_unfold[OF list_lines_2 list_lines_2_step]) (simp_all add: list_lines_length)
  also have "\<dots> = \<lparr>outline_acc = [],
      processed_texts = [],
      self_state = \<lparr>detected_lists = [\<lparr>dl_text = u ''9.1 Alpha'', dl_pattern_count = 2,
           dl_patterns = [u ''9.1 - 9.1 Alpha...'', u ''9.3 - 9.3 Gamma...'']\<rparr>,
         \<lparr>dl_text = u ''9.2 Beta'', dl_pattern_count = 2,
           dl_patterns = [u ''9.1 - 9.1 Alpha...'', u ''9.2 - 9.2 Beta...'']\<rparr>,
         \<lparr>dl_text = u ''9.3 Gamma'', dl_pattern_count = 3,
           dl_patterns = [u ''9.1 - 9.1 Alpha...'', u ''9.2 - 9.2 Beta...'', u ''9.3 - 9.3 Gamma...'']\<rparr>]\<rparr>\<rparr>"
    by (rule lines_loop_done) (simp add: list_lines_length)
  finally show ?thesis .
qed

lemma list_page_blocks: "page_blocks list_page = [TextBlock list_lines]"
  by (simp add: list_page_def page_of_def)

lemma list_page_page_loop:
  "page_loop ([]) 12 [] (Suc 0, list_page) \<lparr>outline_acc = [],
      processed_texts = [],
      self_state = fresh\<rparr>
   = \<lparr>outline_acc = [],
      processed_texts = [],
      self_state = \<lparr>detected_lists = [\<lparr>dl_text = u ''9.1 Alpha'', dl_pattern_count = 2,
           dl_patterns = [u ''9.1 - 9.1 Alpha...'', u ''9.3 - 9.3 Gamma...'']\<rparr>,
         \<lparr>dl_text = u ''9.2 Beta'', dl_pattern_count = 2,
           dl_patterns = [u ''9.1 - 9.1 Alpha...'', u ''9.2 - 9.2 Beta...'']\<rparr>,
         \<lparr>dl_text = u ''9.3 Gamma'', dl_pattern_count = 3,
           dl_patterns = [u ''9.1 - 9.1 Alpha...'', u ''9.2 - 9.2 Beta...'', u ''9.3 - 9.3 Gamma...'']\<rparr>]\<rparr>\<rparr>"
  by (simp add: page_loop_def list_page_blocks list_lines_loop)

lemma list_doc_title: "extract_title_from_text list_doc [] = []"
  by code_simp

lemma list_doc_collect:
  "collect_outline ([]) 12 [] list_doc fresh
   = \<lparr>outline_acc = [],
      processed_texts = [],
      self_state = \<lparr>detected_lists = [\<lparr>dl_text = u ''9.1 Alpha'', dl_pattern_count = 2,
           dl_patterns = [u ''9.1 - 9.1 Alpha...'', u ''9.3 - 9.3 Gamma...'']\<rparr>,
         \<lparr>dl_text = u ''9.2 Beta'', dl_pattern_count = 2,
           dl_patterns = [u ''9.1 - 9.1 Alpha...'', u ''9.2 - 9.2 Beta...'']\<rparr>,
         \<lparr>dl_text = u ''9.3 Gamma'', dl_pattern_count = 3,
           dl_patterns = [u ''9.1 - 9.1 Alpha...'', u ''9.2 - 9.2 Beta...'', u ''9.3 - 9.3 Gamma...'']\<rparr>]\<rparr>\<rparr>"
proof -
  have z: "zip [0 ..< length list_doc] list_doc = [(0, empty_page), (Suc 0, list_page)]"
    by (simp add: list_doc_def upt_rec)
  show ?thesis
    unfolding collect_outline_def z
    by (simp add: list_doc_empty_page_page_loop list_page_page_loop)
qed
lemma single_doc_empty_page_page_loop:
  "page_loop ([]) 12 [] (0, empty_page) st = st"
  by (simp add: page_loop_def empty_page_def)

lemma single_lines_0:
  "collect_spans (spans_of (single_lines ! 0)) ([], []) = (u ''9.1 Alpha '', [plain_span (u ''9.1 Alpha'') 12])"
  "merge_next (single_lines ! 0) (drop (Suc 0) single_lines) (u ''9.1 Alpha '') [plain_span (u ''9.1 Alpha'') 12]
     = (0, u ''9.1 Alpha '', [plain_span (u ''9.1 Alpha'') 12])"
  "(if strip (u ''9.1 Alpha '') \<noteq> [] then clean_extracted_text (strip (u ''9.1 Alpha '')) False
    else strip (u ''9.1 Alpha '')) = u ''9.1 Alpha''"
  by code_simp+

lemma single_lines_0_step:
  "process_line ([]) 12 (Suc 0) single_page [] single_lines 1 (single_lines ! 0) (u ''9.1 Alpha'') [plain_span (u ''9.1 Alpha'') 12]
     \<lparr>outline_acc = [],
      processed_texts = [],
      self_state = fresh\<rparr>
   = \<lparr>outline_acc = [\<lparr>h_level = H2, h_text = u ''9.1 Alpha '', h_page = 2\<rparr>],
      processed_texts = [u ''9.1 Alpha''],
      self_state = fresh\<rparr>"
  by code_simp

lemma single_lines_length: "length single_lines = 1"
  by (simp add: single_lines_def)

lemma single_lines_loop:
  "lines_loop ([]) 12 (Suc 0) single_page [] single_lines 0
     \<lparr>outline_acc = [],
      processed_texts = [],
      self_state = fresh\<rparr>
   = \<lparr>outline_acc = [\<lparr>h_level = H2, h_text = u ''9.1 Alpha '', h_page = 2\<rparr>],
      processed_texts = [u ''9.1 Alpha''],
      self_state = fresh\<rparr>"
proof -
  have "lines_loop ([]) 12 (Suc 0) single_page [] single_lines 0
     \<lparr>outline_acc = [],
      processed_texts = [],
      self_state = fresh\<rparr>
   = lines_loop ([]) 12 (Suc 0) single_page [] single_lines 1
     \<lparr>outline_acc = [\<lparr>h_level = H2, h_text = u ''9.1 Alpha '', h_page = 2\<rparr>],
      processed_texts = [u ''9.1 Alpha''],
      self_state = fresh\<rparr>"
    by (rule lines_loop_unfold[OF single_lines_0 single_lines_0_step]) (simp_all add: single_lines_length)
  also have "\<dots> = \<lparr>outline_acc = [\<lparr>h_level = H2, h_text = u ''9.1 Alpha '', h_page = 2\<rparr>],
      processed_texts = [u ''9.1 Alpha''],
      self_state = fresh\<rparr>"
    by (rule lines_loop_done) (simp add: single_lines_length)
  finally show ?thesis .
qed

lemma single_page_blocks: "page_blocks single_page = [TextBlock single_lines]"
  by (simp add: single_page_def page_of_def)

lemma single_page_page_loop:
  "page_loop ([]) 12 [] (Suc 0, single_page) \<lparr>outline_acc = [],
      processed_texts = [],
      self_state = fresh\<rparr>
   = \<lparr>outline_acc = [\<lparr>h_level = H2, h_text = u ''9.1 Alpha '', h_page = 2\<rparr>],
      processed_texts = [u ''9.1 Alpha''],
      self_state = fresh\<rparr>"
  by (simp add: page_loop_def single_page_blocks single_lines_loop)

lemma single_doc_title: "extract_title_from_text single_doc [] = []"
  by code_simp

lemma single_doc_collect:
  "collect_outline ([]) 12 [] single_doc fresh
   = \<lparr>outline_acc = [\<lparr>h_level = H2, h_text = u ''9.1 Alpha '', h_page = 2\<rparr>],
      processed_texts = [u ''9.1 Alpha''],
      self_state = fresh\<rparr>"
proof -
  have z: "zip [0 ..< length single_doc] single_doc = [(0, empty_page), (Suc 0, single_page)]"
    by (simp add: single_doc_def upt_rec)
  show ?thesis
    unfolding collect_outline_def z
    by (simp add: single_doc_empty_page_page_loop single_page_page_loop)
qed

lemma single_doc_sorted:
  "unique_outline (sorted_outline [\<lparr>h_level = H2, h_text = u ''9.1 Alpha '', h_page = 2\<rparr>]) []
   = [\<lparr>h_level = H2, h_text = u ''9.1 Alpha '', h_page = 2\<rparr>]"
  by code_simp
lemma pair_doc_empty_page_page_loop:
  "page_loop ([]) 12 [] (0, empty_page) st = st"
  by (simp add: page_loop_def empty_page_def)

lemma pair_lines_0:
  "collect_spans (spans_of (pair_lines ! 0)) ([], []) = (u ''9.1 Alpha '', [plain_span (u ''9.1 Alpha'') 12])"
  "merge_next (pair_lines ! 0) (drop (Suc 0) pair_lines) (u ''9.1 Alpha '') [plain_span (u ''9.1 Alpha'') 12]
     = (0, u ''9.1 Alpha '', [plain_span (u ''9.1 Alpha'') 12])"
  "(if strip (u ''9.1 Alpha '') \<noteq> [] then clean_extracted_text (strip (u ''9.1 Alpha '')) False
    else strip (u ''9.1 Alpha '')) = u ''9.1 Alpha''"
  by code_simp+

lemma pair_lines_0_step:
  "process_line ([]) 12 (Suc 0) pair_page [] pair_lines 1 (pair_lines ! 0) (u ''9.1 Alpha'') [plain_span (u ''9.1 Alpha'') 12]
     \<lparr>outline_acc = [],
      processed_texts = [],
      self_state = fresh\<rparr>
   = \<lparr>outline_acc = [\<lparr>h_level = H2, h_text = u ''9.1 Alpha '', h_page = 2\<rparr>],
      processed_texts = [u ''9.1 Alpha''],
      self_state = fresh\<rparr>"
  by code_simp

lemma pair_lines_1:
  "collect_spans (spans_of (pair_lines ! 1)) ([], []) = (u ''9.2 Beta '', [plain_span (u ''9.2 Beta'') 12])"
  "merge_next (pair_lines ! 1) (drop (Suc 1) pair_lines) (u ''9.2 Beta '') [plain_span (u ''9.2 Beta'') 12]
     = (0, u ''9.2 Beta '', [plain_span (u ''9.2 Beta'') 12])"
  "(if strip (u ''9.2 Beta '') \<noteq> [] then clean_extracted_text (strip (u ''9.2 Beta '')) False
    else strip (u ''9.2 Beta '')) = u ''9.2 Beta''"
  by code_simp+

lemma pair_lines_1_step:
  "process_line ([]) 12 (Suc 0) pair_page [] pair_lines 2 (pair_lines ! 1) (u ''9.2 Beta'') [plain_span (u ''9.2 Beta'') 12]
     \<lparr>outline_acc = [\<lparr>h_level = H2, h_text = u ''9.1 Alpha '', h_page = 2\<rparr>],
      processed_texts = [u ''9.1 Alpha''],
      self_state = fresh\<rparr>
   = \<lparr>outline_acc = [\<lparr>h_level = H2, h_text = u ''9.1 Alpha '', h_page = 2\<rparr>],
      processed_texts = [u ''9.1 Alpha''],
      self_state = \<lparr>detected_lists = [\<lparr>dl_text = u ''9.2 Beta'', dl_pattern_count = 2,
           dl_patterns = [u ''9.1 - 9.1 Alpha...'', u ''9.2 - 9.2 Beta...'']\<rparr>]\<rparr>\<rparr>"
  by code_simp

lemma pair_lines_length: "length pair_lines = 2"
  by (simp add: pair_lines_def)

lemma pair_lines_loop:
  "lines_loop ([]) 12 (Suc 0) pair_page [] pair_lines 0
     \<lparr>outline_acc = [],
      processed_texts = [],
      self_state = fresh\<rparr>
   = \<lparr>outline_acc = [\<lparr>h_level = H2, h_text = u ''9.1 Alpha '', h_page = 2\<rparr>],
      processed_texts = [u ''9.1 Alpha''],
      self_state = \<lparr>detected_lists = [\<lparr>dl_text = u ''9.2 Beta'', dl_pattern_count = 2,
           dl_patterns = [u ''9.1 - 9.1 Alpha...'', u ''9.2 - 9.2 Beta...'']\<rparr>]\<rparr>\<rparr>"
proof -
  have "lines_loop ([]) 12 (Suc 0) pair_page [] pair_lines 0
     \<lparr>outline_acc = [],
      processed_texts = [],
      self_state = fresh\<rparr>
   = lines_loop ([]) 12 (Suc 0) pair_page [] pair_lines 1
     \<lparr>outline_acc = [\<lparr>h_level = H2, h_text = u ''9.1 Alpha '', h_page = 2\<rparr>],
      processed_texts = [u ''9.1 Alpha''],
      self_state = fresh\<rparr>"
    by (rule lines_loop_unfold[OF pair_lines_0 pair_lines_0_step]) (simp_all add: pair_lines_length)
  also have "\<dots>
   = lines_loop ([]) 12 (Suc 0) pair_page [] pair_lines 2
     \<lparr>outline_acc = [\<lparr>h_level = H2, h_text = u ''9.1 Alpha '', h_page = 2\<rparr>],
      processed_texts = [u ''9.1 Alpha''],
      self_state = \<lparr>detected_lists = [\<lparr>dl_text = u ''9.2 Beta'', dl_pattern_count = 2,
           dl_patterns = [u ''9.1 - 9.1 Alpha...'', u ''9.2 - 9.2 Beta...'']\<rparr>]\<rparr>\<rparr>"
    by (rule lines_loop_unfold[OF pair_lines_1 pair_lines_1_step]) (simp_all add: pair_lines_length)
  also have "\<dots> = \<lparr>outline_acc = [\<lparr>h_level = H2, h_text = u ''9.1 Alpha '', h_page = 2\<rparr>],
      processed_texts = [u ''9.1 Alpha''],
      self_state = \<lparr>detected_lists = [\<lparr>dl_text = u ''9.2 Beta'', dl_pattern_count = 2,
           dl_patterns = [u ''9.1 - 9.1 Alpha...'', u ''9.2 - 9.2 Beta...'']\<rparr>]\<rparr>\<rparr>"
    by (rule lines_loop_done) (simp add: pair_lines_length)
  finally show ?thesis .
qed

lemma pair_page_blocks: "page_blocks pair_page = [TextBlock pair_lines]"
  by (simp add: pair_page_def page_of_def)

lemma pair_page_page_loop:
  "page_loop ([]) 12 [] (Suc 0, pair_page) \<lparr>outline_acc = [],
      processed_texts = [],
      self_state = fresh\<rparr>
   = \<lparr>outline_acc = [\<lparr>h_level = H2, h_text = u ''9.1 Alpha '', h_page = 2\<rparr>],
      processed_texts = [u ''9.1 Alpha''],
      self_state = \<lparr>detected_lists = [\<lparr>dl_text = u ''9.2 Beta'', dl_pattern_count = 2,
           dl_patterns = [u ''9.1 - 9.1 Alpha...'', u ''9.2 - 9.2 Beta...'']\<rparr>]\<rparr>\<rparr>"
  by (simp add: page_loop_def pair_page_blocks pair_lines_loop)

lemma pair_doc_title: "extract_title_from_text pair_doc [] = []"
  by code_simp

lemma pair_doc_collect:
  "collect_outline ([]) 12 [] pair_doc fresh
   = \<lparr>outline_acc = [\<lparr>h_level = H2, h_text = u ''9.1 Alpha '', h_page = 2\<rparr>],
      processed_texts = [u ''9.1 Alpha''],
      self_state = \<lparr>detected_lists = [\<lparr>dl_text = u ''9.2 Beta'', dl_pattern_count = 2,
           dl_patterns = [u ''9.1 - 9.1 Alpha...'', u ''9.2 - 9.2 Beta...'']\<rparr>]\<rparr>\<rparr>"
proof -
  have z: "zip [0 ..< length pair_doc] pair_doc = [(0, empty_page), (Suc 0, pair_page)]"
    by (simp add: pair_doc_def upt_rec)
  show ?thesis
    unfolding collect_outline_def z
    by (simp add: pair_doc_empty_page_page_loop pair_page_page_loop)
qed

lemma pair_doc_sorted:
  "unique_outline (sorted_outline [\<lparr>h_level = H2, h_text = u ''9.1 Alpha '', h_page = 2\<rparr>]) []
   = [\<lparr>h_level = H2, h_text = u ''9.1 Alpha '', h_page = 2\<rparr>]"
  by code_simp
section \<open>The outlines of the example documents\<close>

lemma report_doc_clean_title:
  "clean_extracted_text (u ''Annual Report'') True = u ''Annual Report ''"
  "u ''Annual Report'' \<noteq> []" "u ''Annual Report'' \<noteq> u ''Untitled Document''"
  by code_simp+

lemma report_outline:
  "extract_outline fresh (pdf_of report_doc)
   = (\<lparr>res_title = u ''Annual Report '',
       res_outline = [\<lparr>h_level = H1, h_text = u ''OVERVIEW '', h_page = 1\<rparr>,
                      \<lparr>h_level = H1, h_text = u ''ANNUAL REPORT '', h_page = 2\<rparr>]\<rparr>, fresh)"
  by (simp add: extract_outline_def pdf_of_def Let_def report_doc_title report_doc_average
        report_doc_collect report_doc_sorted report_doc_clean_title)

lemma list_doc_average: "calculate_average_font_size list_doc = 12"
  by code_simp

lemma single_doc_average: "calculate_average_font_size single_doc = 12"
  by code_simp

text \<open>
  In the run of the assembler, each of the three numbered lines of one block is
  suppressed as a list item and recorded in the instance state, and the numbered line
  that is alone in its block becomes a heading.
\<close>

lemma list_doc_outline:
  "fst (extract_outline fresh (pdf_of list_doc)) = \<lparr>res_title = [], res_outline = []\<rparr>"
  "map dl_text (detected_lists (snd (extract_outline fresh (pdf_of list_doc))))
     = [u ''9.1 Alpha'', u ''9.2 Beta'', u ''9.3 Gamma'']"
  by (simp_all add: extract_outline_def pdf_of_def Let_def list_doc_title list_doc_average
        list_doc_collect sorted_outline_def)

lemma single_doc_outline:
  "extract_outline fresh (pdf_of single_doc)
   = (\<lparr>res_title = [],
       res_outline = [\<lparr>h_level = H2, h_text = u ''9.1 Alpha '', h_page = 2\<rparr>]\<rparr>, fresh)"
  by (simp add: extract_outline_def pdf_of_def Let_def single_doc_title single_doc_average
        single_doc_collect single_doc_sorted)

lemma pair_doc_average: "calculate_average_font_size pair_doc = 12"
  by code_simp

lemma pair_doc_outline:
  "fst (extract_outline fresh (pdf_of pair_doc))
   = \<lparr>res_title = [],
       res_outline = [\<lparr>h_level = H2, h_text = u ''9.1 Alpha '', h_page = 2\<rparr>]\<rparr>"
  "map dl_text (detected_lists (snd (extract_outline fresh (pdf_of pair_doc))))
     = [u ''9.2 Beta'']"
  by (simp_all add: extract_outline_def pdf_of_def Let_def pair_doc_title pair_doc_average
        pair_doc_collect pair_doc_sorted)

lemma pair_lines_neighbours:
  "length (filter (same_major (int_of_digits (u ''9''))) (neighbours pair_lines (Suc 0))) = 1"
  "length (filter (same_major (int_of_digits (u ''9''))) (neighbours pair_lines 2)) = 2"
  by code_simp+

lemma pair_lines_list_item:
  "\<not> fst (is_likely_list_item fresh (u ''9.2 Beta'') pair_lines (Suc 0))"
  "fst (is_likely_list_item fresh (u ''9.2 Beta'') pair_lines 2)"
  by (simp_all add: list_item_iff[OF match_numbered_beta] pair_lines_neighbours)

text \<open>
  C5. The claim is that a line that starts with \<open>major.minor\<close> and a white space is a
  list item exactly when at least two of its neighbours in the block (up to ten lines
  before it and up to ten after it) start with the same major number. The detector
  computes this from the index it is given, but \<open>extract_outline\<close> calls it with the
  index already advanced past the line. In a block of the two lines \<open>9.1 Alpha\<close> and
  \<open>9.2 Beta\<close> the line \<open>9.2 Beta\<close> has one such neighbour, and the detector is false at
  its index 1; the assembler calls it with the index 2, where the line counts itself,
  and suppresses the line.
\<close>

theorem list_item_index_shifted:
  "length (filter (same_major (int_of_digits (u ''9''))) (neighbours pair_lines 1)) = 1
   \<and> \<not> fst (is_likely_list_item fresh (u ''9.2 Beta'') pair_lines 1)
   \<and> fst (is_likely_list_item fresh (u ''9.2 Beta'') pair_lines 2)
   \<and> res_outline (fst (extract_outline fresh (pdf_of pair_doc)))
       = [\<lparr>h_level = H2, h_text = u ''9.1 Alpha '', h_page = 2\<rparr>]
   \<and> map dl_text (detected_lists (snd (extract_outline fresh (pdf_of pair_doc))))
       = [u ''9.2 Beta'']"
  by (simp add: pair_lines_neighbours(1) pair_lines_list_item pair_doc_outline)

section \<open>Properties of the outline\<close>

text \<open>
  C1. For every document, no two records of the outline that \<open>extract_outline\<close> returns
  have the same pair of level and text, and the records are in non-decreasing order of
  the page number and, for equal page numbers, of the text (the order of Python on
  strings, which compares code points).
\<close>

theorem outline_sorted_unique:
  fixes self :: extractor and pdf :: pdf_file
  defines "out \<equiv> res_outline (fst (extract_outline self pdf))"
  shows "distinct (map (\<lambda>h. (h_level h, h_text h)) out)
       \<and> sorted_wrt (\<lambda>a b. h_page a < h_page b \<or> (h_page a = h_page b \<and> h_text a \<le> h_text b)) out"
proof (cases "decoded pdf")
  case None
  then show ?thesis by (simp add: out_def extract_outline_def)
next
  case (Some doc)
  define acc where "acc = outline_acc (collect_outline (extract_title_from_text doc (first_page_tables pdf))
      (calculate_average_font_size doc) (tables pdf) doc self)"
  have out: "out = unique_outline (sorted_outline acc) []"
    by (simp add: out_def extract_outline_def Some Let_def acc_def)
  have "sorted_wrt page_text_le out"
    unfolding out by (rule sorted_unique_outline) (rule sorted_sorted_outline)
  then have "sorted_wrt (\<lambda>a b. h_page a < h_page b \<or> (h_page a = h_page b \<and> h_text a \<le> h_text b)) out"
    by (rule sorted_wrt_mono_rel[rotated]) (simp add: page_text_le_def)
  moreover have "distinct (map (\<lambda>h. (h_level h, h_text h)) out)"
    unfolding out using keys_unique_outline by blast
  ultimately show ?thesis by simp
qed









section \<open>Determinism\<close>

lemma is_likely_list_item_self:
  "fst (is_likely_list_item self line_text lines i) = fst (is_likely_list_item self' line_text lines i)"
  by (simp add: is_likely_list_item_def Let_def split: option.splits prod.splits)

lemma process_line_same_local:
  assumes "same_local st1 st2"
  shows "same_local (process_line title avg pn pg pt lines i li lt ss st1)
                    (process_line title avg pn pg pt lines i li lt ss st2)"
proof -
  have f: "fst (is_likely_list_item (self_state st1) lt lines i) = fst (is_likely_list_item (self_state st2) lt lines i)"
    by (rule is_likely_list_item_self)
  obtain b1 s1 where r1: "is_likely_list_item (self_state st1) lt lines i = (b1, s1)"
    by (cases "is_likely_list_item (self_state st1) lt lines i")
  obtain b2 s2 where r2: "is_likely_list_item (self_state st2) lt lines i = (b2, s2)"
    by (cases "is_likely_list_item (self_state st2) lt lines i")
  have b: "b1 = b2" using f r1 r2 by simp
  show ?thesis
    using assms
    by (auto simp: process_line_def same_local_def Let_def r1 r2 b split: option.splits bool.splits)
qed

lemma lines_loop_step_all:
  assumes "i < length lines"
  shows "\<exists>i' lt ss. i < i' \<and> (\<forall>st.
     lines_loop title avg pn pg pt lines i st =
     lines_loop title avg pn pg pt lines i' (process_line title avg pn pg pt lines i' (lines ! i) lt ss st))"
proof -
  obtain lt0 ss0 where c: "collect_spans (spans_of (lines ! i)) ([], []) = (lt0, ss0)"
    by (cases "collect_spans (spans_of (lines ! i)) ([], [])")
  obtain k lt1 ss where m: "merge_next (lines ! i) (drop (Suc i) lines) lt0 ss0 = (k, lt1, ss)"
    by (cases "merge_next (lines ! i) (drop (Suc i) lines) lt0 ss0")
  have "\<forall>st. lines_loop title avg pn pg pt lines i st =
     lines_loop title avg pn pg pt lines (i + k + 1)
       (process_line title avg pn pg pt lines (i + k + 1) (lines ! i)
          (if strip lt1 \<noteq> [] then clean_extracted_text (strip lt1) False else strip lt1) ss st)"
  proof
    fix st
    show "lines_loop title avg pn pg pt lines i st =
     lines_loop title avg pn pg pt lines (i + k + 1)
       (process_line title avg pn pg pt lines (i + k + 1) (lines ! i)
          (if strip lt1 \<noteq> [] then clean_extracted_text (strip lt1) False else strip lt1) ss st)"
      by (subst lines_loop.simps) (simp add: assms c m Let_def)
  qed
  moreover have "i < i + k + 1" by simp
  ultimately show ?thesis by blast
qed

lemma lines_loop_same_local:
  "same_local st1 st2 \<Longrightarrow>
   same_local (lines_loop title avg pn pg pt lines i st1) (lines_loop title avg pn pg pt lines i st2)"
proof (induction "length lines - i" arbitrary: i st1 st2 rule: less_induct)
  case less
  show ?case
  proof (cases "i < length lines")
    case False
    then show ?thesis using less.prems by (simp add: lines_loop.simps[of _ _ _ _ _ lines i])
  next
    case True
    from lines_loop_step_all[OF True, of title avg pn pg pt]
    obtain i' lt ss where i': "i < i'"
      and eq: "\<And>st. lines_loop title avg pn pg pt lines i st =
        lines_loop title avg pn pg pt lines i' (process_line title avg pn pg pt lines i' (lines ! i) lt ss st)"
      by blast
    have "length lines - i' < length lines - i" using True i' by simp
    moreover have "same_local (process_line title avg pn pg pt lines i' (lines ! i) lt ss st1)
                              (process_line title avg pn pg pt lines i' (lines ! i) lt ss st2)"
      using less.prems by (rule process_line_same_local)
    ultimately show ?thesis unfolding eq by (rule less.hyps)
  qed
qed

lemma fold_same_local:
  assumes "\<And>x s1 s2. same_local s1 s2 \<Longrightarrow> same_local (f x s1) (f x s2)"
  shows "same_local s1 s2 \<Longrightarrow> same_local (fold f xs s1) (fold f xs s2)"
  using assms by (induction xs arbitrary: s1 s2) auto

lemma page_loop_same_local:
  assumes "same_local st1 st2"
  shows "same_local (page_loop title avg all_tables np st1) (page_loop title avg all_tables np st2)"
proof -
  obtain pn pg where np: "np = (pn, pg)" by (cases np)
  show ?thesis
    unfolding page_loop_def np prod.case Let_def
  proof (rule fold_same_local[OF _ assms])
    fix b s1 s2
    assume "same_local s1 s2"
    then show "same_local
       (case b of TextBlock lines \<Rightarrow> lines_loop title avg pn pg [box. (p, box) \<leftarrow> all_tables, p = pn + 1] lines 0 s1
        | OtherBlock \<Rightarrow> s1)
       (case b of TextBlock lines \<Rightarrow> lines_loop title avg pn pg [box. (p, box) \<leftarrow> all_tables, p = pn + 1] lines 0 s2
        | OtherBlock \<Rightarrow> s2)"
      by (cases b) (auto intro: lines_loop_same_local)
  qed
qed

lemma collect_outline_self:
  "outline_acc (collect_outline title avg all_tables doc self1)
   = outline_acc (collect_outline title avg all_tables doc self2)"
proof -
  have "same_local (collect_outline title avg all_tables doc self1) (collect_outline title avg all_tables doc self2)"
    unfolding collect_outline_def
  proof (rule fold_same_local)
    show "same_local \<lparr>outline_acc = [], processed_texts = [], self_state = self1\<rparr>
            \<lparr>outline_acc = [], processed_texts = [], self_state = self2\<rparr>"
      by (simp add: same_local_def)
  next
    fix x s1 s2
    assume "same_local s1 s2"
    then show "same_local (page_loop title avg all_tables x s1) (page_loop title avg all_tables x s2)"
      by (rule page_loop_same_local)
  qed
  then show ?thesis by (simp add: same_local_def)
qed

lemma extract_outline_self:
  "fst (extract_outline self1 pdf) = fst (extract_outline self2 pdf)"
  using collect_outline_self[of _ _ _ _ self1 self2]
  by (simp add: extract_outline_def Let_def split: option.splits)

text \<open>
  C9. The result of \<open>extract_outline\<close> on a file does not depend on the state of the
  instance: two runs on the same document, tables and boxes return the same title and
  outline, also when the second run starts from the state that the first has left (with
  the list diagnostics that it has accumulated).
\<close>

theorem extract_outline_deterministic:
  "fst (extract_outline self1 pdf) = fst (extract_outline self2 pdf)
   \<and> fst (extract_outline (snd (extract_outline self1 pdf)) pdf) = fst (extract_outline self1 pdf)"
  using extract_outline_self by blast

text \<open>A run does change the state of the instance: the example with the list.\<close>

lemma list_doc_changes_state: "snd (extract_outline fresh (pdf_of list_doc)) \<noteq> fresh"
  using list_doc_outline(2) by (auto simp: fresh_def)

section \<open>Batch processing\<close>

lemma process_files_events:
  "fst (process_files self jobs) =
     map (\<lambda>j. if job_writable j then Saved (job_name j) (fst (extract_outline self (job_pdf j)))
               else Failed (job_name j)) jobs"
proof (induction jobs arbitrary: self)
  case Nil
  then show ?case by simp
next
  case (Cons j js)
  obtain r s where e: "extract_outline self (job_pdf j) = (r, s)" by (cases "extract_outline self (job_pdf j)")
  obtain evs s' where p: "process_files s js = (evs, s')" by (cases "process_files s js")
  have evs: "evs = map (\<lambda>j. if job_writable j then Saved (job_name j) (fst (extract_outline s (job_pdf j)))
               else Failed (job_name j)) js"
    using Cons[of s] p by simp
  have same: "\<And>j. fst (extract_outline s (job_pdf j)) = fst (extract_outline self (job_pdf j))"
    by (rule extract_outline_self)
  have "fst (process_files self (j # js)) =
          (if job_writable j then Saved (job_name j) r else Failed (job_name j)) # evs"
    by (simp add: e p Let_def)
  also have "r = fst (extract_outline self (job_pdf j))" by (simp add: e)
  finally show ?case by (simp add: evs same)
qed

lemma process_directory_events:
  "fst (process_directory self jobs) =
     map (\<lambda>j. if job_writable j then Saved (job_name j) (fst (extract_outline self (job_pdf j)))
               else Failed (job_name j)) jobs"
  by (simp add: process_directory_def process_files_events)

lemma unreadable_result:
  "extract_outline self unreadable_pdf = (\<lparr>res_title = [], res_outline = []\<rparr>, self)"
  by (simp add: extract_outline_def unreadable_pdf_def)

text \<open>
  C8. When the decoder fails on a file, \<open>extract_outline\<close> returns the empty title and
  the empty outline; and \<open>process_directory\<close> handles every file of the batch, in order:
  the event of a file is the result of \<open>extract_outline\<close> on that file alone when
  the result can be written, and a logged failure otherwise, whatever happened for the
  other files.
\<close>

theorem decode_failure_recovered:
  "fst (extract_outline self (pdf\<lparr>decoded := None\<rparr>)) = \<lparr>res_title = [], res_outline = []\<rparr>
   \<and> fst (process_directory self jobs) =
       map (\<lambda>j. if job_writable j then Saved (job_name j) (fst (extract_outline self (job_pdf j)))
                 else Failed (job_name j)) jobs"
  by (simp add: extract_outline_def process_directory_events)

text \<open>A batch of an unreadable file, the example report and a file that cannot be written.\<close>

lemma batch_example:
  "fst (process_directory fresh
     [\<lparr>job_name = u ''bad'', job_pdf = unreadable_pdf, job_writable = True\<rparr>,
      \<lparr>job_name = u ''report'', job_pdf = pdf_of report_doc, job_writable = True\<rparr>,
      \<lparr>job_name = u ''locked'', job_pdf = pdf_of report_doc, job_writable = False\<rparr>])
   = [Saved (u ''bad'') \<lparr>res_title = [], res_outline = []\<rparr>,
      Saved (u ''report'')
        \<lparr>res_title = u ''Annual Report '',
          res_outline = [\<lparr>h_level = H1, h_text = u ''OVERVIEW '', h_page = 1\<rparr>,
                         \<lparr>h_level = H1, h_text = u ''ANNUAL REPORT '', h_page = 2\<rparr>]\<rparr>,
      Failed (u ''locked'')]"
  by (simp add: process_directory_events report_outline unreadable_result)


end
